theory Spec2Isabelle
  imports Complex_Main "HOL-Library.Word"
begin

section \<open>JavaScript values shared by all modules\<close>

text \<open>
  A thrown JavaScript value is either an \<open>Error\<close> instance, which carries a message,
  or some other value. Every \<open>throw\<close> and every rejected promise of the source is the
  \<open>Inl\<close> branch of a sum; \<open>Inr\<close> is the value returned or resolved.
\<close>

datatype thrown = Error string | NonError

section \<open>Share codes (src/lib/ipfs-mapping.ts)\<close>

subsection \<open>The regular expressions the validators are built from\<close>

text \<open>
  Only the constructs that occur in the two patterns are embedded: a literal character,
  a character class given by ranges (\<open>[a-z0-9]\<close>), concatenation and the bounded
  repetition \<open>r{n}\<close>. \<open>rx_match r s\<close> lists the remainders of \<open>s\<close> after every
  way of matching \<open>r\<close> at its start; a pattern anchored by \<open>^\<close> and \<open>$\<close> passes
  \<open>test\<close> when one match consumes the whole input.
\<close>

datatype rx =
    Lit char
  | Class "(char \<times> char) list"
  | Cat rx rx
  | Times nat rx

definition in_class :: "(char \<times> char) list \<Rightarrow> char \<Rightarrow> bool" where
  "in_class rs c = list_ex (\<lambda>(lo, hi). (of_char lo :: nat) \<le> of_char c \<and> (of_char c :: nat) \<le> of_char hi) rs"

fun rx_weight :: "rx \<Rightarrow> nat" where
  "rx_weight (Lit c) = 1"
| "rx_weight (Class rs) = 1"
| "rx_weight (Cat a b) = 1 + rx_weight a + rx_weight b"
| "rx_weight (Times n r) = 1 + n + rx_weight r"

function rx_match :: "rx \<Rightarrow> string \<Rightarrow> string list" where
  "rx_match (Lit c) s = (case s of [] \<Rightarrow> [] | x # xs \<Rightarrow> if x = c then [xs] else [])"
| "rx_match (Class rs) s = (case s of [] \<Rightarrow> [] | x # xs \<Rightarrow> if in_class rs x then [xs] else [])"
| "rx_match (Cat a b) s = concat (map (rx_match b) (rx_match a s))"
| "rx_match (Times 0 r) s = [s]"
| "rx_match (Times (Suc n) r) s = concat (map (rx_match (Times n r)) (rx_match r s))"
  by pat_completeness auto
termination
  by (relation "measure (\<lambda>(r, s). rx_weight r)") auto

definition rx_test :: "rx \<Rightarrow> string \<Rightarrow> bool" where
  "rx_test r s = ([] \<in> set (rx_match r s))"

text \<open>A literal run of characters, as the prefix \<open>privshare://0g-\<close> is in both patterns.\<close>

fun rx_str :: "string \<Rightarrow> rx \<Rightarrow> rx" where
  "rx_str [] r = r"
| "rx_str (c # cs) r = Cat (Lit c) (rx_str cs r)"

definition alnum :: rx where
  "alnum = Class [(CHR ''a'', CHR ''z''), (CHR ''0'', CHR ''9'')]"

subsection \<open>Constants\<close>

definition SHARE_CODE_PREFIX :: string where
  "SHARE_CODE_PREFIX = ''privshare://0g-''"

definition SHARE_CODE_BODY_GROUPS :: nat where
  "SHARE_CODE_BODY_GROUPS = 4"

definition SHARE_CODE_GROUP_LENGTH :: nat where
  "SHARE_CODE_GROUP_LENGTH = 4"

definition SHARE_CODE_ALPHABET :: string where
  "SHARE_CODE_ALPHABET = ''abcdefghijklmnopqrstuvwxyz0123456789''"

subsection \<open>The two validators\<close>

text \<open>
  The validator of the Pinata module (line 238):
  \<^verbatim>\<open>/^privshare:\/\/0g-[a-z0-9]{4}-[a-z0-9]{4}-[a-z0-9]{4}-[a-z0-9]{4}$/\<close>.
\<close>

definition pattern_ipfs :: rx where
  "pattern_ipfs =
     rx_str ''privshare://0g-''
       (Cat (Times 4 alnum) (Cat (Lit CHR ''-'')
       (Cat (Times 4 alnum) (Cat (Lit CHR ''-'')
       (Cat (Times 4 alnum) (Cat (Lit CHR ''-'')
       (Times 4 alnum)))))))"

definition validateShareCode_ipfs :: "string \<Rightarrow> bool" where
  "validateShareCode_ipfs shareCode = rx_test pattern_ipfs shareCode"

text \<open>
  The validator of the 0G module (line 286): an empty string is refused first, then the
  pattern \<^verbatim>\<open>^PREFIX([a-z0-9]{LEN}-){GROUPS-1}[a-z0-9]{LEN}$\<close> built from the constants.
\<close>

definition pattern_0g :: rx where
  "pattern_0g =
     rx_str SHARE_CODE_PREFIX
       (Cat (Times (SHARE_CODE_BODY_GROUPS - 1)
               (Cat (Times SHARE_CODE_GROUP_LENGTH alnum) (Lit CHR ''-'')))
            (Times SHARE_CODE_GROUP_LENGTH alnum))"

definition validateShareCode :: "string \<Rightarrow> bool" where
  "validateShareCode code = (if code = [] then False else rx_test pattern_0g code)"

subsection \<open>The grammar as the specification words it\<close>

text \<open>
  The specification's grammar: the prefix, then 4 groups of 4 lowercase-alphanumeric
  characters joined by \<open>-\<close>.
\<close>

definition is_group :: "string \<Rightarrow> bool" where
  "is_group g = (length g = 4 \<and> list_all (\<lambda>c. c \<in> set SHARE_CODE_ALPHABET) g)"

definition share_code_grammar :: "string \<Rightarrow> bool" where
  "share_code_grammar s =
     (\<exists>g1 g2 g3 g4. is_group g1 \<and> is_group g2 \<and> is_group g3 \<and> is_group g4 \<and>
        s = ''privshare://0g-'' @ g1 @ ''-'' @ g2 @ ''-'' @ g3 @ ''-'' @ g4)"

subsection \<open>The two generators\<close>

text \<open>
  \<open>Math.random()\<close> is a parameter: \<open>rnd k\<close> is the number its \<open>k\<close>-th call returns,
  a real in \<open>[0, 1)\<close> by the contract of \<open>Math.random\<close>. The index drawn by the source is
  \<open>Math.floor(Math.random() * chars.length)\<close>.
\<close>

definition random_index :: "(nat \<Rightarrow> real) \<Rightarrow> nat \<Rightarrow> string \<Rightarrow> nat" where
  "random_index rnd k chars = nat \<lfloor>rnd k * real (length chars)\<rfloor>"

text \<open>\<open>chars.charAt(i)\<close> is the empty string out of range; \<open>chars[i]\<close> is \<open>undefined\<close>
  there, which \<open>+=\<close> appends as the text \<open>undefined\<close>.\<close>

definition charAt :: "string \<Rightarrow> nat \<Rightarrow> string" where
  "charAt chars i = (if i < length chars then [chars ! i] else [])"

definition index_append :: "string \<Rightarrow> nat \<Rightarrow> string" where
  "index_append chars i = (if i < length chars then [chars ! i] else ''undefined'')"

text \<open>
  \<open>result.match(/.{1,4}/g)\<close>: the successive greedy matches of one to four characters
  other than a line terminator; \<open>null\<close> when there is none.
\<close>

definition is_line_terminator :: "char \<Rightarrow> bool" where
  "is_line_terminator c = (c = CHR 0x0A \<or> c = CHR 0x0D)"

function match_dot_1_4 :: "string \<Rightarrow> string list" where
  "match_dot_1_4 [] = []"
| "match_dot_1_4 (c # cs) =
     (if is_line_terminator c then match_dot_1_4 cs
      else (let more = takeWhile (\<lambda>x. \<not> is_line_terminator x) (take 3 cs)
            in (c # more) # match_dot_1_4 (drop (length more) cs)))"
  by pat_completeness auto
termination
  by (relation "measure length") auto

definition js_match_groups :: "string \<Rightarrow> string list option" where
  "js_match_groups s = (case match_dot_1_4 s of [] \<Rightarrow> None | g # gs \<Rightarrow> Some (g # gs))"

fun join :: "string \<Rightarrow> string list \<Rightarrow> string" where
  "join sep [] = []"
| "join sep [x] = x"
| "join sep (x # y # ys) = x @ sep @ join sep (y # ys)"

text \<open>\<open>generateRandomShareCode\<close> of the Pinata module (line 212).\<close>

definition generateRandomShareCode :: "(nat \<Rightarrow> real) \<Rightarrow> string" where
  "generateRandomShareCode rnd =
     (let chars = ''abcdefghijklmnopqrstuvwxyz0123456789'';
          result = concat (map (\<lambda>i. charAt chars (random_index rnd i chars)) [0..<16]);
          joined = (case js_match_groups result of
                      None \<Rightarrow> result
                    | Some gs \<Rightarrow> if join ''-'' gs = [] then result else join ''-'' gs);
          formatted = ''0g-'' @ joined
      in ''privshare://'' @ formatted)"

text \<open>
  \<open>randomGroup\<close> and \<open>generateShareCode\<close> of the 0G module (lines 272 and 281). The
  number of calls of \<open>Math.random\<close> made so far is threaded through.
\<close>

definition randomGroup :: "(nat \<Rightarrow> real) \<Rightarrow> nat \<Rightarrow> string \<times> nat" where
  "randomGroup rnd k =
     (concat (map (\<lambda>i. index_append SHARE_CODE_ALPHABET (random_index rnd (k + i) SHARE_CODE_ALPHABET))
                  [0..<SHARE_CODE_GROUP_LENGTH]),
      k + SHARE_CODE_GROUP_LENGTH)"

fun random_groups :: "(nat \<Rightarrow> real) \<Rightarrow> nat \<Rightarrow> nat \<Rightarrow> string list" where
  "random_groups rnd k 0 = []"
| "random_groups rnd k (Suc n) = (case randomGroup rnd k of (g, k') \<Rightarrow> g # random_groups rnd k' n)"

definition generateShareCode :: "(nat \<Rightarrow> real) \<Rightarrow> string" where
  "generateShareCode rnd = SHARE_CODE_PREFIX @ join ''-'' (random_groups rnd 0 SHARE_CODE_BODY_GROUPS)"

section \<open>The storage service (ZgStorageService)\<close>

subsection \<open>Download parameters of \<open>downloadFileData\<close> (lines 580 to 590)\<close>

text \<open>
  The transaction metadata \<open>fileInfo.tx\<close> of the storage node. Its fields are JavaScript
  numbers, that is IEEE 754 doubles, read from the answer of the node; the model gives
  the integer the node sent.
\<close>

record tx_info =
  tx_seq :: int
  tx_size :: int
  tx_startEntryIndex :: int

text \<open>
  An integer is a double when it has at most 53 significant bits. Any other integer is
  rounded to the nearest double, a tie going to the neighbour whose significand is even:
  \<open>round_double\<close> rounds to a multiple of the unit in the last place, \<open>2 ^ ulp_exponent\<close>.
  This is the rounding of a number read from JSON and of every sum and difference of two
  numbers (\<open>js_add\<close>, \<open>js_sub\<close>). The other operations the code applies are exact on
  doubles: the division of an integer by 256 or by 1024, the product of an integer with
  1024, \<open>Math.ceil\<close>, \<open>Math.floor\<close> and \<open>Math.min\<close>. The numbers of the model are
  finite, of magnitude below \<open>2 ^ 1024\<close>.
\<close>

function ulp_exponent :: "int \<Rightarrow> nat" where
  "ulp_exponent m = (if m < 2 ^ 53 then 0 else Suc (ulp_exponent (m div 2)))"
  by pat_completeness auto
termination
  by (relation "measure nat") auto

definition round_double :: "int \<Rightarrow> int" where
  "round_double n =
     (let u = 2 ^ ulp_exponent \<bar>n\<bar>;
          q = n div u;
          r = n mod u
      in if 2 * r < u then q * u
         else if u < 2 * r then (q + 1) * u
         else if even q then q * u else (q + 1) * u)"

definition js_add :: "int \<Rightarrow> int \<Rightarrow> int" where
  "js_add a b = round_double (a + b)"

definition js_sub :: "int \<Rightarrow> int \<Rightarrow> int" where
  "js_sub a b = round_double (a - b)"

definition DEFAULT_CHUNK_SIZE :: real where
  "DEFAULT_CHUNK_SIZE = 256"

definition DEFAULT_SEGMENT_MAX_CHUNKS :: real where
  "DEFAULT_SEGMENT_MAX_CHUNKS = 1024"

record download_params =
  numChunks :: int
  startSegmentIndex :: int
  endSegmentIndex :: int
  numTasks :: int

definition download_parameters :: "tx_info \<Rightarrow> download_params" where
  "download_parameters tx =
     (let txSize = round_double (tx_size tx);
          startEntryIndex = round_double (tx_startEntryIndex tx);
          nChunks = \<lceil>real_of_int txSize / DEFAULT_CHUNK_SIZE\<rceil>;
          startSeg = \<lfloor>real_of_int startEntryIndex / DEFAULT_SEGMENT_MAX_CHUNKS\<rfloor>;
          endSeg = \<lfloor>real_of_int (js_sub (js_add startEntryIndex nChunks) 1)
                     / DEFAULT_SEGMENT_MAX_CHUNKS\<rfloor>
      in \<lparr>numChunks = nChunks, startSegmentIndex = startSeg, endSegmentIndex = endSeg,
          numTasks = js_add (js_sub endSeg startSeg) 1\<rparr>)"

text \<open>
  The task loop \<open>for (taskInd = 0; taskInd < numTasks; taskInd++)\<close> runs once for each
  of these indices, in this order. The counter is a double as well: it reaches every
  index of a count up to \<open>2^53\<close>, the counts the model covers.
\<close>

definition task_indices :: "int \<Rightarrow> int list" where
  "task_indices n = map int [0..<nat n]"

subsection \<open>Results, collaborators and small JavaScript idioms\<close>

type_synonym bytes = "8 word list"

text \<open>\<open>error instanceof Error ? error.message : 'Unknown error'\<close>\<close>

definition error_message :: "thrown \<Rightarrow> string" where
  "error_message e = (case e of Error m \<Rightarrow> m | NonError \<Rightarrow> ''Unknown error'')"

text \<open>\<open>a || b\<close> on an optional string: an absent or empty \<open>a\<close> is falsy.\<close>

definition str_or :: "string option \<Rightarrow> string \<Rightarrow> string" where
  "str_or a b = (case a of None \<Rightarrow> b | Some s \<Rightarrow> if s = [] then b else s)"

text \<open>\<open>a || b\<close> on an optional number: an absent or zero \<open>a\<close> is falsy.\<close>

definition num_or :: "int option \<Rightarrow> int \<Rightarrow> int" where
  "num_or a b = (case a of None \<Rightarrow> b | Some n \<Rightarrow> if n = 0 then b else n)"

record DownloadResult =
  dr_success :: bool
  dr_data :: "bytes option"
  dr_error :: "string option"

record UploadResult =
  ur_success :: bool
  ur_txHash :: string
  ur_rootHash :: string
  ur_error :: "string option"

text \<open>What a storage node reports about a file (\<open>getFileInfo\<close>, \<open>queryFile\<close>).\<close>

record file_info =
  finalized :: bool
  tx :: "tx_info option"
  uploadedSegNum :: "int option"
  numSegments :: "int option"

text \<open>
  The SDK's \<open>Downloader\<close> as this code configures it: the nodes it was built from and the
  three fields the code assigns. A shard configuration is an opaque value of the SDK.
\<close>

type_synonym shard_config = nat

record downloader =
  dl_nodes :: "string list"
  dl_shardConfigs :: "shard_config list"
  dl_startSegmentIndex :: int
  dl_endSegmentIndex :: int

text \<open>
  The collaborators of a download, each given by the outcome of its call: \<open>Inl\<close> is a
  thrown value or a rejected promise. The first three fields are what \<open>initializeSDK\<close>
  depends on: whether \<open>this.indexer\<close> is set already, the loading of the SDK script and
  the construction of the indexer. A storage node is identified by its URL. The three
  calls of \<open>getFileLocations\<close> (in \<open>downloadFile\<close>, \<open>downloadFileData\<close> and the fallback)
  and the two \<open>getFileInfo\<close> loops (in \<open>downloadFile\<close> and the fallback) are numbered, so
  that the network may answer each differently.
\<close>

record sdk_state =
  indexer_set :: bool
  loadSDKFromCDN :: "thrown + unit"
  newIndexer :: "thrown + unit"

record download_env = sdk_state +
  getFileLocations :: "nat \<Rightarrow> string \<Rightarrow> thrown + string list option"
  getFileInfo :: "nat \<Rightarrow> string \<Rightarrow> string \<Rightarrow> thrown + file_info option"
  queryFile :: "string list \<Rightarrow> string \<Rightarrow> thrown + (file_info option \<times> thrown option)"
  getShardConfig :: "string \<Rightarrow> thrown + shard_config"
  downloadTask :: "downloader \<Rightarrow> file_info \<Rightarrow> int \<Rightarrow> int \<Rightarrow> int \<Rightarrow> bool
                     \<Rightarrow> thrown + (bytes option \<times> thrown option)"
  downloadSegmentByTxSeq :: "string \<Rightarrow> int \<Rightarrow> int \<Rightarrow> int \<Rightarrow> thrown + string option"
  decodeBase64 :: "string \<Rightarrow> thrown + bytes"

subsection \<open>\<open>initializeSDK\<close> (line 255)\<close>

definition initializeSDK :: "'a sdk_state_scheme \<Rightarrow> thrown + unit" where
  "initializeSDK env =
     (if indexer_set env then Inr ()
      else (case loadSDKFromCDN env of
              Inl e \<Rightarrow> Inl (Error (''Failed to initialize 0G Storage SDK: '' @ error_message e))
            | Inr _ \<Rightarrow>
                (case newIndexer env of
                   Inl e \<Rightarrow> Inl (Error (''Failed to initialize 0G Storage SDK: '' @ error_message e))
                 | Inr _ \<Rightarrow> Inr ())))"

subsection \<open>Looking for the file information, node by node (lines 496 and 697)\<close>

text \<open>
  The loop tries the nodes in order and stops at the first that returns information of a
  finalized file; a node that throws, returns nothing or returns a file that is not
  finalized is passed over. The second component lists the nodes asked, in order.
\<close>

fun find_file_info :: "(string \<Rightarrow> thrown + file_info option) \<Rightarrow> string list
                         \<Rightarrow> file_info option \<times> string list" where
  "find_file_info ask [] = (None, [])"
| "find_file_info ask (node # nodes) =
     (case ask node of
        Inr (Some info) \<Rightarrow>
          if finalized info then (Some info, [node])
          else (case find_file_info ask nodes of (r, asked) \<Rightarrow> (r, node # asked))
      | Inr None \<Rightarrow> (case find_file_info ask nodes of (r, asked) \<Rightarrow> (r, node # asked))
      | Inl e \<Rightarrow> (case find_file_info ask nodes of (r, asked) \<Rightarrow> (r, node # asked)))"


subsection \<open>\<open>getShardConfigs\<close> (line 660)\<close>

fun collect_shard_configs :: "(string \<Rightarrow> thrown + shard_config) \<Rightarrow> string list \<Rightarrow> shard_config list" where
  "collect_shard_configs ask [] = []"
| "collect_shard_configs ask (node # nodes) =
     (case ask node of
        Inr config \<Rightarrow> config # collect_shard_configs ask nodes
      | Inl e \<Rightarrow> collect_shard_configs ask nodes)"

definition getShardConfigs :: "download_env \<Rightarrow> string list \<Rightarrow> shard_config list option" where
  "getShardConfigs env storageNodes =
     (let configs = collect_shard_configs (getShardConfig env) storageNodes
      in if length configs > 0 then Some configs else None)"

subsection \<open>Reassembly (lines 632 to 647 and 769 to 784)\<close>

text \<open>
  Both paths end alike: no segment at all is an error, otherwise the segments collected
  are copied one after the other into one array.
\<close>

definition assemble :: "bytes list \<Rightarrow> thrown + bytes" where
  "assemble segments =
     (if length segments = 0 then Inl (Error ''No segments were successfully downloaded'')
      else Inr (concat segments))"

subsection \<open>\<open>downloadFileData\<close>: the primary path (line 536)\<close>

text \<open>
  The task loop (lines 605 to 630). Each task is one call of \<open>downloadTask\<close>. A task that
  throws, or that returns a task error, is logged and passed over (\<open>continue\<close>); so is a
  task that returns no data or an empty segment. Only non-empty segments are pushed. The
  indices of the tasks called are collected beside the segments.
\<close>

fun run_tasks :: "(int \<Rightarrow> thrown + (bytes option \<times> thrown option)) \<Rightarrow> int list
                    \<Rightarrow> bytes list \<times> int list" where
  "run_tasks task [] = ([], [])"
| "run_tasks task (taskInd # rest) =
     (case run_tasks task rest of (segments, calls) \<Rightarrow>
        (case task taskInd of
           Inl thrownError \<Rightarrow> (segments, taskInd # calls)
         | Inr (segmentData, Some taskError) \<Rightarrow> (segments, taskInd # calls)
         | Inr (None, None) \<Rightarrow> (segments, taskInd # calls)
         | Inr (Some d, None) \<Rightarrow>
             if length d > 0 then (d # segments, taskInd # calls) else (segments, taskInd # calls)))"

definition query_error_text :: "thrown option \<Rightarrow> string" where
  "query_error_text queryError =
     (case queryError of
        Some (Error m) \<Rightarrow> if m = [] then ''File not found'' else m
      | Some NonError \<Rightarrow> ''File not found''
      | None \<Rightarrow> ''File not found'')"

text \<open>
  The downloader is built from all the storage nodes of the file, and every task is
  handed to it: which node serves a task is the SDK's affair.
\<close>

definition primary_run :: "download_env \<Rightarrow> string list \<Rightarrow> shard_config list \<Rightarrow> file_info
                             \<Rightarrow> tx_info \<Rightarrow> bool \<Rightarrow> bytes list \<times> int list" where
  "primary_run env storageNodes shardConfigs fileInfo t withProof =
     (let p = download_parameters t;
          dl = \<lparr>dl_nodes = storageNodes, dl_shardConfigs = shardConfigs,
                dl_startSegmentIndex = startSegmentIndex p, dl_endSegmentIndex = endSegmentIndex p\<rparr>
      in run_tasks (\<lambda>taskInd. downloadTask env dl fileInfo 0 taskInd (numChunks p) withProof)
           (task_indices (numTasks p)))"

definition primary_tasks :: "download_env \<Rightarrow> string list \<Rightarrow> shard_config list \<Rightarrow> file_info
                               \<Rightarrow> tx_info \<Rightarrow> bool \<Rightarrow> bytes list" where
  "primary_tasks env storageNodes shardConfigs fileInfo t withProof =
     fst (primary_run env storageNodes shardConfigs fileInfo t withProof)"

definition downloadFileData_primary :: "download_env \<Rightarrow> string \<Rightarrow> bool \<Rightarrow> thrown + bytes" where
  "downloadFileData_primary env rootHash withProof =
     (case initializeSDK env of
        Inl e \<Rightarrow> Inl e
      | Inr _ \<Rightarrow>
     (case getFileLocations env 1 rootHash of
        Inl e \<Rightarrow> Inl e
      | Inr None \<Rightarrow> Inl (Error ''File not found on any storage node'')
      | Inr (Some storageNodes) \<Rightarrow>
          if length storageNodes = 0 then Inl (Error ''File not found on any storage node'')
          else
     (case queryFile env storageNodes rootHash of
        Inl e \<Rightarrow> Inl e
      | Inr (None, queryError) \<Rightarrow> Inl (Error (''Failed to query file: '' @ query_error_text queryError))
      | Inr (Some fileInfo, Some e) \<Rightarrow> Inl (Error (''Failed to query file: '' @ query_error_text (Some e)))
      | Inr (Some fileInfo, None) \<Rightarrow>
          if \<not> finalized fileInfo then Inl (Error ''File not finalized'')
          else
     (case tx fileInfo of
        None \<Rightarrow> Inl (Error ''File transaction info not available'')
      | Some t \<Rightarrow>
     (case getShardConfigs env storageNodes of
        None \<Rightarrow> Inl (Error ''Failed to get shard configs'')
      | Some shardConfigs \<Rightarrow>
          assemble (primary_tasks env storageNodes shardConfigs fileInfo t withProof))))))"

subsection \<open>\<open>downloadFileDataFallback\<close> (line 681)\<close>

text \<open>
  One iteration of the segment loop (lines 735 to 761), up to the test of the decoded
  data: the indices of the segment, the one call of \<open>downloadSegmentByTxSeq\<close> on the node,
  and the decoding. The call made is returned with the outcome. Reading a method of a
  missing node throws a \<open>TypeError\<close>.
\<close>

definition TypeError :: thrown where
  "TypeError = Error ''TypeError: cannot read properties of undefined''"

definition segment_end_index :: "tx_info \<Rightarrow> int \<Rightarrow> int" where
  "segment_end_index t i =
     min (js_add (i * 1024) 1024) \<lceil>real_of_int (round_double (tx_size t)) / DEFAULT_CHUNK_SIZE\<rceil>"

definition fetch_segment :: "download_env \<Rightarrow> string option \<Rightarrow> tx_info \<Rightarrow> int
                               \<Rightarrow> (string \<times> int \<times> int \<times> int) list \<times> (thrown + bytes)" where
  "fetch_segment env node t i =
     (let startIndex = i * 1024;
          endIndex = segment_end_index t i
      in case node of
           None \<Rightarrow> ([], Inl TypeError)
         | Some n \<Rightarrow>
             ([(n, tx_seq t, startIndex, endIndex)],
              (case downloadSegmentByTxSeq env n (tx_seq t) startIndex endIndex of
                 Inl e \<Rightarrow> Inl e
               | Inr None \<Rightarrow> Inl (Error ''Segment download returned null'')
               | Inr (Some segment) \<Rightarrow>
                   if segment = [] then Inl (Error ''Segment download returned null'')
                   else decodeBase64 env segment)))"

text \<open>
  The segment loop: a segment whose fetch throws, or whose data is empty, is passed over
  (\<open>continue\<close>). The calls made are collected beside the segments.
\<close>

fun fetch_segments :: "(int \<Rightarrow> (string \<times> int \<times> int \<times> int) list \<times> (thrown + bytes)) \<Rightarrow> int list
                         \<Rightarrow> bytes list \<times> (string \<times> int \<times> int \<times> int) list" where
  "fetch_segments fetch [] = ([], [])"
| "fetch_segments fetch (i # rest) =
     (case fetch i of (calls, outcome) \<Rightarrow>
        (case fetch_segments fetch rest of (segments, calls') \<Rightarrow>
           (case outcome of
              Inl segmentError \<Rightarrow> (segments, calls @ calls')
            | Inr segmentData \<Rightarrow>
                if length segmentData > 0 then (segmentData # segments, calls @ calls')
                else (segments, calls @ calls'))))"

definition first_node :: "string list \<Rightarrow> string option" where
  "first_node storageNodes = (case storageNodes of [] \<Rightarrow> None | n # _ \<Rightarrow> Some n)"

definition fallback_fetch :: "download_env \<Rightarrow> string list \<Rightarrow> file_info \<Rightarrow> tx_info
                                \<Rightarrow> bytes list \<times> (string \<times> int \<times> int \<times> int) list" where
  "fallback_fetch env storageNodes fileInfo t =
     (let nSegments = num_or (uploadedSegNum fileInfo) (num_or (numSegments fileInfo) 1);
          node = first_node storageNodes
      in fetch_segments (fetch_segment env node t) (task_indices nSegments))"

definition downloadFileDataFallback :: "download_env \<Rightarrow> string \<Rightarrow> bool \<Rightarrow> thrown + bytes" where
  "downloadFileDataFallback env rootHash withProof =
     (case getFileLocations env 2 rootHash of
        Inl e \<Rightarrow> Inl e
      | Inr None \<Rightarrow> Inl (Error ''File not found on any storage node'')
      | Inr (Some storageNodes) \<Rightarrow>
          if length storageNodes = 0 then Inl (Error ''File not found on any storage node'')
          else
     (case fst (find_file_info (getFileInfo env 1 rootHash) storageNodes) of
        None \<Rightarrow> Inl (Error ''File not found or not finalized'')
      | Some fileInfo \<Rightarrow>
     (case tx fileInfo of
        None \<Rightarrow> Inl (Error ''File transaction info not available'')
      | Some t \<Rightarrow> assemble (fst (fallback_fetch env storageNodes fileInfo t)))))"

text \<open>\<open>downloadFileData\<close>: whatever the primary path throws, the fallback is tried.\<close>

definition downloadFileData :: "download_env \<Rightarrow> string \<Rightarrow> bool \<Rightarrow> thrown + bytes" where
  "downloadFileData env rootHash withProof =
     (case downloadFileData_primary env rootHash withProof of
        Inr fileData \<Rightarrow> Inr fileData
      | Inl e \<Rightarrow> downloadFileDataFallback env rootHash withProof)"

subsection \<open>\<open>downloadFile\<close> (line 477)\<close>

text \<open>
  The body of the \<open>try\<close> block. Once \<open>initializeSDK\<close> has succeeded the indexer is set,
  which the call made again by \<open>downloadFileData\<close> finds.
\<close>

definition downloadFile_body :: "download_env \<Rightarrow> string \<Rightarrow> bool \<Rightarrow> thrown + bytes" where
  "downloadFile_body env rootHash withProof =
     (case initializeSDK env of
        Inl e \<Rightarrow> Inl e
      | Inr _ \<Rightarrow>
     (case getFileLocations env 0 rootHash of
        Inl e \<Rightarrow> Inl e
      | Inr None \<Rightarrow> Inl (Error ''File not found on any storage node'')
      | Inr (Some storageNodes) \<Rightarrow>
          if length storageNodes = 0 then Inl (Error ''File not found on any storage node'')
          else
     (case fst (find_file_info (getFileInfo env 0 rootHash) storageNodes) of
        None \<Rightarrow> Inl (Error ''File not found or not finalized'')
      | Some fileInfo \<Rightarrow> downloadFileData (env\<lparr>indexer_set := True\<rparr>) rootHash withProof)))"

text \<open>
  The method: the \<open>catch\<close> turns every thrown value into a result. \<open>Inr\<close> is the resolved
  promise; the method has no path to \<open>Inl\<close>, a rejected one.
\<close>

definition downloadFile :: "download_env \<Rightarrow> string \<Rightarrow> bool \<Rightarrow> thrown + DownloadResult" where
  "downloadFile env rootHash withProof =
     (case downloadFile_body env rootHash withProof of
        Inr fileData \<Rightarrow> Inr \<lparr>dr_success = True, dr_data = Some fileData, dr_error = None\<rparr>
      | Inl e \<Rightarrow> Inr \<lparr>dr_success = False, dr_data = None, dr_error = Some (error_message e)\<rparr>)"

subsection \<open>Task and segment outcomes\<close>

text \<open>
  A task of the primary path succeeded when it returned a non-empty segment and no task
  error; a segment of the fallback path was fetched when its data decoded to a non-empty
  array. These are the outcomes the two loops push.
\<close>

definition task_succeeded :: "thrown + (bytes option \<times> thrown option) \<Rightarrow> bool" where
  "task_succeeded r = (case r of Inr (Some d, None) \<Rightarrow> d \<noteq> [] | _ \<Rightarrow> False)"

definition task_segment :: "thrown + (bytes option \<times> thrown option) \<Rightarrow> bytes" where
  "task_segment r = (case r of Inr (Some d, None) \<Rightarrow> d | _ \<Rightarrow> [])"

definition segment_fetched :: "thrown + bytes \<Rightarrow> bool" where
  "segment_fetched r = (case r of Inr d \<Rightarrow> d \<noteq> [] | Inl e \<Rightarrow> False)"

definition segment_data :: "thrown + bytes \<Rightarrow> bytes" where
  "segment_data r = (case r of Inr d \<Rightarrow> d | Inl e \<Rightarrow> [])"

subsection \<open>\<open>uploadFile\<close> (line 281)\<close>

text \<open>Decimal text of an integer, as a template string renders a chain id.\<close>

function show_nat :: "nat \<Rightarrow> string" where
  "show_nat n = (if n < 10 then [char_of (48 + n)] else show_nat (n div 10) @ [char_of (48 + n mod 10)])"
  by pat_completeness auto
termination
  by (relation "measure id") auto

definition show_int :: "int \<Rightarrow> string" where
  "show_int i = (if i < 0 then CHR ''-'' # show_nat (nat (- i)) else show_nat (nat i))"

text \<open>
  The wallet signer and its provider, by the outcomes of their calls. \<open>getAddress\<close> is
  called five times in \<open>uploadFile\<close>; the calls are numbered from 0.
\<close>

record signer =
  getAddress :: "nat \<Rightarrow> thrown + string"
  getNetwork :: "thrown + int"
  getBlockNumber :: "thrown + int"
  getFeeData :: "thrown + unit"
  getBalance :: "thrown + int"
  estimateGas :: "thrown + int"

text \<open>What \<open>indexer.upload\<close> returns beside its error.\<close>

record upload_tx =
  up_rootHash :: "string option"
  up_txHash :: "string option"

text \<open>
  The SDK's part of an upload: building the blob, its Merkle tree (the tree, given by the
  outcome of its \<open>rootHash()\<close>, and the error, given by its text) and the upload itself.
\<close>

record 'f upload_env = sdk_state +
  newBlob :: "'f \<Rightarrow> thrown + unit"
  merkleTree :: "'f \<Rightarrow> thrown + ((thrown + string option) option \<times> string option)"
  upload :: "'f \<Rightarrow> thrown + (upload_tx option \<times> string option)"

text \<open>
  The network validation (lines 394 to 433): whatever it throws is thrown again as
  \<open>Network validation failed: ...\<close>; a failing gas estimate is only logged.
\<close>

definition validate_network :: "signer \<Rightarrow> thrown + unit" where
  "validate_network sg =
     (case getBlockNumber sg of
        Inl e \<Rightarrow> Inl (Error (''Network validation failed: '' @ error_message e))
      | Inr blockNumber \<Rightarrow>
     (case getFeeData sg of
        Inl e \<Rightarrow> Inl (Error (''Network validation failed: '' @ error_message e))
      | Inr feeData \<Rightarrow>
     (case getAddress sg 4 of
        Inl e \<Rightarrow> Inl (Error (''Network validation failed: '' @ error_message e))
      | Inr signerAddress \<Rightarrow>
     (case getBalance sg of
        Inl e \<Rightarrow> Inl (Error (''Network validation failed: '' @ error_message e))
      | Inr balance \<Rightarrow> Inr ()))))"

text \<open>
  The inner \<open>try\<close> block (lines 342 to 462); its \<open>catch\<close> throws the error on. The
  call of \<open>getAddress\<close> numbered 3 and the gas estimates stand in \<open>try\<close> blocks whose
  \<open>catch\<close> only logs, so their outcomes change nothing.
\<close>

definition upload_to_network :: "'f upload_env \<Rightarrow> 'f \<Rightarrow> signer \<Rightarrow> string option \<Rightarrow> thrown + UploadResult" where
  "upload_to_network env file sg rootHash =
     (case getAddress sg 2 of
        Inl e \<Rightarrow> Inl e
      | Inr address \<Rightarrow>
     (case getNetwork sg of
        Inl e \<Rightarrow> Inl e
      | Inr chainId \<Rightarrow>
          if chainId \<noteq> 16602
          then Inl (Error (''Wrong network! Expected chainId 16602, got '' @ show_int chainId))
          else
     (case validate_network sg of
        Inl e \<Rightarrow> Inl e
      | Inr _ \<Rightarrow>
     (case upload env file of
        Inl e \<Rightarrow> Inl e
      | Inr (result, Some uploadErr) \<Rightarrow> Inl (Error (''Upload error: '' @ uploadErr))
      | Inr (None, None) \<Rightarrow> Inl TypeError
      | Inr (Some result, None) \<Rightarrow>
          Inr \<lparr>ur_success = True,
               ur_txHash = str_or (up_txHash result) '''',
               ur_rootHash = str_or (up_rootHash result) (str_or rootHash ''''),
               ur_error = None\<rparr>))))"

text \<open>The body of the outer \<open>try\<close> block.\<close>

definition uploadFile_body :: "'f upload_env \<Rightarrow> 'f \<Rightarrow> signer option \<Rightarrow> thrown + UploadResult" where
  "uploadFile_body env file signer =
     (case signer of
        None \<Rightarrow> Inl (Error ''Wallet not connected'')
      | Some sg \<Rightarrow>
     (case initializeSDK env of
        Inl e \<Rightarrow> Inl e
      | Inr _ \<Rightarrow>
     (case getAddress sg 0 of
        Inl e \<Rightarrow> Inl e
      | Inr address \<Rightarrow>
     (case newBlob env file of
        Inl e \<Rightarrow> Inl e
      | Inr zgBlob \<Rightarrow>
     (case merkleTree env file of
        Inl e \<Rightarrow> Inl e
      | Inr (tree, Some treeErr) \<Rightarrow> Inl (Error (''Error generating Merkle tree: '' @ treeErr))
      | Inr (tree, None) \<Rightarrow>
     (case (case tree of None \<Rightarrow> Inr None | Some rootOutcome \<Rightarrow> rootOutcome) of
        Inl e \<Rightarrow> Inl e
      | Inr rootHash \<Rightarrow>
     (case getAddress sg 1 of
        Inl e \<Rightarrow> Inl e
      | Inr address' \<Rightarrow> upload_to_network env file sg rootHash)))))))"

text \<open>
  The method: the outer \<open>catch\<close> turns every thrown value into a result. \<open>Inr\<close> is the
  resolved promise; the method has no path to \<open>Inl\<close>, a rejected one.
\<close>

definition uploadFile :: "'f upload_env \<Rightarrow> 'f \<Rightarrow> signer option \<Rightarrow> thrown + UploadResult" where
  "uploadFile env file signer =
     (case uploadFile_body env file signer of
        Inr result \<Rightarrow> Inr result
      | Inl e \<Rightarrow> Inr \<lparr>ur_success = False, ur_txHash = '''', ur_rootHash = '''',
                      ur_error = Some (error_message e)\<rparr>)"

section \<open>Mapping a share code to a file (src/lib/ipfs-mapping.ts)\<close>

subsection \<open>Effects\<close>

text \<open>
  The functions of this module and the hooks return, beside their result, the calls they
  made to the outside, in order: requests over the network, accesses to the browser's
  local storage, and the call of the decryption capability.
\<close>

datatype event =
    PinataPinJSON string
  | PinataPinList string
  | GatewayGet string
  | ZgUploadFile string
  | ZgDownloadFile string bool
  | LocalGet string
  | LocalSet string
  | DecryptBlob bytes string string

fun is_network :: "event \<Rightarrow> bool" where
  "is_network (PinataPinJSON n) = True"
| "is_network (PinataPinList c) = True"
| "is_network (GatewayGet h) = True"
| "is_network (ZgUploadFile f) = True"
| "is_network (ZgDownloadFile r p) = True"
| "is_network (LocalGet k) = False"
| "is_network (LocalSet k) = False"
| "is_network (DecryptBlob d k i) = False"

text \<open>\<open>s.replace(pat, by)\<close> with a string pattern replaces its first occurrence.\<close>

fun replace_first :: "string \<Rightarrow> string \<Rightarrow> string \<Rightarrow> string" where
  "replace_first pat by [] = (if pat = [] then by else [])"
| "replace_first pat by (c # cs) =
     (if take (length pat) (c # cs) = pat then by @ drop (length pat) (c # cs)
      else c # replace_first pat by cs)"

subsection \<open>The 0G module: records and the local cache\<close>

text \<open>
  \<open>MappingRecord\<close>. A record read back from the cache may carry more properties than
  the type names (a stored \<open>encryptionKey\<close>, say): they are the extension of the record.
\<close>

record MappingRecord =
  mr_rootHash :: string
  mr_iv :: "string option"
  mr_fileName :: "string option"
  mr_fileSize :: "int option"
  mr_mimeType :: "string option"
  mr_uploader :: "string option"
  mr_uploadTime :: "int option"
  mr_txHash :: "string option"

text \<open>
  The browser: \<open>window.localStorage\<close> may be missing, and reading it may throw;
  \<open>getItem\<close> returns the text stored under a key or \<open>null\<close>. \<open>JSON.parse\<close> is a
  parameter: it throws, or returns a record, or a falsy value (\<open>None\<close>).
\<close>

record 'x browser =
  localStorage :: "thrown + (string \<Rightarrow> thrown + string option) option"
  JSON_parse :: "string \<Rightarrow> thrown + 'x MappingRecord_scheme option"

definition mapping_key :: "string \<Rightarrow> string" where
  "mapping_key shareCode = ''privshare:mapping:'' @ shareCode"

definition loadMappingLocally :: "('x, 'z) browser_scheme \<Rightarrow> string \<Rightarrow> event list \<times> 'x MappingRecord_scheme option" where
  "loadMappingLocally env shareCode =
     (case localStorage env of
        Inl e \<Rightarrow> ([], None)
      | Inr None \<Rightarrow> ([], None)
      | Inr (Some getItem) \<Rightarrow>
          ([LocalGet (mapping_key shareCode)],
           (case getItem (mapping_key shareCode) of
              Inl e \<Rightarrow> None
            | Inr None \<Rightarrow> None
            | Inr (Some raw) \<Rightarrow>
                if raw = [] then None
                else (case JSON_parse env raw of Inl e \<Rightarrow> None | Inr v \<Rightarrow> v))))"

definition extractCodeFromShareCode :: "string \<Rightarrow> thrown + string" where
  "extractCodeFromShareCode code =
     (if \<not> validateShareCode code then Inl (Error ''Invalid share code format'')
      else Inr (replace_first SHARE_CODE_PREFIX [] code))"

subsection \<open>\<open>getMappingFrom0G\<close> (line 372)\<close>

definition getMappingFrom0G :: "('x, 'z) browser_scheme \<Rightarrow> string \<Rightarrow> event list \<times> (thrown + 'x MappingRecord_scheme)" where
  "getMappingFrom0G env shareCode =
     (if \<not> validateShareCode shareCode then ([], Inl (Error ''Invalid share code format''))
      else (case loadMappingLocally env shareCode of
              (evs, Some cached) \<Rightarrow> (evs, Inr cached)
            | (evs, None) \<Rightarrow> (evs, Inl (Error ''Mapping record not found.''))))"

subsection \<open>\<open>storeMappingTo0G\<close> (line 340)\<close>

text \<open>
  \<open>JSON.stringify\<close> of the payload is a parameter. The upload is \<open>zgStorage.uploadFile\<close>
  above, on the text as the file. Writing the cache may fail, which is only logged.
\<close>

record store_result =
  sr_rootHash :: "string option"
  sr_txHash :: "string option"

definition storeMappingTo0G ::
  "string upload_env \<Rightarrow> (string \<Rightarrow> 'x MappingRecord_scheme \<Rightarrow> string) \<Rightarrow> bool \<Rightarrow> string
     \<Rightarrow> 'x MappingRecord_scheme \<Rightarrow> signer option \<Rightarrow> event list \<times> (thrown + store_result)" where
  "storeMappingTo0G env stringify hasLocalStorage shareCode record signer =
     (if \<not> validateShareCode shareCode then ([], Inl (Error ''Invalid share code format''))
      else
     (case extractCodeFromShareCode shareCode of
        Inl e \<Rightarrow> ([], Inl e)
      | Inr code \<Rightarrow>
          (let json = stringify code record;
               saved = (if hasLocalStorage then [LocalSet (mapping_key shareCode)] else [])
           in case uploadFile env json signer of
                Inl e \<Rightarrow> ([ZgUploadFile json], Inl e)
              | Inr res \<Rightarrow>
                  (ZgUploadFile json # saved,
                   Inr \<lparr>sr_rootHash = Some (ur_rootHash res), sr_txHash = Some (ur_txHash res)\<rparr>))))"

subsection \<open>The Pinata module\<close>

text \<open>
  The Pinata service: the credentials of the environment, and the outcomes of the three
  requests. A response has its \<open>ok\<close> flag, status and status text, and the outcome of
  reading its body.
\<close>

record 'b response =
  ok :: bool
  status :: int
  statusText :: string
  body :: "thrown + 'b"

record pinned_mapping =
  pm_shareCode :: "string option"
  pm_rootHash :: "string option"
  pm_iv :: "string option"
  pm_encryptionKey :: "string option"
  pm_isEncrypted :: "bool option"
  pm_fileName :: "string option"

record pinata =
  VITE_PINATA_JWT :: "string option"
  VITE_PINATA_API_KEY :: "string option"
  VITE_PINATA_API_SECRET :: "string option"
  pinJSONToIPFS :: "string \<Rightarrow> thrown + string response"
  pinList :: "string \<Rightarrow> thrown + string list response"
  gateway :: "string \<Rightarrow> thrown + pinned_mapping response"

definition truthy :: "string option \<Rightarrow> bool" where
  "truthy v = (case v of None \<Rightarrow> False | Some s \<Rightarrow> s \<noteq> [])"

definition getPinataHeaders :: "pinata \<Rightarrow> thrown + unit" where
  "getPinataHeaders env =
     (if truthy (VITE_PINATA_JWT env) then Inr ()
      else if truthy (VITE_PINATA_API_KEY env) \<and> truthy (VITE_PINATA_API_SECRET env) then Inr ()
      else Inl (Error ''Pinata configuration missing''))"

definition extractCodeFromShareCode_ipfs :: "string \<Rightarrow> string" where
  "extractCodeFromShareCode_ipfs shareCode = replace_first ''privshare://0g-'' [] shareCode"

record ipfs_stored =
  ipfsHash :: string
  st_shareCode :: string
  st_rootHash :: string

text \<open>
  \<open>storeMappingToIPFS\<close> (line 57): the \<open>catch\<close> throws the error on. The function first
  reads the properties of \<open>metadata\<close>, which throws a \<open>TypeError\<close> when the argument is
  \<open>undefined\<close> or \<open>null\<close> (\<open>None\<close>); the metadata and the provider information then go
  into the body of the request and nowhere else. The share code is used as it comes.
\<close>

definition storeMappingToIPFS :: "pinata \<Rightarrow> string \<Rightarrow> string \<Rightarrow> 'm option
                                    \<Rightarrow> event list \<times> (thrown + ipfs_stored)" where
  "storeMappingToIPFS env shareCode rootHash metadata =
     (case metadata of
        None \<Rightarrow> ([], Inl TypeError)
      | Some completeMetadata \<Rightarrow>
     (case getPinataHeaders env of
        Inl e \<Rightarrow> ([], Inl e)
      | Inr headers \<Rightarrow>
          (let name = ''privshare-0g-'' @ replace_first ''privshare://0g-'' [] shareCode
           in ([PinataPinJSON name],
               (case pinJSONToIPFS env name of
                  Inl e \<Rightarrow> Inl e
                | Inr resp \<Rightarrow>
                    if \<not> ok resp
                    then Inl (Error (''Pinata API error: '' @ show_int (status resp) @ '' '' @ statusText resp))
                    else (case body resp of
                            Inl e \<Rightarrow> Inl e
                          | Inr hash \<Rightarrow>
                              Inr \<lparr>ipfsHash = hash, st_shareCode = shareCode, st_rootHash = rootHash\<rparr>))))))"

text \<open>
  \<open>getMappingFromIPFS\<close> (line 136): the \<open>catch\<close> returns \<open>null\<close>, and so does every path
  that finds no mapping. The function has no cache.
\<close>

definition fetch_pinned :: "pinata \<Rightarrow> string \<Rightarrow> event list \<times> (thrown + pinned_mapping option)" where
  "fetch_pinned env hash =
     ([GatewayGet hash],
      (case gateway env hash of
         Inl e \<Rightarrow> Inl e
       | Inr dataResponse \<Rightarrow>
           if ok dataResponse
           then (case body dataResponse of Inl e \<Rightarrow> Inl e | Inr mappingData \<Rightarrow> Inr (Some mappingData))
           else Inr None))"

definition getMappingFromIPFS_try :: "pinata \<Rightarrow> string \<Rightarrow> event list \<times> (thrown + pinned_mapping option)" where
  "getMappingFromIPFS_try env shareCode =
     (let code = extractCodeFromShareCode_ipfs shareCode
      in case getPinataHeaders env of
           Inl e \<Rightarrow> ([], Inl e)
         | Inr headers \<Rightarrow>
             (case pinList env code of
                Inl e \<Rightarrow> ([PinataPinList code], Inl e)
              | Inr resp \<Rightarrow>
                  if \<not> ok resp
                  then ([PinataPinList code],
                        Inl (Error (''Pinata API error: '' @ show_int (status resp) @ '' '' @ statusText resp)))
                  else (case body resp of
                          Inl e \<Rightarrow> ([PinataPinList code], Inl e)
                        | Inr [] \<Rightarrow> ([PinataPinList code], Inr None)
                        | Inr (hash # rows) \<Rightarrow>
                            (case fetch_pinned env hash of
                               (evs, r) \<Rightarrow> (PinataPinList code # evs, r)))))"

definition getMappingFromIPFS :: "pinata \<Rightarrow> string \<Rightarrow> event list \<times> (thrown + pinned_mapping option)" where
  "getMappingFromIPFS env shareCode =
     (case getMappingFromIPFS_try env shareCode of
        (evs, Inl e) \<Rightarrow> (evs, Inr None)
      | (evs, Inr r) \<Rightarrow> (evs, Inr r))"

section \<open>The hooks (useFileDownload, useFilePreview, useFileUpload)\<close>

record FileMetadata =
  fm_shareCode :: string
  fm_pieceCid :: string
  fm_fileName :: string
  fm_fileSize :: int
  fm_mimeType :: string
  fm_isEncrypted :: bool
  fm_encryptionKey :: "string option"
  fm_iv :: "string option"
  fm_uploader :: string
  fm_uploadTime :: int

record DownloadOptions =
  opt_shareCode :: string
  opt_encryptionKey :: "string option"

record download_output =
  out_fileName :: string
  out_fileSize :: int
  out_mimeType :: string
  out_data :: bytes

text \<open>
  What the download hook works with: the browser, the storage service of the provider
  (\<open>null\<close> when there is none) by the network it talks to, the connection state, the
  decryption capability and the clock.
\<close>

record 'x hook_env = "'x browser" +
  zgStorage :: "download_env option"
  isConnected :: bool
  zgError :: "string option"
  decryptFileFromBlob :: "bytes \<Rightarrow> string \<Rightarrow> string \<Rightarrow> thrown + bytes"
  now :: int

definition enableProofVerification :: bool where
  "enableProofVerification = True"

text \<open>The metadata both hooks build from the mapping; \<open>isEncrypted\<close> is \<open>!!mapping.iv\<close>.\<close>

definition metadata_of :: "string \<Rightarrow> 'x MappingRecord_scheme \<Rightarrow> string option \<Rightarrow> int \<Rightarrow> FileMetadata" where
  "metadata_of shareCode mapping encryptionKey time =
     \<lparr>fm_shareCode = shareCode,
      fm_pieceCid = mr_rootHash mapping,
      fm_fileName = str_or (mr_fileName mapping) ''unknown'',
      fm_fileSize = num_or (mr_fileSize mapping) 0,
      fm_mimeType = str_or (mr_mimeType mapping) ''application/octet-stream'',
      fm_isEncrypted = truthy (mr_iv mapping),
      fm_encryptionKey = encryptionKey,
      fm_iv = mr_iv mapping,
      fm_uploader = str_or (mr_uploader mapping) ''unknown'',
      fm_uploadTime = num_or (mr_uploadTime mapping) time\<rparr>"

text \<open>
  The decryption block of the download hook (lines 132 to 160): whatever it throws is
  thrown again as \<open>Decryption failed: ...\<close>.
\<close>

definition decrypt_download :: "'x hook_env \<Rightarrow> FileMetadata \<Rightarrow> string option \<Rightarrow> bytes
                                  \<Rightarrow> event list \<times> (thrown + bytes)" where
  "decrypt_download env fileMetadata encryptionKey finalData =
     (case (if truthy encryptionKey then encryptionKey else fm_encryptionKey fileMetadata) of
        None \<Rightarrow> ([], Inl (Error (''Decryption failed: '' @ ''No decryption key available'')))
      | Some keyToUse \<Rightarrow>
          if keyToUse = [] then ([], Inl (Error (''Decryption failed: '' @ ''No decryption key available'')))
          else
     (case fm_iv fileMetadata of
        None \<Rightarrow> ([], Inl (Error (''Decryption failed: '' @ ''No IV available for decryption'')))
      | Some iv \<Rightarrow>
          if iv = [] then ([], Inl (Error (''Decryption failed: '' @ ''No IV available for decryption'')))
          else
            ([DecryptBlob finalData keyToUse iv],
             (case decryptFileFromBlob env finalData keyToUse iv of
                Inl e \<Rightarrow> Inl (Error (''Decryption failed: '' @ error_message e))
              | Inr plain \<Rightarrow> Inr plain))))"

text \<open>
  \<open>mutationFn\<close> of \<open>useFileDownload\<close> (line 37), up to the data it returns. Beside the
  calls made and the result it gives the metadata passed to \<open>setDownloadInfo\<close>, when
  that call is reached.
\<close>

definition after_download :: "'x hook_env \<Rightarrow> FileMetadata \<Rightarrow> string option \<Rightarrow> DownloadResult
                                \<Rightarrow> event list \<times> (thrown + download_output)" where
  "after_download env fileMetadata encryptionKey downloadResult =
     (if \<not> dr_success downloadResult
      then ([], Inl (Error (''Download failed: '' @ str_or (dr_error downloadResult) ''Unknown error'')))
      else
     (case dr_data downloadResult of
        None \<Rightarrow> ([], Inl (Error ''No data received from 0G Storage''))
      | Some fileData \<Rightarrow>
          if fm_isEncrypted fileMetadata \<and> truthy encryptionKey
          then (case decrypt_download env fileMetadata encryptionKey fileData of
                  (evs, Inl e) \<Rightarrow> (evs, Inl e)
                | (evs, Inr plain) \<Rightarrow>
                    (evs, Inr \<lparr>out_fileName = fm_fileName fileMetadata, out_fileSize = fm_fileSize fileMetadata,
                               out_mimeType = fm_mimeType fileMetadata, out_data = plain\<rparr>))
          else ([], Inr \<lparr>out_fileName = fm_fileName fileMetadata, out_fileSize = fm_fileSize fileMetadata,
                         out_mimeType = fm_mimeType fileMetadata, out_data = fileData\<rparr>)))"

definition useFileDownload_mutationFn ::
  "'x hook_env \<Rightarrow> DownloadOptions \<Rightarrow> event list \<times> FileMetadata option \<times> (thrown + download_output)" where
  "useFileDownload_mutationFn env opts =
     (if \<not> validateShareCode (opt_shareCode opts)
      then ([], None, Inl (Error ''Invalid share code format''))
      else
     (case getMappingFrom0G env (opt_shareCode opts) of
        (evs, Inl e) \<Rightarrow> (evs, None, Inl e)
      | (evs, Inr mapping) \<Rightarrow>
          (let fileMetadata = metadata_of (opt_shareCode opts) mapping (opt_encryptionKey opts) (now env)
           in if fm_isEncrypted fileMetadata \<and> \<not> truthy (opt_encryptionKey opts)
              then (evs, Some fileMetadata,
                    Inl (Error ''This file is encrypted. Please provide the decryption key.''))
              else
          (case zgStorage env of
             None \<Rightarrow> (evs, Some fileMetadata,
                       Inl (Error ''0G Storage not available. Please check your connection and try again.''))
           | Some zg \<Rightarrow>
               if \<not> isConnected env
               then (evs, Some fileMetadata,
                     Inl (Error (''0G Storage connection failed: '' @ str_or (zgError env) ''Unknown error'')))
               else
          (case downloadFile zg (fm_pieceCid fileMetadata) enableProofVerification of
             Inl e \<Rightarrow>
               (evs @ [ZgDownloadFile (fm_pieceCid fileMetadata) enableProofVerification],
                Some fileMetadata, Inl e)
           | Inr downloadResult \<Rightarrow>
               (case after_download env fileMetadata (opt_encryptionKey opts) downloadResult of
                  (evs', r) \<Rightarrow>
                    (evs @ [ZgDownloadFile (fm_pieceCid fileMetadata) enableProofVerification] @ evs',
                     Some fileMetadata, r)))))))"

text \<open>\<open>mutationFn\<close> of \<open>useFilePreview\<close> (line 20).\<close>

definition useFilePreview_mutationFn :: "'x hook_env \<Rightarrow> string \<Rightarrow> event list \<times> (thrown + FileMetadata)" where
  "useFilePreview_mutationFn env shareCode =
     (if \<not> validateShareCode shareCode then ([], Inl (Error ''Invalid share code format''))
      else
     (case getMappingFrom0G env shareCode of
        (evs, Inl e) \<Rightarrow> (evs, Inl e)
      | (evs, Inr mapping) \<Rightarrow> (evs, Inr (metadata_of shareCode mapping None (now env)))))"

text \<open>
  The step of the upload hook that publishes the mapping (\<open>useFileUpload\<close>, lines 213
  and 225 of its file), the only call of \<open>storeMappingToIPFS\<close> in the program: the share
  code is the one just generated, the metadata an object written in place. The hook keeps
  the share code.
\<close>

definition useFileUpload_publish :: "pinata \<Rightarrow> (nat \<Rightarrow> real) \<Rightarrow> string \<Rightarrow> 'm
                                       \<Rightarrow> event list \<times> (thrown + string)" where
  "useFileUpload_publish env rnd rootHash metadata =
     (let shareCode = generateRandomShareCode rnd
      in case storeMappingToIPFS env shareCode rootHash (Some metadata) of
           (evs, Inl e) \<Rightarrow> (evs, Inl e)
         | (evs, Inr stored) \<Rightarrow> (evs, Inr shareCode))"

section \<open>Concrete inputs for the examples\<close>

subsection \<open>Networks, wallets and uploads\<close>

text \<open>
  Transaction metadata whose first chunk is the last of its segment, at the largest entry
  index below \<open>2^53\<close>; the two chunks of the file lie in two segments.
\<close>

definition tx_rounded :: tx_info where
  "tx_rounded = \<lparr>tx_seq = 7, tx_size = 512, tx_startEntryIndex = 9007199254740991\<rparr>"

text \<open>A finalized file of 262145 bytes: 1025 chunks, in the segments 0 and 1.\<close>

definition two_segment_file :: file_info where
  "two_segment_file =
     \<lparr>finalized = True,
      tx = Some \<lparr>tx_seq = 7, tx_size = 262145, tx_startEntryIndex = 0\<rparr>,
      uploadedSegNum = Some 2, numSegments = None\<rparr>"

text \<open>
  One node holds the file. In both paths the fetch of segment 0 fails and the fetch of
  segment 1 delivers the bytes 1, 2, 3.
\<close>

definition env_partial :: download_env where
  "env_partial =
     \<lparr>indexer_set = True,
      loadSDKFromCDN = Inr (),
      newIndexer = Inr (),
      getFileLocations = (\<lambda>site rootHash. Inr (Some [''https://node-a''])),
      getFileInfo = (\<lambda>site rootHash node. Inr (Some two_segment_file)),
      queryFile = (\<lambda>nodes rootHash. Inr (Some two_segment_file, None)),
      getShardConfig = (\<lambda>node. Inr 0),
      downloadTask = (\<lambda>dl fileInfo segmentOffset taskInd nChunks withProof.
         if taskInd = 0 then Inr (None, Some (Error ''segment 0 unavailable''))
         else Inr (Some [1, 2, 3], None)),
      downloadSegmentByTxSeq = (\<lambda>node txSeq startIndex endIndex.
         if startIndex = 0 then Inl (Error ''segment 0 unavailable'') else Inr (Some ''AQID'')),
      decodeBase64 = (\<lambda>segment. Inr [1, 2, 3])\<rparr>"

text \<open>A finalized file of 100 bytes: one chunk, in segment 0.\<close>

definition one_segment_file :: file_info where
  "one_segment_file =
     \<lparr>finalized = True,
      tx = Some \<lparr>tx_seq = 7, tx_size = 100, tx_startEntryIndex = 0\<rparr>,
      uploadedSegNum = Some 1, numSegments = None\<rparr>"

text \<open>
  Two ranked nodes hold the file. The first is down: every request to it throws. The
  second answers every request and would deliver the segment. The SDK's downloader
  reports a task error.
\<close>

definition env_failover :: download_env where
  "env_failover =
     \<lparr>indexer_set = True,
      loadSDKFromCDN = Inr (),
      newIndexer = Inr (),
      getFileLocations = (\<lambda>site rootHash. Inr (Some [''https://node-a'', ''https://node-b''])),
      getFileInfo = (\<lambda>site rootHash node.
         if node = ''https://node-b'' then Inr (Some one_segment_file) else Inl (Error ''node down'')),
      queryFile = (\<lambda>nodes rootHash. Inr (Some one_segment_file, None)),
      getShardConfig = (\<lambda>node. Inr 0),
      downloadTask = (\<lambda>dl fileInfo segmentOffset taskInd nChunks withProof.
         Inr (None, Some (Error ''node down''))),
      downloadSegmentByTxSeq = (\<lambda>node txSeq startIndex endIndex.
         if node = ''https://node-b'' then Inr (Some ''AQID'') else Inl (Error ''node down'')),
      decodeBase64 = (\<lambda>segment. Inr [1, 2, 3])\<rparr>"



text \<open>
  A connected wallet on the right chain, and an upload whose transaction the network
  refuses. The file is a text.
\<close>

definition signer_ok :: signer where
  "signer_ok =
     \<lparr>getAddress = (\<lambda>k. Inr ''0xA11CE''),
      getNetwork = Inr 16602,
      getBlockNumber = Inr 100,
      getFeeData = Inr (),
      getBalance = Inr 5,
      estimateGas = Inr 21000\<rparr>"

definition env_upload_refused :: "string upload_env" where
  "env_upload_refused =
     \<lparr>indexer_set = False,
      loadSDKFromCDN = Inr (),
      newIndexer = Inr (),
      newBlob = (\<lambda>file. Inr ()),
      merkleTree = (\<lambda>file. Inr (Some (Inr (Some ''0xroot'')), None)),
      upload = (\<lambda>file. Inr (None, Some ''Error: transaction reverted''))\<rparr>"

subsection \<open>Browsers, Pinata services and hook environments\<close>

text \<open>A Pinata service with credentials whose index cannot be reached.\<close>

definition pinata_unreachable :: pinata where
  "pinata_unreachable =
     \<lparr>VITE_PINATA_JWT = Some ''jwt'',
      VITE_PINATA_API_KEY = None,
      VITE_PINATA_API_SECRET = None,
      pinJSONToIPFS = (\<lambda>name. Inl (Error ''Failed to fetch'')),
      pinList = (\<lambda>code. Inl (Error ''Failed to fetch'')),
      gateway = (\<lambda>hash. Inl (Error ''Failed to fetch''))\<rparr>"

text \<open>A Pinata service that pins whatever it is sent.\<close>

definition pinata_ok :: pinata where
  "pinata_ok =
     \<lparr>VITE_PINATA_JWT = Some ''jwt'',
      VITE_PINATA_API_KEY = None,
      VITE_PINATA_API_SECRET = None,
      pinJSONToIPFS = (\<lambda>name. Inr \<lparr>ok = True, status = 200, statusText = ''OK'', body = Inr ''QmHash''\<rparr>),
      pinList = (\<lambda>code. Inr \<lparr>ok = True, status = 200, statusText = ''OK'', body = Inr []\<rparr>),
      gateway = (\<lambda>hash. Inl (Error ''Failed to fetch''))\<rparr>"

text \<open>
  A hook environment whose cache answers every key with one record; the storage
  service talks to the given network; decryption reverses the bytes.
\<close>

definition hook_with :: "MappingRecord \<Rightarrow> download_env \<Rightarrow> unit hook_env" where
  "hook_with cached net =
     \<lparr>localStorage = Inr (Some (\<lambda>k. Inr (Some ''{...}''))),
      JSON_parse = (\<lambda>raw. Inr (Some cached)),
      zgStorage = Some net,
      isConnected = True,
      zgError = None,
      decryptFileFromBlob = (\<lambda>blob k i. Inr (rev blob)),
      now = 1700000000000\<rparr>"

text \<open>A browser whose local storage is empty.\<close>

definition browser_empty :: "unit browser" where
  "browser_empty =
     \<lparr>localStorage = Inr (Some (\<lambda>k. Inr None)),
      JSON_parse = (\<lambda>raw. Inl (Error ''Unexpected token''))\<rparr>"


text \<open>A Pinata service without credentials.\<close>

definition pinata_unconfigured :: pinata where
  "pinata_unconfigured =
     pinata_ok\<lparr>VITE_PINATA_JWT := None, VITE_PINATA_API_KEY := Some ''key''\<rparr>"

definition record_encrypted :: MappingRecord where
  "record_encrypted =
     \<lparr>mr_rootHash = ''0xroot'', mr_iv = Some ''a1b2c3'', mr_fileName = Some ''report.pdf'',
      mr_fileSize = Some 262145, mr_mimeType = Some ''application/pdf'',
      mr_uploader = Some ''0xA11CE'', mr_uploadTime = Some 1700000000000, mr_txHash = None\<rparr>"

definition record_empty_iv :: MappingRecord where
  "record_empty_iv = record_encrypted\<lparr>mr_iv := Some []\<rparr>"

text \<open>The network of \<open>env_partial\<close>, delivering other bytes for the same root hash.\<close>

definition env_other_bytes :: download_env where
  "env_other_bytes =
     env_partial\<lparr>downloadTask := (\<lambda>dl fileInfo segmentOffset taskInd nChunks withProof.
                     Inr (Some [4, 5, 6], None))\<rparr>"

section \<open>Verified properties\<close>

subsection \<open>Share-code grammar\<close>

text \<open>
  The class \<open>[a-z0-9]\<close> holds exactly the characters of the 36-character alphabet.
\<close>
lemma alphabet_codes:
  "SHARE_CODE_ALPHABET = map char_of ([97..<123] @ [48..<58] :: nat list)"
  unfolding SHARE_CODE_ALPHABET_def by code_simp

lemma in_alphabet_iff:
  "c \<in> set SHARE_CODE_ALPHABET \<longleftrightarrow>
     (97 \<le> (of_char c :: nat) \<and> (of_char c :: nat) \<le> 122) \<or>
     (48 \<le> (of_char c :: nat) \<and> (of_char c :: nat) \<le> 57)"
proof
  assume "c \<in> set SHARE_CODE_ALPHABET"
  then have "c \<in> char_of ` ({97..<123} \<union> {48..<58} :: nat set)"
    unfolding alphabet_codes set_map set_append set_upt .
  then obtain n :: nat where n: "n \<in> {97..<123} \<union> {48..<58}" and c: "c = char_of n"
    by blast
  from n have "n mod 256 = n" by auto
  with n c show "(97 \<le> (of_char c :: nat) \<and> (of_char c :: nat) \<le> 122) \<or>
     (48 \<le> (of_char c :: nat) \<and> (of_char c :: nat) \<le> 57)"
    by auto
next
  assume a: "(97 \<le> (of_char c :: nat) \<and> (of_char c :: nat) \<le> 122) \<or>
     (48 \<le> (of_char c :: nat) \<and> (of_char c :: nat) \<le> 57)"
  define n where "n = (of_char c :: nat)"
  have c: "c = char_of n" by (simp add: n_def)
  from a have "n \<in> {97..<123} \<union> {48..<58}" unfolding n_def by auto
  then have "(char_of n :: char) \<in> char_of ` ({97..<123} \<union> {48..<58} :: nat set)" by (rule imageI)
  then show "c \<in> set SHARE_CODE_ALPHABET"
    unfolding alphabet_codes set_map set_append set_upt c .
qed

lemma in_class_alnum:
  "in_class [(CHR ''a'', CHR ''z''), (CHR ''0'', CHR ''9'')] c \<longleftrightarrow> c \<in> set SHARE_CODE_ALPHABET"
  unfolding in_alphabet_iff by (simp add: in_class_def)


lemma rx_match_times_class:
  "rx_match (Times n (Class rs)) s =
     (if n \<le> length s \<and> list_all (in_class rs) (take n s) then [drop n s] else [])"
proof (induction n arbitrary: s)
  case 0
  show ?case by simp
next
  case (Suc n)
  show ?case
  proof (cases s)
    case Nil
    then show ?thesis by simp
  next
    case (Cons x xs)
    then show ?thesis by (cases "in_class rs x") (simp_all add: Suc.IH)
  qed
qed

lemma rx_match_str:
  "rx_match (rx_str p r) s =
     (if take (length p) s = p then rx_match r (drop (length p) s) else [])"
proof (induction p arbitrary: s)
  case Nil
  show ?case by simp
next
  case (Cons c cs)
  show ?case
  proof (cases s)
    case Nil
    then show ?thesis by simp
  next
    case (Cons x xs)
    then show ?thesis by (simp add: Cons.IH)
  qed
qed

lemma rx_match_lit:
  "rx_match (Lit c) s = (if s \<noteq> [] \<and> hd s = c then [tl s] else [])"
  by (cases s) simp_all


lemma mem_rx_match_lit: "t \<in> set (rx_match (Lit c) s) \<longleftrightarrow> s = c # t"
  by (cases s) auto

lemma mem_rx_match_cat:
  "t \<in> set (rx_match (Cat a b) s) \<longleftrightarrow> (\<exists>u. u \<in> set (rx_match a s) \<and> t \<in> set (rx_match b u))"
  by auto

lemma mem_rx_match_times_0: "t \<in> set (rx_match (Times 0 r) s) \<longleftrightarrow> t = s"
  by auto

lemma mem_rx_match_times_Suc:
  "t \<in> set (rx_match (Times (Suc n) r) s) \<longleftrightarrow>
     (\<exists>u. u \<in> set (rx_match r s) \<and> t \<in> set (rx_match (Times n r) u))"
  by auto

lemma mem_rx_match_alnum:
  "t \<in> set (rx_match (Times 4 alnum) s) \<longleftrightarrow> (\<exists>g. is_group g \<and> s = g @ t)"
proof -
  have cls: "in_class [(CHR ''a'', CHR ''z''), (CHR ''0'', CHR ''9'')] = (\<lambda>c. c \<in> set SHARE_CODE_ALPHABET)"
    by (rule ext) (rule in_class_alnum)
  show ?thesis
  proof
    assume "t \<in> set (rx_match (Times 4 alnum) s)"
    then have "4 \<le> length s" "list_all (\<lambda>c. c \<in> set SHARE_CODE_ALPHABET) (take 4 s)" "t = drop 4 s"
      by (simp_all add: alnum_def rx_match_times_class cls split: if_splits)
    then have "is_group (take 4 s) \<and> s = take 4 s @ t"
      by (simp add: is_group_def)
    then show "\<exists>g. is_group g \<and> s = g @ t" by blast
  next
    assume "\<exists>g. is_group g \<and> s = g @ t"
    then obtain g where "is_group g" "s = g @ t" by blast
    then show "t \<in> set (rx_match (Times 4 alnum) s)"
      by (simp add: alnum_def rx_match_times_class cls is_group_def)
  qed
qed

lemma mem_rx_match_str:
  "t \<in> set (rx_match (rx_str p r) s) \<longleftrightarrow> (\<exists>u. s = p @ u \<and> t \<in> set (rx_match r u))"
proof
  assume "t \<in> set (rx_match (rx_str p r) s)"
  then have "take (length p) s = p" "t \<in> set (rx_match r (drop (length p) s))"
    by (simp_all add: rx_match_str split: if_splits)
  then have "s = p @ drop (length p) s \<and> t \<in> set (rx_match r (drop (length p) s))"
    by (metis append_take_drop_id)
  then show "\<exists>u. s = p @ u \<and> t \<in> set (rx_match r u)" by blast
next
  assume "\<exists>u. s = p @ u \<and> t \<in> set (rx_match r u)"
  then show "t \<in> set (rx_match (rx_str p r) s)"
    by (auto simp: rx_match_str)
qed

lemmas mem_rx = mem_rx_match_str mem_rx_match_cat mem_rx_match_lit mem_rx_match_alnum
  mem_rx_match_times_0 mem_rx_match_times_Suc

lemma validateShareCode_ipfs_grammar: "validateShareCode_ipfs s = share_code_grammar s"
proof
  assume "validateShareCode_ipfs s"
  then have "[] \<in> set (rx_match pattern_ipfs s)"
    by (simp only: validateShareCode_ipfs_def rx_test_def)
  then obtain g1 g2 g3 g4 where "is_group g1" "is_group g2" "is_group g3" "is_group g4"
    "s = ''privshare://0g-'' @ g1 @ ''-'' @ g2 @ ''-'' @ g3 @ ''-'' @ g4"
    unfolding pattern_ipfs_def mem_rx by (elim exE conjE) simp
  then show "share_code_grammar s"
    unfolding share_code_grammar_def by blast
next
  assume "share_code_grammar s"
  then obtain g1 g2 g3 g4 where g: "is_group g1" "is_group g2" "is_group g3" "is_group g4"
    and s: "s = ''privshare://0g-'' @ g1 @ ''-'' @ g2 @ ''-'' @ g3 @ ''-'' @ g4"
    unfolding share_code_grammar_def by blast
  have "[] \<in> set (rx_match pattern_ipfs s)"
    unfolding pattern_ipfs_def mem_rx s using g by (intro exI conjI) (rule refl | assumption | simp)+
  then show "validateShareCode_ipfs s"
    by (simp only: validateShareCode_ipfs_def rx_test_def)
qed


lemma pattern_0g_unfold:
  "pattern_0g = rx_str ''privshare://0g-''
     (Cat (Times (Suc (Suc (Suc 0))) (Cat (Times 4 alnum) (Lit CHR ''-''))) (Times 4 alnum))"
  by (simp add: pattern_0g_def SHARE_CODE_PREFIX_def SHARE_CODE_BODY_GROUPS_def
        SHARE_CODE_GROUP_LENGTH_def numeral_3_eq_3)

lemma grammar_nonempty: "share_code_grammar s \<Longrightarrow> s \<noteq> []"
  unfolding share_code_grammar_def by auto

lemma validateShareCode_grammar: "validateShareCode s = share_code_grammar s"
proof
  assume v: "validateShareCode s"
  then have "[] \<in> set (rx_match pattern_0g s)"
    by (simp add: validateShareCode_def rx_test_def split: if_splits)
  then obtain g1 g2 g3 g4 where "is_group g1" "is_group g2" "is_group g3" "is_group g4"
    "s = ''privshare://0g-'' @ g1 @ ''-'' @ g2 @ ''-'' @ g3 @ ''-'' @ g4"
    unfolding pattern_0g_unfold mem_rx by (elim exE conjE) simp
  then show "share_code_grammar s"
    unfolding share_code_grammar_def by blast
next
  assume a: "share_code_grammar s"
  then obtain g1 g2 g3 g4 where g: "is_group g1" "is_group g2" "is_group g3" "is_group g4"
    and s: "s = ''privshare://0g-'' @ g1 @ ''-'' @ g2 @ ''-'' @ g3 @ ''-'' @ g4"
    unfolding share_code_grammar_def by blast
  have "[] \<in> set (rx_match pattern_0g s)"
    unfolding pattern_0g_unfold mem_rx s using g by (intro exI conjI) (rule refl | assumption | simp)+
  with grammar_nonempty [OF a] show "validateShareCode s"
    by (simp add: validateShareCode_def rx_test_def)
qed

text \<open>
  Claim C6. \<open>validateShareCode\<close> (both the validator of the 0G module and the one of
  the Pinata module) returns true for exactly the strings made of the prefix
  \<open>privshare://0g-\<close> followed by 4 groups of 4 lowercase-alphanumeric characters joined
  by \<open>-\<close>. It accepts \<open>privshare://0g-ab12-cd34-ef56-gh78\<close>, and refuses a code with
  only 3 groups and a code with an uppercase letter. The validator is a function of the
  string alone: no store of pointer records is among its arguments.
\<close>

theorem validateShareCode_exact:
  "(\<forall>s. validateShareCode s = share_code_grammar s) \<and>
   (\<forall>s. validateShareCode_ipfs s = share_code_grammar s) \<and>
   validateShareCode ''privshare://0g-ab12-cd34-ef56-gh78'' \<and>
   \<not> validateShareCode ''privshare://0g-ab12-cd34-ef56'' \<and>
   \<not> validateShareCode ''privshare://0g-AB12-cd34-ef56-gh78'' \<and>
   validateShareCode_ipfs ''privshare://0g-ab12-cd34-ef56-gh78'' \<and>
   \<not> validateShareCode_ipfs ''privshare://0g-ab12-cd34-ef56'' \<and>
   \<not> validateShareCode_ipfs ''privshare://0g-AB12-cd34-ef56-gh78''"
proof -
  have a1: "validateShareCode ''privshare://0g-ab12-cd34-ef56-gh78''" by code_simp
  have a2: "\<not> validateShareCode ''privshare://0g-ab12-cd34-ef56''" by code_simp
  have a3: "\<not> validateShareCode ''privshare://0g-AB12-cd34-ef56-gh78''" by code_simp
  have b1: "validateShareCode_ipfs ''privshare://0g-ab12-cd34-ef56-gh78''" by code_simp
  have b2: "\<not> validateShareCode_ipfs ''privshare://0g-ab12-cd34-ef56''" by code_simp
  have b3: "\<not> validateShareCode_ipfs ''privshare://0g-AB12-cd34-ef56-gh78''" by code_simp
  show ?thesis
    using validateShareCode_grammar validateShareCode_ipfs_grammar a1 a2 a3 b1 b2 b3
    by (intro conjI allI)
qed

subsection \<open>Generated share codes\<close>

text \<open>
  An index drawn as \<open>Math.floor(Math.random() * 36)\<close> from a number in \<open>[0, 1)\<close> is
  below 36, so the character read from the alphabet exists.
\<close>

lemma floor_index_bound:
  fixes r :: real
  assumes "0 \<le> r" "r < 1"
  shows "nat \<lfloor>r * 36\<rfloor> < 36"
proof -
  have "r * 36 < 36" using assms by simp
  then have "\<lfloor>r * 36\<rfloor> < 36" by (simp add: floor_less_iff)
  then show ?thesis by linarith
qed

lemma alphabet_nth: "i < 36 \<Longrightarrow> SHARE_CODE_ALPHABET ! i \<in> set SHARE_CODE_ALPHABET"
  by (rule nth_mem) (simp add: SHARE_CODE_ALPHABET_def)

lemma random_char:
  assumes "0 \<le> rnd k" "rnd k < 1"
  shows "\<exists>c. c \<in> set SHARE_CODE_ALPHABET \<and>
    index_append SHARE_CODE_ALPHABET (random_index rnd k SHARE_CODE_ALPHABET) = [c] \<and>
    charAt SHARE_CODE_ALPHABET (random_index rnd k SHARE_CODE_ALPHABET) = [c]"
proof -
  have len: "length SHARE_CODE_ALPHABET = 36" by (simp add: SHARE_CODE_ALPHABET_def)
  have "nat \<lfloor>rnd k * 36\<rfloor> < 36" using assms by (rule floor_index_bound)
  then show ?thesis using alphabet_nth 
    by (simp add: index_append_def charAt_def len random_index_def)
qed

lemma snd_randomGroup: "snd (randomGroup rnd k) = k + 4"
  by (simp add: randomGroup_def SHARE_CODE_GROUP_LENGTH_def)

lemma randomGroup_is_group:
  assumes "\<forall>i<4. 0 \<le> rnd (k + i) \<and> rnd (k + i) < 1"
  shows "is_group (fst (randomGroup rnd k))"
proof -
  have r: "\<And>i. i < 4 \<Longrightarrow> 0 \<le> rnd (k + i) \<and> rnd (k + i) < 1" using assms by blast
  have u: "[0..<4] = [0, 1, 2, 3]" by (simp add: upt_rec)
  obtain c0 where c0: "c0 \<in> set SHARE_CODE_ALPHABET" "index_append SHARE_CODE_ALPHABET (random_index rnd k SHARE_CODE_ALPHABET) = [c0]"
    using random_char [of rnd k] r [of 0] by auto
  obtain c1 where c1: "c1 \<in> set SHARE_CODE_ALPHABET" "index_append SHARE_CODE_ALPHABET (random_index rnd (k + 1) SHARE_CODE_ALPHABET) = [c1]"
    using random_char [of rnd "k + 1"] r [of 1] by auto
  obtain c2 where c2: "c2 \<in> set SHARE_CODE_ALPHABET" "index_append SHARE_CODE_ALPHABET (random_index rnd (k + 2) SHARE_CODE_ALPHABET) = [c2]"
    using random_char [of rnd "k + 2"] r [of 2] by auto
  obtain c3 where c3: "c3 \<in> set SHARE_CODE_ALPHABET" "index_append SHARE_CODE_ALPHABET (random_index rnd (k + 3) SHARE_CODE_ALPHABET) = [c3]"
    using random_char [of rnd "k + 3"] r [of 3] by auto
  have "fst (randomGroup rnd k) = [c0, c1, c2, c3]"
    using c0(2) c1(2) c2(2) c3(2) by (simp add: randomGroup_def SHARE_CODE_GROUP_LENGTH_def u)
  then show ?thesis using c0(1) c1(1) c2(1) c3(1)
    by (simp add: is_group_def)
qed

lemma random_groups_Suc:
  "random_groups rnd k (Suc n) = fst (randomGroup rnd k) # random_groups rnd (k + 4) n"
  using snd_randomGroup [of rnd k] by (cases "randomGroup rnd k") auto

lemma generateShareCode_grammar:
  assumes "\<forall>k<16. 0 \<le> rnd k \<and> rnd k < 1"
  shows "share_code_grammar (generateShareCode rnd)"
proof -
  have g0: "is_group (fst (randomGroup rnd 0))"
    using assms by (intro randomGroup_is_group) simp
  have g1: "is_group (fst (randomGroup rnd 4))"
    using assms by (intro randomGroup_is_group) simp
  have g2: "is_group (fst (randomGroup rnd 8))"
    using assms by (intro randomGroup_is_group) simp
  have g3: "is_group (fst (randomGroup rnd 12))"
    using assms by (intro randomGroup_is_group) simp
  have n: "SHARE_CODE_BODY_GROUPS = Suc (Suc (Suc (Suc 0)))"
    by (simp add: SHARE_CODE_BODY_GROUPS_def)
  have "random_groups rnd 0 SHARE_CODE_BODY_GROUPS =
     [fst (randomGroup rnd 0), fst (randomGroup rnd 4), fst (randomGroup rnd 8), fst (randomGroup rnd 12)]"
    unfolding n by (simp add: random_groups_Suc del: random_groups.simps(2))
  then have "generateShareCode rnd = ''privshare://0g-'' @ fst (randomGroup rnd 0) @ ''-'' @
      fst (randomGroup rnd 4) @ ''-'' @ fst (randomGroup rnd 8) @ ''-'' @ fst (randomGroup rnd 12)"
    by (simp add: generateShareCode_def SHARE_CODE_PREFIX_def)
  then show ?thesis
    unfolding share_code_grammar_def using g0 g1 g2 g3 by blast
qed

lemma match_dot_step:
  assumes "s \<noteq> []" "\<forall>c \<in> set s. \<not> is_line_terminator c"
  shows "match_dot_1_4 s = take 4 s # match_dot_1_4 (drop 4 s)"
proof (cases s)
  case Nil
  with assms show ?thesis by simp
next
  case (Cons c cs)
  have "\<forall>x \<in> set (take 3 cs). \<not> is_line_terminator x"
    using assms(2) Cons by (auto dest: in_set_takeD)
  then have tw: "takeWhile (\<lambda>x. \<not> is_line_terminator x) (take 3 cs) = take 3 cs"
    by (simp add: takeWhile_eq_all_conv)
  have d: "drop (min (length cs) 3) cs = drop 3 cs"
    by (cases "length cs \<le> 3") (simp_all add: min_def)
  have t: "take 4 (c # cs) = c # take 3 cs" by (simp add: take_Cons')
  have dd: "drop 4 (c # cs) = drop 3 cs" by (simp add: drop_Cons')
  show ?thesis using assms(2) unfolding Cons t dd
    by (simp add: tw d Let_def)
qed

lemma alphabet_not_terminator: "c \<in> set SHARE_CODE_ALPHABET \<Longrightarrow> \<not> is_line_terminator c"
  by (auto simp: in_alphabet_iff is_line_terminator_def)

lemma random_result:
  assumes "\<forall>k<n. 0 \<le> rnd k \<and> rnd k < 1"
  shows "length (concat (map (\<lambda>i. charAt SHARE_CODE_ALPHABET (random_index rnd i SHARE_CODE_ALPHABET)) [0..<n])) = n \<and>
     set (concat (map (\<lambda>i. charAt SHARE_CODE_ALPHABET (random_index rnd i SHARE_CODE_ALPHABET)) [0..<n]))
       \<subseteq> set SHARE_CODE_ALPHABET"
  using assms
proof (induction n)
  case 0
  show ?case by simp
next
  case (Suc n)
  obtain c where c: "c \<in> set SHARE_CODE_ALPHABET"
    "charAt SHARE_CODE_ALPHABET (random_index rnd n SHARE_CODE_ALPHABET) = [c]"
    using random_char [of rnd n] Suc.prems by auto
  from Suc have "length (concat (map (\<lambda>i. charAt SHARE_CODE_ALPHABET (random_index rnd i SHARE_CODE_ALPHABET)) [0..<n])) = n \<and>
     set (concat (map (\<lambda>i. charAt SHARE_CODE_ALPHABET (random_index rnd i SHARE_CODE_ALPHABET)) [0..<n]))
       \<subseteq> set SHARE_CODE_ALPHABET" by simp
  with c show ?case by simp
qed

lemma groups_of_16:
  assumes len: "length r = 16" and al: "set r \<subseteq> set SHARE_CODE_ALPHABET"
  shows "is_group (take 4 r) \<and> is_group (take 4 (drop 4 r)) \<and> is_group (take 4 (drop 8 r)) \<and>
     is_group (take 4 (drop 12 r)) \<and>
     match_dot_1_4 r = [take 4 r, take 4 (drop 4 r), take 4 (drop 8 r), take 4 (drop 12 r)]"
proof -
  have sub: "\<And>xs. set xs \<subseteq> set r \<Longrightarrow> list_all (\<lambda>c. c \<in> set SHARE_CODE_ALPHABET) xs"
    using al by (auto simp: list_all_iff)
  have nt: "\<And>xs. set xs \<subseteq> set r \<Longrightarrow> \<forall>c \<in> set xs. \<not> is_line_terminator c"
    using al alphabet_not_terminator by blast
  have s0: "set (take 4 r) \<subseteq> set r" by (rule set_take_subset)
  have d4: "set (drop 4 r) \<subseteq> set r" by (rule set_drop_subset)
  have d8: "set (drop 8 r) \<subseteq> set r" by (rule set_drop_subset)
  have d12: "set (drop 12 r) \<subseteq> set r" by (rule set_drop_subset)
  have s4: "set (take 4 (drop 4 r)) \<subseteq> set r" using set_take_subset d4 by fastforce
  have s8: "set (take 4 (drop 8 r)) \<subseteq> set r" using set_take_subset d8 by fastforce
  have s12: "set (take 4 (drop 12 r)) \<subseteq> set r" using set_take_subset d12 by fastforce
  have m0: "match_dot_1_4 r = take 4 r # match_dot_1_4 (drop 4 r)"
    using len nt [of r] by (intro match_dot_step) auto
  have m4: "match_dot_1_4 (drop 4 r) = take 4 (drop 4 r) # match_dot_1_4 (drop 8 r)"
    using match_dot_step [of "drop 4 r"] len nt [OF d4] by auto
  have m8: "match_dot_1_4 (drop 8 r) = take 4 (drop 8 r) # match_dot_1_4 (drop 12 r)"
    using match_dot_step [of "drop 8 r"] len nt [OF d8] by auto
  have m12: "match_dot_1_4 (drop 12 r) = take 4 (drop 12 r) # match_dot_1_4 (drop 16 r)"
    using match_dot_step [of "drop 12 r"] len nt [OF d12] by auto
  have m16: "match_dot_1_4 (drop 16 r) = []" using len by simp
  show ?thesis
    using sub [OF s0] sub [OF s4] sub [OF s8] sub [OF s12] len
    by (simp add: is_group_def m0 m4 m8 m12 m16)
qed

lemma generateRandomShareCode_grammar:
  assumes "\<forall>k<16. 0 \<le> rnd k \<and> rnd k < 1"
  shows "share_code_grammar (generateRandomShareCode rnd)"
proof -
  define r where "r = concat (map (\<lambda>i. charAt SHARE_CODE_ALPHABET (random_index rnd i SHARE_CODE_ALPHABET)) [0..<16])"
  have "length r = 16" "set r \<subseteq> set SHARE_CODE_ALPHABET"
    using random_result [OF assms] by (simp_all add: r_def)
  from groups_of_16 [OF this] have g: "is_group (take 4 r)" "is_group (take 4 (drop 4 r))"
    "is_group (take 4 (drop 8 r))" "is_group (take 4 (drop 12 r))"
    and m: "match_dot_1_4 r = [take 4 r, take 4 (drop 4 r), take 4 (drop 8 r), take 4 (drop 12 r)]"
    by simp_all
  have "generateRandomShareCode rnd = ''privshare://0g-'' @ take 4 r @ ''-'' @ take 4 (drop 4 r) @ ''-'' @
     take 4 (drop 8 r) @ ''-'' @ take 4 (drop 12 r)"
    unfolding generateRandomShareCode_def Let_def SHARE_CODE_ALPHABET_def [symmetric] r_def [symmetric]
    by (simp add: js_match_groups_def m)
  then show ?thesis
    unfolding share_code_grammar_def using g by blast
qed


text \<open>
  Claim C7. For every sequence of random draws (\<open>Math.random()\<close> returning numbers in
  \<open>[0, 1)\<close>, hence indices into the 36-character alphabet), the share code produced by
  \<open>generateShareCode\<close> and the one produced by \<open>generateRandomShareCode\<close> satisfy
  \<open>validateShareCode\<close>, in both versions of the validator.
\<close>

theorem generated_codes_validate:
  assumes "\<forall>k<16. 0 \<le> rnd k \<and> rnd k < 1"
  shows "validateShareCode (generateShareCode rnd) \<and>
         validateShareCode_ipfs (generateRandomShareCode rnd) \<and>
         validateShareCode (generateRandomShareCode rnd) \<and>
         validateShareCode_ipfs (generateShareCode rnd)"
  using generateShareCode_grammar [OF assms] generateRandomShareCode_grammar [OF assms]
  by (simp add: validateShareCode_grammar validateShareCode_ipfs_grammar)

lemma half_code: "generateShareCode (\<lambda>k. 1 / 2) = ''privshare://0g-ssss-ssss-ssss-ssss''"
  by (simp add: generateShareCode_def SHARE_CODE_PREFIX_def SHARE_CODE_BODY_GROUPS_def
      eval_nat_numeral randomGroup_def SHARE_CODE_GROUP_LENGTH_def index_append_def
      random_index_def SHARE_CODE_ALPHABET_def)

theorem generated_codes_validate_witness:
  "(0::real) \<le> 1 / 2 \<and> (1 / 2 :: real) < 1 \<and>
   generateShareCode (\<lambda>k. 1 / 2) = ''privshare://0g-ssss-ssss-ssss-ssss'' \<and>
   validateShareCode (generateShareCode (\<lambda>k. 1 / 2)) \<and>
   validateShareCode_ipfs (generateRandomShareCode (\<lambda>k. 1 / 2))"
  using generated_codes_validate [of "\<lambda>k. 1 / 2"] half_code by simp

subsection \<open>Download parameters\<close>

text \<open>
  \<open>Math.ceil\<close> and \<open>Math.floor\<close> of the quotients are the integer quotients: dividing
  an integer by 256 or 1024 and rounding once loses nothing.
\<close>

lemma ceiling_div_256: "\<lceil>real_of_int x / 256\<rceil> = (x + 255) div 256"
proof -
  define q where "q = (x + 255) div 256"
  define m where "m = (x + 255) mod 256"
  have e: "x + 255 = 256 * q + m" and m: "0 \<le> m" "m < 256"
    by (simp_all add: q_def m_def)
  have "256 * q - 256 < x" "x \<le> 256 * q" using e m by linarith+
  then have "real_of_int (256 * q - 256) < real_of_int x" "real_of_int x \<le> real_of_int (256 * q)"
    by (simp_all only: of_int_less_iff of_int_le_iff)
  then have "real_of_int q - 1 < real_of_int x / 256" "real_of_int x / 256 \<le> real_of_int q"
    by simp_all
  then show ?thesis unfolding q_def [symmetric] by (intro ceiling_unique) simp_all
qed

lemma floor_div_1024: "\<lfloor>real_of_int x / 1024\<rfloor> = x div 1024"
  using floor_divide_of_int_eq [of x 1024, where ?'a = real] by simp

text \<open>An integer of magnitude below \<open>2^53\<close> is a double: rounding leaves it as it is.\<close>

declare ulp_exponent.simps [simp del]

lemma ulp_exponent_small: "m < 2 ^ 53 \<Longrightarrow> ulp_exponent m = 0"
  by (subst ulp_exponent.simps) simp

lemma round_double_exact: "\<bar>n\<bar> < 2 ^ 53 \<Longrightarrow> round_double n = n"
  by (simp add: round_double_def ulp_exponent_small)

lemma js_add_exact: "\<bar>a + b\<bar> < 2 ^ 53 \<Longrightarrow> js_add a b = a + b"
  by (simp add: js_add_def round_double_exact)

lemma js_sub_exact: "\<bar>a - b\<bar> < 2 ^ 53 \<Longrightarrow> js_sub a b = a - b"
  by (simp add: js_sub_def round_double_exact)

lemma params_exact:
  assumes "0 \<le> tx_startEntryIndex t" and "1 \<le> tx_size t" and "tx_size t < 2 ^ 53"
    and "tx_startEntryIndex t + (tx_size t + 255) div 256 < 2 ^ 53"
  shows "download_parameters t =
     \<lparr>numChunks = (tx_size t + 255) div 256,
      startSegmentIndex = tx_startEntryIndex t div 1024,
      endSegmentIndex = (tx_startEntryIndex t + (tx_size t + 255) div 256 - 1) div 1024,
      numTasks = (tx_startEntryIndex t + (tx_size t + 255) div 256 - 1) div 1024
                   - tx_startEntryIndex t div 1024 + 1\<rparr>"
proof -
  define s where "s = tx_startEntryIndex t"
  define n where "n = (tx_size t + 255) div 256"
  define e where "e = (s + n - 1) div 1024"
  have n1: "1 \<le> n" using assms(2) unfolding n_def by linarith
  have b: "s + n < 2 ^ 53" "0 \<le> s" using assms(1,4) by (simp_all add: s_def n_def)
  have rs: "round_double (tx_size t) = tx_size t"
    using assms(2,3) by (intro round_double_exact) linarith
  have rt: "round_double s = s" using b n1 by (intro round_double_exact) linarith
  have a1: "js_add s n = s + n" using b n1 by (intro js_add_exact) linarith
  have a2: "js_sub (s + n) 1 = s + n - 1" using b n1 by (intro js_sub_exact) linarith
  have "(s + n - 1) div 1024 \<le> (s + n - 1) div 1"
    using b n1 by (intro zdiv_mono2) simp_all
  then have e0: "0 \<le> e" "e \<le> s + n - 1" "s div 1024 \<le> e" "0 \<le> s div 1024"
    using b n1 unfolding e_def
    by (simp_all add: pos_imp_zdiv_nonneg_iff zdiv_mono1)
  have a3: "js_sub e (s div 1024) = e - s div 1024"
    using e0 b by (intro js_sub_exact) linarith
  have a4: "js_add (e - s div 1024) 1 = e - s div 1024 + 1"
    using e0 b by (intro js_add_exact) linarith
  show ?thesis
    unfolding download_parameters_def DEFAULT_CHUNK_SIZE_def DEFAULT_SEGMENT_MAX_CHUNKS_def Let_def
      s_def [symmetric] rs ceiling_div_256 n_def [symmetric] rt a1 a2 floor_div_1024
      e_def [symmetric] a3 a4
    by simp
qed

lemma task_indices_upto: "0 \<le> n \<Longrightarrow> map (\<lambda>t. s + t) (task_indices n) = [s..s + n - 1]"
proof (induction "nat n" arbitrary: n)
  case 0
  then show ?case by (simp add: task_indices_def)
next
  case (Suc k)
  then have k: "k = nat (n - 1)" "0 \<le> n - 1" "nat n = Suc (nat (n - 1))" by auto
  have "map (\<lambda>t. s + t) (task_indices (n - 1)) = [s..s + (n - 1) - 1]"
    using Suc.hyps(1) [of "n - 1"] k by simp
  moreover have "task_indices n = task_indices (n - 1) @ [n - 1]"
    using k by (simp add: task_indices_def)
  moreover have "[s..s + n - 1] = [s..s + (n - 1) - 1] @ [s + n - 1]"
    using k(2) upto_rec2 [of s "s + n - 1"] by simp
  ultimately show ?case by simp
qed

lemma rounded_sum: "js_add 9007199254740991 2 = 9007199254740992"
  by (simp add: js_add_def round_double_def ulp_exponent.simps)

lemma tx_rounded_params:
  "download_parameters tx_rounded =
     \<lparr>numChunks = 2, startSegmentIndex = 8796093022207, endSegmentIndex = 8796093022207,
      numTasks = 1\<rparr>"
proof -
  have a: "round_double 512 = 512" "round_double 9007199254740991 = 9007199254740991"
    by (simp_all add: round_double_exact)
  have b: "\<lceil>real_of_int 512 / 256\<rceil> = 2" "\<lfloor>real_of_int 9007199254740991 / 1024\<rfloor> = 8796093022207"
    unfolding ceiling_div_256 floor_div_1024 by simp_all
  have c: "js_sub 9007199254740992 1 = 9007199254740991" "js_sub 8796093022207 8796093022207 = 0"
    "js_add 0 1 = 1"
    by (simp_all add: js_sub_exact js_add_exact)
  show ?thesis
    unfolding download_parameters_def tx_rounded_def DEFAULT_CHUNK_SIZE_def
      DEFAULT_SEGMENT_MAX_CHUNKS_def Let_def tx_info.simps a b rounded_sum c ..
qed

text \<open>
  Claim C8, as the specification words it, fails where the numbers leave the range of the
  integers a double holds exactly. For \<open>startEntryIndex = 2^53 - 1\<close> and \<open>size = 512\<close> the
  file has two chunks, the second in the segment after the first:
  \<open>floor((startEntryIndex + numChunks - 1) / 1024) = 8796093022208\<close>. The code adds
  \<open>startEntryIndex + numChunks\<close> as doubles, which rounds \<open>2^53 + 1\<close> to \<open>2^53\<close>, gets
  \<open>endSegmentIndex = 8796093022207\<close> and plans one task, for the first segment only.
\<close>

theorem rounded_plan_counterexample:
  "0 \<le> tx_startEntryIndex tx_rounded \<and> 1 \<le> tx_size tx_rounded \<and>
   tx_startEntryIndex tx_rounded = 2 ^ 53 - 1 \<and>
   round_double (tx_startEntryIndex tx_rounded) = tx_startEntryIndex tx_rounded \<and>
   round_double (tx_size tx_rounded) = tx_size tx_rounded \<and>
   numChunks (download_parameters tx_rounded) = 2 \<and>
   startSegmentIndex (download_parameters tx_rounded) = 8796093022207 \<and>
   \<lfloor>(real_of_int (tx_startEntryIndex tx_rounded)
        + real_of_int (numChunks (download_parameters tx_rounded)) - 1) / 1024\<rfloor> = 8796093022208 \<and>
   endSegmentIndex (download_parameters tx_rounded) = 8796093022207 \<and>
   numTasks (download_parameters tx_rounded) = 1 \<and>
   task_indices (numTasks (download_parameters tx_rounded)) = [0]"
proof -
  have "\<lfloor>(real_of_int 9007199254740991 + real_of_int 2 - 1) / 1024\<rfloor> = (8796093022208 :: int)"
  proof -
    have "real_of_int 9007199254740991 + real_of_int 2 - 1 = real_of_int 9007199254740992"
      by simp
    then show ?thesis unfolding floor_div_1024 by simp
  qed
  then show ?thesis
    unfolding tx_rounded_params
    by (simp add: tx_rounded_def task_indices_def round_double_exact)
qed

text \<open>
  Claim C8, amended. For transaction metadata with \<open>startEntryIndex \<ge> 0\<close> and
  \<open>size \<ge> 1\<close>, where \<open>size\<close> and \<open>startEntryIndex + ceil(size / 256)\<close> are below \<open>2^53\<close>,
  and the constants 256 and 1024: \<open>numChunks = ceil(size / 256)\<close>,
  \<open>startSegmentIndex = floor(startEntryIndex / 1024)\<close>,
  \<open>endSegmentIndex = floor((startEntryIndex + numChunks - 1) / 1024)\<close>, each equal to the
  exact integer quotient; the task count is \<open>endSegmentIndex - startSegmentIndex + 1\<close>,
  at least one; and the task loop runs exactly one task per segment index of
  \<open>[startSegmentIndex, endSegmentIndex]\<close>, in ascending order, task \<open>taskInd\<close> being the
  segment \<open>startSegmentIndex + taskInd\<close> of the downloader whose \<open>startSegmentIndex\<close> the
  code sets. The code computes in doubles, whose sums and differences are exact in this
  range and rounded beyond it.
\<close>

theorem download_plan_exact:
  assumes "0 \<le> tx_startEntryIndex t" and "1 \<le> tx_size t" and "tx_size t < 2 ^ 53"
    and "tx_startEntryIndex t + (tx_size t + 255) div 256 < 2 ^ 53"
  shows "numChunks (download_parameters t) = \<lceil>real_of_int (tx_size t) / 256\<rceil> \<and>
         numChunks (download_parameters t) = (tx_size t + 255) div 256 \<and>
         startSegmentIndex (download_parameters t) = \<lfloor>real_of_int (tx_startEntryIndex t) / 1024\<rfloor> \<and>
         startSegmentIndex (download_parameters t) = tx_startEntryIndex t div 1024 \<and>
         endSegmentIndex (download_parameters t) =
           \<lfloor>(real_of_int (tx_startEntryIndex t) + real_of_int (numChunks (download_parameters t)) - 1)
              / 1024\<rfloor> \<and>
         endSegmentIndex (download_parameters t) =
           (tx_startEntryIndex t + numChunks (download_parameters t) - 1) div 1024 \<and>
         numTasks (download_parameters t) =
           endSegmentIndex (download_parameters t) - startSegmentIndex (download_parameters t) + 1 \<and>
         1 \<le> numTasks (download_parameters t) \<and>
         int (length (task_indices (numTasks (download_parameters t)))) = numTasks (download_parameters t) \<and>
         map (\<lambda>taskInd. startSegmentIndex (download_parameters t) + taskInd)
             (task_indices (numTasks (download_parameters t)))
           = [startSegmentIndex (download_parameters t) .. endSegmentIndex (download_parameters t)]"
proof -
  let ?p = "download_parameters t"
  note p = params_exact [OF assms]
  have nc: "numChunks ?p = (tx_size t + 255) div 256"
    and ss: "startSegmentIndex ?p = tx_startEntryIndex t div 1024"
    and es: "endSegmentIndex ?p = (tx_startEntryIndex t + numChunks ?p - 1) div 1024"
    and nt: "numTasks ?p = endSegmentIndex ?p - startSegmentIndex ?p + 1"
    by (simp_all add: p)
  have c: "1 \<le> numChunks ?p"
    using assms(2) unfolding nc by linarith
  have "tx_startEntryIndex t div 1024 \<le> (tx_startEntryIndex t + numChunks ?p - 1) div 1024"
    using c by (intro zdiv_mono1) simp_all
  then have le: "startSegmentIndex ?p \<le> endSegmentIndex ?p"
    by (simp only: ss es [symmetric])
  then have n: "1 \<le> numTasks ?p" unfolding nt by linarith
  have m: "map (\<lambda>taskInd. startSegmentIndex ?p + taskInd) (task_indices (numTasks ?p))
      = [startSegmentIndex ?p .. endSegmentIndex ?p]"
    using task_indices_upto [of "numTasks ?p" "startSegmentIndex ?p"] n
    by (simp add: nt)
  have l: "int (length (task_indices (numTasks ?p))) = numTasks ?p"
    using n by (simp add: task_indices_def)
  have c0: "numChunks ?p = \<lceil>real_of_int (tx_size t) / 256\<rceil>"
    unfolding nc ceiling_div_256 ..
  have s0: "startSegmentIndex ?p = \<lfloor>real_of_int (tx_startEntryIndex t) / 1024\<rfloor>"
    unfolding ss floor_div_1024 ..
  have "real_of_int (tx_startEntryIndex t) + real_of_int (numChunks ?p) - 1
      = real_of_int (tx_startEntryIndex t + numChunks ?p - 1)"
    by simp
  then have e0: "endSegmentIndex ?p =
      \<lfloor>(real_of_int (tx_startEntryIndex t) + real_of_int (numChunks ?p) - 1) / 1024\<rfloor>"
    using es by (simp only: floor_div_1024)
  show ?thesis
    using c0 nc s0 ss e0 es nt n l m
    by (intro conjI)
qed

theorem download_plan_exact_witness:
  "0 \<le> tx_startEntryIndex \<lparr>tx_seq = 7, tx_size = 262145, tx_startEntryIndex = 1000\<rparr> \<and>
   1 \<le> tx_size \<lparr>tx_seq = 7, tx_size = 262145, tx_startEntryIndex = 1000\<rparr> \<and>
   tx_size \<lparr>tx_seq = 7, tx_size = 262145, tx_startEntryIndex = 1000\<rparr> < 2 ^ 53 \<and>
   tx_startEntryIndex \<lparr>tx_seq = 7, tx_size = 262145, tx_startEntryIndex = 1000\<rparr>
     + (tx_size \<lparr>tx_seq = 7, tx_size = 262145, tx_startEntryIndex = 1000\<rparr> + 255) div 256 < 2 ^ 53 \<and>
   numChunks (download_parameters \<lparr>tx_seq = 7, tx_size = 262145, tx_startEntryIndex = 1000\<rparr>) = 1025 \<and>
   startSegmentIndex (download_parameters \<lparr>tx_seq = 7, tx_size = 262145, tx_startEntryIndex = 1000\<rparr>) = 0 \<and>
   endSegmentIndex (download_parameters \<lparr>tx_seq = 7, tx_size = 262145, tx_startEntryIndex = 1000\<rparr>) = 1 \<and>
   numTasks (download_parameters \<lparr>tx_seq = 7, tx_size = 262145, tx_startEntryIndex = 1000\<rparr>) = 2"
  using download_plan_exact [of "\<lparr>tx_seq = 7, tx_size = 262145, tx_startEntryIndex = 1000\<rparr>"]
  by simp

subsection \<open>What the retrieval executor returns\<close>

text \<open>
  Each loop keeps the segments of the tasks that succeeded, in the order of the task
  indices, and drops the others.
\<close>

lemma task_outcome_simps:
  "task_succeeded (Inl e) = False"
  "task_succeeded (Inr (sd, Some te)) = False"
  "task_succeeded (Inr (None, None)) = False"
  "task_succeeded (Inr (Some d, None)) = (d \<noteq> [])"
  "task_segment (Inr (Some d, None)) = d"
  by (cases sd; simp add: task_succeeded_def task_segment_def)+

lemma segment_outcome_simps:
  "segment_fetched (Inl e) = False"
  "segment_fetched (Inr d) = (d \<noteq> [])"
  "segment_data (Inr d) = d"
  by (simp_all add: segment_fetched_def segment_data_def)

lemma run_tasks_filter:
  "fst (run_tasks task idxs) = map (\<lambda>i. task_segment (task i)) (filter (\<lambda>i. task_succeeded (task i)) idxs)"
proof (induction idxs)
  case Nil
  show ?case by simp
next
  case (Cons i idxs)
  obtain segs calls where rt: "run_tasks task idxs = (segs, calls)"
    by (cases "run_tasks task idxs")
  show ?case
  proof (cases "task i")
    case (Inl e)
    then show ?thesis using Cons rt by (simp add: task_outcome_simps)
  next
    case (Inr r)
    obtain sd te where r: "r = (sd, te)" by (cases r)
    show ?thesis using Cons Inr r rt
      by (cases sd; cases te) (simp_all add: task_outcome_simps)
  qed
qed


lemma fetch_segments_filter:
  "fst (fetch_segments fetch idxs) =
     map (\<lambda>i. segment_data (snd (fetch i))) (filter (\<lambda>i. segment_fetched (snd (fetch i))) idxs)"
proof (induction idxs)
  case Nil
  show ?case by simp
next
  case (Cons i idxs)
  obtain calls outcome where f: "fetch i = (calls, outcome)" by (cases "fetch i")
  obtain segs calls' where r: "fetch_segments fetch idxs = (segs, calls')"
    by (cases "fetch_segments fetch idxs")
  show ?case using Cons f r by (cases outcome) (simp_all add: segment_outcome_simps)
qed


lemma task_indices_2: "task_indices 2 = [0, 1]"
  by (simp add: task_indices_def numeral_2_eq_2)

lemma params_two: "download_parameters \<lparr>tx_seq = 7, tx_size = 262145, tx_startEntryIndex = 0\<rparr>
   = \<lparr>numChunks = 1025, startSegmentIndex = 0, endSegmentIndex = 1, numTasks = 2\<rparr>"
  using params_exact [of "\<lparr>tx_seq = 7, tx_size = 262145, tx_startEntryIndex = 0\<rparr>"] by simp

lemma env_partial_primary: "downloadFileData_primary env_partial ''0xroot'' True = Inr [1, 2, 3]"
  by (simp add: downloadFileData_primary_def env_partial_def initializeSDK_def two_segment_file_def
      getShardConfigs_def primary_tasks_def primary_run_def params_two task_indices_2 assemble_def)

lemma env_partial_fallback: "downloadFileDataFallback env_partial ''0xroot'' True = Inr [1, 2, 3]"
  by (simp add: downloadFileDataFallback_def env_partial_def two_segment_file_def
      fallback_fetch_def num_or_def first_node_def fetch_segment_def segment_end_index_def
      task_indices_2 assemble_def Let_def DEFAULT_CHUNK_SIZE_def ceiling_div_256
      js_add_exact round_double_exact)


lemma assemble_iff: "assemble segments = Inr d \<longleftrightarrow> segments \<noteq> [] \<and> d = concat segments"
  by (auto simp: assemble_def)

lemma assemble_fails_iff:
  "assemble segments = Inl e \<longleftrightarrow>
     segments = [] \<and> e = Error ''No segments were successfully downloaded''"
  by (auto simp: assemble_def)

lemma assemble_empty: "assemble [] = Inl (Error ''No segments were successfully downloaded'')"
  by (simp add: assemble_def)

lemma primary_eq:
  assumes "initializeSDK env = Inr ()"
    and "getFileLocations env 1 rootHash = Inr (Some storageNodes)" and "storageNodes \<noteq> []"
    and "queryFile env storageNodes rootHash = Inr (Some fileInfo, None)"
    and "finalized fileInfo" and "tx fileInfo = Some t"
    and "getShardConfigs env storageNodes = Some shardConfigs"
  shows "downloadFileData_primary env rootHash withProof =
           assemble (primary_tasks env storageNodes shardConfigs fileInfo t withProof)"
  using assms by (simp add: downloadFileData_primary_def)

lemma fallback_eq:
  assumes "getFileLocations env 2 rootHash = Inr (Some storageNodes)" and "storageNodes \<noteq> []"
    and "fst (find_file_info (getFileInfo env 1 rootHash) storageNodes) = Some fileInfo"
    and "tx fileInfo = Some t"
  shows "downloadFileDataFallback env rootHash withProof =
           assemble (fst (fallback_fetch env storageNodes fileInfo t))"
  using assms by (simp add: downloadFileDataFallback_def)

lemma primary_result:
  assumes "downloadFileData_primary env rootHash withProof = Inr fileData"
  shows "\<exists>storageNodes shardConfigs fileInfo t.
           initializeSDK env = Inr () \<and>
           getFileLocations env 1 rootHash = Inr (Some storageNodes) \<and> storageNodes \<noteq> [] \<and>
           queryFile env storageNodes rootHash = Inr (Some fileInfo, None) \<and>
           finalized fileInfo \<and> tx fileInfo = Some t \<and>
           getShardConfigs env storageNodes = Some shardConfigs \<and>
           primary_tasks env storageNodes shardConfigs fileInfo t withProof \<noteq> [] \<and>
           fileData = concat (primary_tasks env storageNodes shardConfigs fileInfo t withProof)"
  using assms unfolding downloadFileData_primary_def
  by (auto simp: assemble_iff split: sum.splits option.splits if_splits prod.splits)

lemma fallback_result:
  assumes "downloadFileDataFallback env rootHash withProof = Inr fileData"
  shows "\<exists>storageNodes fileInfo t.
           getFileLocations env 2 rootHash = Inr (Some storageNodes) \<and> storageNodes \<noteq> [] \<and>
           fst (find_file_info (getFileInfo env 1 rootHash) storageNodes) = Some fileInfo \<and>
           tx fileInfo = Some t \<and>
           fst (fallback_fetch env storageNodes fileInfo t) \<noteq> [] \<and>
           fileData = concat (fst (fallback_fetch env storageNodes fileInfo t))"
  using assms unfolding downloadFileDataFallback_def
  by (auto simp: assemble_iff split: sum.splits option.splits if_splits)

lemma downloadFileData_cases:
  assumes "downloadFileData env rootHash withProof = Inr fileData"
  shows "downloadFileData_primary env rootHash withProof = Inr fileData \<or>
         ((\<exists>e. downloadFileData_primary env rootHash withProof = Inl e) \<and>
          downloadFileDataFallback env rootHash withProof = Inr fileData)"
  using assms unfolding downloadFileData_def by (auto split: sum.splits)

lemma primary_tasks_filter:
  "primary_tasks env storageNodes shardConfigs fileInfo t withProof =
     (let p = download_parameters t;
          dl = \<lparr>dl_nodes = storageNodes, dl_shardConfigs = shardConfigs,
                dl_startSegmentIndex = startSegmentIndex p, dl_endSegmentIndex = endSegmentIndex p\<rparr>
      in map (\<lambda>taskInd. task_segment (downloadTask env dl fileInfo 0 taskInd (numChunks p) withProof))
           (filter (\<lambda>taskInd. task_succeeded (downloadTask env dl fileInfo 0 taskInd (numChunks p) withProof))
              (task_indices (numTasks p))))"
  unfolding primary_tasks_def primary_run_def Let_def by (rule run_tasks_filter)

lemma fallback_fetch_filter:
  "fst (fallback_fetch env storageNodes fileInfo t) =
     (let nSegments = num_or (uploadedSegNum fileInfo) (num_or (numSegments fileInfo) 1);
          node = first_node storageNodes
      in map (\<lambda>i. segment_data (snd (fetch_segment env node t i)))
           (filter (\<lambda>i. segment_fetched (snd (fetch_segment env node t i))) (task_indices nSegments)))"
  unfolding fallback_fetch_def Let_def by (rule fetch_segments_filter)


text \<open>
  The statement of claim C1 fails on the code. In \<open>env_partial\<close> the plan has two tasks;
  the first fails and the second succeeds, and both \<open>downloadFileData\<close> and
  \<open>downloadFileDataFallback\<close> return the bytes of the second segment alone.
\<close>

theorem partial_file_counterexample:
  "downloadFileData env_partial ''0xroot'' True = Inr [1, 2, 3] \<and>
   downloadFileDataFallback env_partial ''0xroot'' True = Inr [1, 2, 3] \<and>
   numTasks (download_parameters \<lparr>tx_seq = 7, tx_size = 262145, tx_startEntryIndex = 0\<rparr>) = 2 \<and>
   \<not> task_succeeded (downloadTask env_partial
        \<lparr>dl_nodes = [''https://node-a''], dl_shardConfigs = [0],
           dl_startSegmentIndex = 0, dl_endSegmentIndex = 1\<rparr> two_segment_file 0 0 1025 True) \<and>
   \<not> segment_fetched (snd (fetch_segment env_partial (Some ''https://node-a'')
        \<lparr>tx_seq = 7, tx_size = 262145, tx_startEntryIndex = 0\<rparr> 0))"
proof -
  have "downloadFileData env_partial ''0xroot'' True = Inr [1, 2, 3]"
    by (simp add: downloadFileData_def env_partial_primary)
  moreover have "\<not> task_succeeded (downloadTask env_partial
        \<lparr>dl_nodes = [''https://node-a''], dl_shardConfigs = [0],
           dl_startSegmentIndex = 0, dl_endSegmentIndex = 1\<rparr> two_segment_file 0 0 1025 True)"
    by (simp add: env_partial_def task_succeeded_def)
  moreover have "\<not> segment_fetched (snd (fetch_segment env_partial (Some ''https://node-a'')
        \<lparr>tx_seq = 7, tx_size = 262145, tx_startEntryIndex = 0\<rparr> 0))"
    by (simp add: env_partial_def fetch_segment_def segment_fetched_def)
  ultimately show ?thesis
    using env_partial_fallback by (simp add: params_two)
qed

text \<open>
  Claim C1, as the code has it. \<open>downloadFileData\<close> returns the result of the primary
  path, or that of the fallback when the primary path throws. Once a path has found the
  file (its nodes, its information and, in the primary path, the shard configurations),
  its result is the reassembly of the segments it fetched: it returns a byte stream
  whenever at least one task delivered a non-empty segment, and the stream is the
  concatenation, in ascending task order, of the segments of the tasks that succeeded,
  the tasks that failed being left out; the reassembly fails, with
  \<open>No segments were successfully downloaded\<close>, exactly when no task delivered a segment.
  Conversely a path that returns a byte stream has found the file and fetched at least
  one segment.
\<close>

theorem download_returns_fetched_segments:
  "downloadFileData env rootHash withProof =
     (case downloadFileData_primary env rootHash withProof of
        Inr d \<Rightarrow> Inr d
      | Inl e \<Rightarrow> downloadFileDataFallback env rootHash withProof) \<and>
   (initializeSDK env = Inr () \<and>
    getFileLocations env 1 rootHash = Inr (Some nodes) \<and> nodes \<noteq> [] \<and>
    queryFile env nodes rootHash = Inr (Some info, None) \<and> finalized info \<and> tx info = Some t' \<and>
    getShardConfigs env nodes = Some configs \<longrightarrow>
      downloadFileData_primary env rootHash withProof =
        assemble (primary_tasks env nodes configs info t' withProof)) \<and>
   (getFileLocations env 2 rootHash = Inr (Some nodes) \<and> nodes \<noteq> [] \<and>
    fst (find_file_info (getFileInfo env 1 rootHash) nodes) = Some info \<and> tx info = Some t' \<longrightarrow>
      downloadFileDataFallback env rootHash withProof =
        assemble (fst (fallback_fetch env nodes info t'))) \<and>
   (assemble segments = Inr fileData \<longleftrightarrow> segments \<noteq> [] \<and> fileData = concat segments) \<and>
   (assemble segments = Inl err \<longleftrightarrow>
      segments = [] \<and> err = Error ''No segments were successfully downloaded'') \<and>
   primary_tasks env nodes configs info t' withProof =
     (let p = download_parameters t';
          dl = \<lparr>dl_nodes = nodes, dl_shardConfigs = configs,
                dl_startSegmentIndex = startSegmentIndex p, dl_endSegmentIndex = endSegmentIndex p\<rparr>
      in map (\<lambda>taskInd. task_segment (downloadTask env dl info 0 taskInd (numChunks p) withProof))
           (filter (\<lambda>taskInd. task_succeeded (downloadTask env dl info 0 taskInd (numChunks p) withProof))
              (task_indices (numTasks p)))) \<and>
   fst (fallback_fetch env nodes info t') =
     (let nSegments = num_or (uploadedSegNum info) (num_or (numSegments info) 1);
          node = first_node nodes
      in map (\<lambda>i. segment_data (snd (fetch_segment env node t' i)))
           (filter (\<lambda>i. segment_fetched (snd (fetch_segment env node t' i))) (task_indices nSegments))) \<and>
   (downloadFileData_primary env rootHash withProof = Inr fileData \<longleftrightarrow>
      (\<exists>storageNodes shardConfigs fileInfo t.
         initializeSDK env = Inr () \<and>
         getFileLocations env 1 rootHash = Inr (Some storageNodes) \<and> storageNodes \<noteq> [] \<and>
         queryFile env storageNodes rootHash = Inr (Some fileInfo, None) \<and>
         finalized fileInfo \<and> tx fileInfo = Some t \<and>
         getShardConfigs env storageNodes = Some shardConfigs \<and>
         primary_tasks env storageNodes shardConfigs fileInfo t withProof \<noteq> [] \<and>
         fileData = concat (primary_tasks env storageNodes shardConfigs fileInfo t withProof))) \<and>
   (downloadFileDataFallback env rootHash withProof = Inr fileData \<longleftrightarrow>
      (\<exists>storageNodes fileInfo t.
         getFileLocations env 2 rootHash = Inr (Some storageNodes) \<and> storageNodes \<noteq> [] \<and>
         fst (find_file_info (getFileInfo env 1 rootHash) storageNodes) = Some fileInfo \<and>
         tx fileInfo = Some t \<and>
         fst (fallback_fetch env storageNodes fileInfo t) \<noteq> [] \<and>
         fileData = concat (fst (fallback_fetch env storageNodes fileInfo t)))) \<and>
   (primary_tasks env nodes configs info t' withProof \<noteq> [] \<longleftrightarrow>
      (\<exists>taskInd \<in> set (task_indices (numTasks (download_parameters t'))).
         task_succeeded (downloadTask env
           \<lparr>dl_nodes = nodes, dl_shardConfigs = configs,
              dl_startSegmentIndex = startSegmentIndex (download_parameters t'),
              dl_endSegmentIndex = endSegmentIndex (download_parameters t')\<rparr>
           info 0 taskInd (numChunks (download_parameters t')) withProof))) \<and>
   (fst (fallback_fetch env nodes info t') \<noteq> [] \<longleftrightarrow>
      (\<exists>i \<in> set (task_indices (num_or (uploadedSegNum info) (num_or (numSegments info) 1))).
         segment_fetched (snd (fetch_segment env (first_node nodes) t' i))))"
proof -
  have pn: "primary_tasks env nodes configs info t' withProof \<noteq> [] \<longleftrightarrow>
      (\<exists>taskInd \<in> set (task_indices (numTasks (download_parameters t'))).
         task_succeeded (downloadTask env
           \<lparr>dl_nodes = nodes, dl_shardConfigs = configs,
              dl_startSegmentIndex = startSegmentIndex (download_parameters t'),
              dl_endSegmentIndex = endSegmentIndex (download_parameters t')\<rparr>
           info 0 taskInd (numChunks (download_parameters t')) withProof))"
    unfolding primary_tasks_filter Let_def by (simp add: filter_empty_conv)
  have fn: "fst (fallback_fetch env nodes info t') \<noteq> [] \<longleftrightarrow>
      (\<exists>i \<in> set (task_indices (num_or (uploadedSegNum info) (num_or (numSegments info) 1))).
         segment_fetched (snd (fetch_segment env (first_node nodes) t' i)))"
    unfolding fallback_fetch_filter Let_def by (simp add: filter_empty_conv)
  have p: "downloadFileData_primary env rootHash withProof = Inr fileData \<longleftrightarrow>
      (\<exists>storageNodes shardConfigs fileInfo t.
         initializeSDK env = Inr () \<and>
         getFileLocations env 1 rootHash = Inr (Some storageNodes) \<and> storageNodes \<noteq> [] \<and>
         queryFile env storageNodes rootHash = Inr (Some fileInfo, None) \<and>
         finalized fileInfo \<and> tx fileInfo = Some t \<and>
         getShardConfigs env storageNodes = Some shardConfigs \<and>
         primary_tasks env storageNodes shardConfigs fileInfo t withProof \<noteq> [] \<and>
         fileData = concat (primary_tasks env storageNodes shardConfigs fileInfo t withProof))"
    (is "?l \<longleftrightarrow> ?r")
  proof
    assume ?l
    then show ?r by (rule primary_result)
  next
    assume ?r
    then obtain storageNodes shardConfigs fileInfo t where
      h: "initializeSDK env = Inr ()"
         "getFileLocations env 1 rootHash = Inr (Some storageNodes)" "storageNodes \<noteq> []"
         "queryFile env storageNodes rootHash = Inr (Some fileInfo, None)"
         "finalized fileInfo" "tx fileInfo = Some t"
         "getShardConfigs env storageNodes = Some shardConfigs"
      and s: "primary_tasks env storageNodes shardConfigs fileInfo t withProof \<noteq> []"
         "fileData = concat (primary_tasks env storageNodes shardConfigs fileInfo t withProof)"
      by blast
    show ?l unfolding primary_eq [OF h] using s by (simp add: assemble_iff)
  qed
  have f: "downloadFileDataFallback env rootHash withProof = Inr fileData \<longleftrightarrow>
      (\<exists>storageNodes fileInfo t.
         getFileLocations env 2 rootHash = Inr (Some storageNodes) \<and> storageNodes \<noteq> [] \<and>
         fst (find_file_info (getFileInfo env 1 rootHash) storageNodes) = Some fileInfo \<and>
         tx fileInfo = Some t \<and>
         fst (fallback_fetch env storageNodes fileInfo t) \<noteq> [] \<and>
         fileData = concat (fst (fallback_fetch env storageNodes fileInfo t)))"
    (is "?l \<longleftrightarrow> ?r")
  proof
    assume ?l
    then show ?r by (rule fallback_result)
  next
    assume ?r
    then obtain storageNodes fileInfo t where
      h: "getFileLocations env 2 rootHash = Inr (Some storageNodes)" "storageNodes \<noteq> []"
         "fst (find_file_info (getFileInfo env 1 rootHash) storageNodes) = Some fileInfo"
         "tx fileInfo = Some t"
      and s: "fst (fallback_fetch env storageNodes fileInfo t) \<noteq> []"
         "fileData = concat (fst (fallback_fetch env storageNodes fileInfo t))"
      by blast
    show ?l unfolding fallback_eq [OF h] using s by (simp add: assemble_iff)
  qed
  have d: "downloadFileData env rootHash withProof =
     (case downloadFileData_primary env rootHash withProof of
        Inr d \<Rightarrow> Inr d
      | Inl e \<Rightarrow> downloadFileDataFallback env rootHash withProof)"
    by (simp add: downloadFileData_def split: sum.splits)
  have pe: "initializeSDK env = Inr () \<and>
    getFileLocations env 1 rootHash = Inr (Some nodes) \<and> nodes \<noteq> [] \<and>
    queryFile env nodes rootHash = Inr (Some info, None) \<and> finalized info \<and> tx info = Some t' \<and>
    getShardConfigs env nodes = Some configs \<longrightarrow>
      downloadFileData_primary env rootHash withProof =
        assemble (primary_tasks env nodes configs info t' withProof)"
    using primary_eq [of env rootHash nodes info t' configs withProof] by blast
  have fe: "getFileLocations env 2 rootHash = Inr (Some nodes) \<and> nodes \<noteq> [] \<and>
    fst (find_file_info (getFileInfo env 1 rootHash) nodes) = Some info \<and> tx info = Some t' \<longrightarrow>
      downloadFileDataFallback env rootHash withProof =
        assemble (fst (fallback_fetch env nodes info t'))"
    using fallback_eq [of env rootHash nodes info t' withProof] by blast
  show ?thesis
    using d pe fe assemble_iff [of segments fileData] assemble_fails_iff [of segments err]
      primary_tasks_filter [of env nodes configs info t' withProof]
      fallback_fetch_filter [of env nodes info t'] p f pn fn
    by (intro conjI)
qed

lemma env_partial_tasks:
  "primary_tasks env_partial [''https://node-a''] [0] two_segment_file
     \<lparr>tx_seq = 7, tx_size = 262145, tx_startEntryIndex = 0\<rparr> True = [[1, 2, 3]]"
  by (simp add: primary_tasks_def primary_run_def params_two task_indices_2 env_partial_def)

lemma env_partial_prelims:
  "initializeSDK env_partial = Inr ()"
  "getFileLocations env_partial 1 ''0xroot'' = Inr (Some [''https://node-a''])"
  "queryFile env_partial [''https://node-a''] ''0xroot'' = Inr (Some two_segment_file, None)"
  "finalized two_segment_file"
  "tx two_segment_file = Some \<lparr>tx_seq = 7, tx_size = 262145, tx_startEntryIndex = 0\<rparr>"
  "getShardConfigs env_partial [''https://node-a''] = Some [0]"
  by (simp_all add: env_partial_def initializeSDK_def two_segment_file_def getShardConfigs_def)

lemma env_other_tasks:
  "primary_tasks env_other_bytes [''https://node-a''] [0] two_segment_file
     \<lparr>tx_seq = 7, tx_size = 262145, tx_startEntryIndex = 0\<rparr> True = [[4, 5, 6], [4, 5, 6]]"
  by (simp add: primary_tasks_def primary_run_def params_two task_indices_2 env_other_bytes_def)

lemma env_other_prelims:
  "initializeSDK env_other_bytes = Inr ()"
  "getFileLocations env_other_bytes 1 ''0xroot'' = Inr (Some [''https://node-a''])"
  "queryFile env_other_bytes [''https://node-a''] ''0xroot'' = Inr (Some two_segment_file, None)"
  "getShardConfigs env_other_bytes [''https://node-a''] = Some [0]"
  by (simp_all add: env_other_bytes_def env_partial_def initializeSDK_def getShardConfigs_def)

theorem download_returns_fetched_segments_witness:
  "initializeSDK env_partial = Inr () \<and>
   getFileLocations env_partial 1 ''0xroot'' = Inr (Some [''https://node-a'']) \<and>
   queryFile env_partial [''https://node-a''] ''0xroot'' = Inr (Some two_segment_file, None) \<and>
   finalized two_segment_file \<and>
   tx two_segment_file = Some \<lparr>tx_seq = 7, tx_size = 262145, tx_startEntryIndex = 0\<rparr> \<and>
   getShardConfigs env_partial [''https://node-a''] = Some [0] \<and>
   primary_tasks env_partial [''https://node-a''] [0] two_segment_file
     \<lparr>tx_seq = 7, tx_size = 262145, tx_startEntryIndex = 0\<rparr> True = [[1, 2, 3]] \<and>
   downloadFileData_primary env_partial ''0xroot'' True =
     assemble (primary_tasks env_partial [''https://node-a''] [0] two_segment_file
       \<lparr>tx_seq = 7, tx_size = 262145, tx_startEntryIndex = 0\<rparr> True) \<and>
   assemble [[1, 2, 3]] = Inr [1, 2, 3] \<and>
   downloadFileData_primary env_partial ''0xroot'' True = Inr [1, 2, 3] \<and>
   downloadFileData env_partial ''0xroot'' True = Inr [1, 2, 3] \<and>
   downloadFileDataFallback env_partial ''0xroot'' True = Inr [1, 2, 3] \<and>
   (\<exists>storageNodes fileInfo t.
      fst (fallback_fetch env_partial storageNodes fileInfo t) \<noteq> [] \<and>
      [1, 2, 3] = concat (fst (fallback_fetch env_partial storageNodes fileInfo t))) \<and>
   primary_tasks env_other_bytes [''https://node-a''] [0] two_segment_file
     \<lparr>tx_seq = 7, tx_size = 262145, tx_startEntryIndex = 0\<rparr> True = [[4, 5, 6], [4, 5, 6]] \<and>
   downloadFileData_primary env_other_bytes ''0xroot'' True = Inr [4, 5, 6, 4, 5, 6]"
proof -
  note t2 = download_returns_fetched_segments [of env_other_bytes "''0xroot''" True
      "[''https://node-a'']" two_segment_file
      "\<lparr>tx_seq = 7, tx_size = 262145, tx_startEntryIndex = 0\<rparr>" "[0]"
      "[[4, 5, 6], [4, 5, 6]]" "[4, 5, 6, 4, 5, 6]"]
  have e2: "downloadFileData_primary env_other_bytes ''0xroot'' True =
     assemble (primary_tasks env_other_bytes [''https://node-a''] [0] two_segment_file
       \<lparr>tx_seq = 7, tx_size = 262145, tx_startEntryIndex = 0\<rparr> True)"
    using t2 env_other_prelims env_partial_prelims(4,5) by simp
  have a2: "assemble [[4, 5, 6], [4, 5, 6]] = Inr [4, 5, 6, 4, 5, 6]"
    using t2 by simp
  have p2: "downloadFileData_primary env_other_bytes ''0xroot'' True = Inr [4, 5, 6, 4, 5, 6]"
    using e2 a2 by (simp add: env_other_tasks)
  note t = download_returns_fetched_segments [of env_partial "''0xroot''" True
      "[''https://node-a'']" two_segment_file
      "\<lparr>tx_seq = 7, tx_size = 262145, tx_startEntryIndex = 0\<rparr>" "[0]" "[[1, 2, 3]]" "[1, 2, 3]"]
  have e: "downloadFileData_primary env_partial ''0xroot'' True =
     assemble (primary_tasks env_partial [''https://node-a''] [0] two_segment_file
       \<lparr>tx_seq = 7, tx_size = 262145, tx_startEntryIndex = 0\<rparr> True)"
    using t env_partial_prelims by simp
  have a: "assemble [[1, 2, 3]] = Inr [1, 2, 3]"
    using t by simp
  have p: "downloadFileData_primary env_partial ''0xroot'' True = Inr [1, 2, 3]"
    using e a by (simp add: env_partial_tasks)
  have d: "downloadFileData env_partial ''0xroot'' True = Inr [1, 2, 3]"
    using t p by simp
  have f: "\<exists>storageNodes fileInfo t.
      fst (fallback_fetch env_partial storageNodes fileInfo t) \<noteq> [] \<and>
      [1, 2, 3] = concat (fst (fallback_fetch env_partial storageNodes fileInfo t))"
    using t env_partial_fallback by blast
  show ?thesis
    using env_partial_prelims env_partial_tasks e a p d env_partial_fallback f env_other_tasks p2
    by (intro conjI)
qed

subsection \<open>Fail-over between nodes\<close>


lemma find_file_info_hit:
  assumes "ask node = Inr (Some info)" "finalized info"
  shows "find_file_info ask (node # nodes) = (Some info, [node])"
  using assms by simp





lemma task_indices_1: "task_indices 1 = [0]"
  by (simp add: task_indices_def)

lemma params_one: "download_parameters \<lparr>tx_seq = 7, tx_size = 100, tx_startEntryIndex = 0\<rparr>
   = \<lparr>numChunks = 1, startSegmentIndex = 0, endSegmentIndex = 0, numTasks = 1\<rparr>"
  using params_exact [of "\<lparr>tx_seq = 7, tx_size = 100, tx_startEntryIndex = 0\<rparr>"] by simp

lemma env_failover_primary:
  "downloadFileData_primary env_failover ''0xroot'' True =
     Inl (Error ''No segments were successfully downloaded'')"
  by (simp add: downloadFileData_primary_def env_failover_def initializeSDK_def one_segment_file_def
      getShardConfigs_def primary_tasks_def primary_run_def params_one task_indices_1 assemble_def)

lemma env_failover_fallback:
  "downloadFileDataFallback env_failover ''0xroot'' True =
     Inl (Error ''No segments were successfully downloaded'')"
  by (simp add: downloadFileDataFallback_def env_failover_def one_segment_file_def
      fallback_fetch_def num_or_def first_node_def fetch_segment_def segment_end_index_def
      task_indices_1 assemble_def Let_def DEFAULT_CHUNK_SIZE_def ceiling_div_256
      js_add_exact round_double_exact)








subsection \<open>\<open>uploadFile\<close> and \<open>downloadFile\<close> never reject\<close>
















lemma env_failover_body:
  "downloadFile_body env_failover ''0xroot'' True =
     Inl (Error ''No segments were successfully downloaded'')"
proof -
  have "env_failover\<lparr>indexer_set := True\<rparr> = env_failover"
    by (simp add: env_failover_def)
  moreover have "downloadFileData env_failover ''0xroot'' True =
     Inl (Error ''No segments were successfully downloaded'')"
    by (simp add: downloadFileData_def env_failover_primary env_failover_fallback)
  moreover have "initializeSDK env_failover = Inr ()"
    by (simp add: initializeSDK_def env_failover_def)
  moreover have "getFileLocations env_failover 0 ''0xroot'' = Inr (Some [''https://node-a'', ''https://node-b''])"
    by (simp add: env_failover_def)
  moreover have "fst (find_file_info (getFileInfo env_failover 0 ''0xroot'') [''https://node-a'', ''https://node-b''])
      = Some one_segment_file"
    by (simp add: env_failover_def one_segment_file_def)
  ultimately show ?thesis by (simp add: downloadFile_body_def)
qed


subsection \<open>Resolving a share code\<close>

lemma valid_example: "validateShareCode ''privshare://0g-ab12-cd34-ef56-gh78''"
  by code_simp

lemma invalid_example: "\<not> validateShareCode ''not-a-share-code''" "\<not> validateShareCode_ipfs ''not-a-share-code''"
  by code_simp+

lemma getMappingFrom0G_invalid:
  "\<not> validateShareCode c \<Longrightarrow> getMappingFrom0G env c = ([], Inl (Error ''Invalid share code format''))"
  by (simp add: getMappingFrom0G_def)

lemma getMappingFrom0G_valid:
  "validateShareCode c \<Longrightarrow>
   getMappingFrom0G env c =
     (fst (loadMappingLocally env c),
      (case snd (loadMappingLocally env c) of
         None \<Rightarrow> Inl (Error ''Mapping record not found.'')
       | Some cached \<Rightarrow> Inr cached))"
  by (cases "loadMappingLocally env c") (auto simp: getMappingFrom0G_def split: option.splits)

lemma loadMappingLocally_local: "\<forall>e \<in> set (fst (loadMappingLocally env c)). \<not> is_network e"
  by (auto simp: loadMappingLocally_def split: sum.splits option.splits)

lemma getMappingFrom0G_local: "\<forall>e \<in> set (fst (getMappingFrom0G env c)). \<not> is_network e"
proof (cases "validateShareCode c")
  case True
  then show ?thesis using loadMappingLocally_local [of env c] by (simp add: getMappingFrom0G_valid)
next
  case False
  then show ?thesis by (simp add: getMappingFrom0G_invalid)
qed






lemma getMappingFromIPFS_try_events:
  "getPinataHeaders env = Inr () \<Longrightarrow>
   fst (getMappingFromIPFS_try env c) = [PinataPinList (extractCodeFromShareCode_ipfs c)] \<or>
   (\<exists>hash. fst (getMappingFromIPFS_try env c) =
      [PinataPinList (extractCodeFromShareCode_ipfs c), GatewayGet hash])"
  by (auto simp: getMappingFromIPFS_try_def fetch_pinned_def Let_def
      split: sum.splits list.splits)

lemma getMappingFromIPFS_fst: "fst (getMappingFromIPFS env c) = fst (getMappingFromIPFS_try env c)"
  by (cases "getMappingFromIPFS_try env c"; cases "snd (getMappingFromIPFS_try env c)")
     (auto simp: getMappingFromIPFS_def)

lemma getMappingFromIPFS_events:
  "getPinataHeaders env = Inr () \<Longrightarrow>
   fst (getMappingFromIPFS env c) = [PinataPinList (extractCodeFromShareCode_ipfs c)] \<or>
   (\<exists>hash. fst (getMappingFromIPFS env c) =
      [PinataPinList (extractCodeFromShareCode_ipfs c), GatewayGet hash])"
  unfolding getMappingFromIPFS_fst by (rule getMappingFromIPFS_try_events)






lemma example_pinata:
  "getPinataHeaders pinata_unconfigured = Inl (Error ''Pinata configuration missing'')"
  "getPinataHeaders pinata_unreachable = Inr ()"
  "pinList pinata_unreachable (extractCodeFromShareCode_ipfs ''privshare://0g-ab12-cd34-ef56-gh78'')
     = Inl (Error ''Failed to fetch'')"
  "extractCodeFromShareCode_ipfs ''privshare://0g-ab12-cd34-ef56-gh78'' = ''ab12-cd34-ef56-gh78''"
  by (simp_all add: getPinataHeaders_def pinata_unconfigured_def pinata_ok_def pinata_unreachable_def
      truthy_def extractCodeFromShareCode_ipfs_def)


subsection \<open>Validation before persistence and resolution\<close>

lemma storeMappingTo0G_invalid:
  "\<not> validateShareCode c \<Longrightarrow>
   storeMappingTo0G env stringify hasLocalStorage c mrec signer =
     ([], Inl (Error ''Invalid share code format''))"
  by (simp add: storeMappingTo0G_def)

lemma useFileDownload_invalid:
  "\<not> validateShareCode (opt_shareCode opts) \<Longrightarrow>
   useFileDownload_mutationFn env opts = ([], None, Inl (Error ''Invalid share code format''))"
  by (simp add: useFileDownload_mutationFn_def)

lemma useFilePreview_invalid:
  "\<not> validateShareCode c \<Longrightarrow>
   useFilePreview_mutationFn env c = ([], Inl (Error ''Invalid share code format''))"
  by (simp add: useFilePreview_mutationFn_def)

lemma storeMappingToIPFS_no_metadata:
  "storeMappingToIPFS env c rootHash None = ([], Inl TypeError)"
  by (simp add: storeMappingToIPFS_def)

lemma storeMappingToIPFS_unconfigured:
  "getPinataHeaders env = Inl e \<Longrightarrow> storeMappingToIPFS env c rootHash (Some md) = ([], Inl e)"
  by (simp add: storeMappingToIPFS_def)

lemma storeMappingToIPFS_request:
  "getPinataHeaders env = Inr () \<Longrightarrow>
   fst (storeMappingToIPFS env c rootHash (Some md)) =
     [PinataPinJSON (''privshare-0g-'' @ replace_first ''privshare://0g-'' [] c)]"
  by (simp add: storeMappingToIPFS_def Let_def)

lemma storeMappingToIPFS_stored:
  "getPinataHeaders env = Inr () \<Longrightarrow>
   pinJSONToIPFS env (''privshare-0g-'' @ replace_first ''privshare://0g-'' [] c) = Inr resp \<Longrightarrow>
   ok resp \<Longrightarrow> body resp = Inr hash \<Longrightarrow>
   snd (storeMappingToIPFS env c rootHash (Some md)) =
     Inr \<lparr>ipfsHash = hash, st_shareCode = c, st_rootHash = rootHash\<rparr>"
  by (simp add: storeMappingToIPFS_def Let_def)

lemma useFileUpload_publish_call:
  "fst (useFileUpload_publish env rnd rootHash md) =
     fst (storeMappingToIPFS env (generateRandomShareCode rnd) rootHash (Some md))"
  by (cases "storeMappingToIPFS env (generateRandomShareCode rnd) rootHash (Some md)";
      cases "snd (storeMappingToIPFS env (generateRandomShareCode rnd) rootHash (Some md))")
     (auto simp: useFileUpload_publish_def Let_def)

lemma pinata_ok_headers: "getPinataHeaders pinata_ok = Inr ()"
  by (simp add: getPinataHeaders_def pinata_ok_def truthy_def)

text \<open>
  The statement of claim C5 fails on the code for \<open>storeMappingToIPFS\<close>: given the
  malformed code \<open>not-a-share-code\<close>, metadata and a Pinata service that answers, it sends
  the pinning request and succeeds, where the claim has a format error before any
  network operation.
\<close>

theorem storeMappingToIPFS_unvalidated_counterexample:
  "\<not> validateShareCode ''not-a-share-code'' \<and>
   \<not> validateShareCode_ipfs ''not-a-share-code'' \<and>
   storeMappingToIPFS pinata_ok ''not-a-share-code'' ''0xroot'' (Some record_encrypted) =
     ([PinataPinJSON ''privshare-0g-not-a-share-code''],
      Inr \<lparr>ipfsHash = ''QmHash'', st_shareCode = ''not-a-share-code'', st_rootHash = ''0xroot''\<rparr>)"
  using invalid_example
  by (simp add: storeMappingToIPFS_def pinata_ok_def getPinataHeaders_def truthy_def Let_def)

text \<open>
  Claim C5, as the code has it. \<open>storeMappingTo0G\<close>, \<open>getMappingFrom0G\<close> and the
  resolution of the download and preview hooks check the grammar of the share code first:
  on a malformed code they fail with \<open>Invalid share code format\<close> and have made no call at
  all. The operations of the Pinata module do not validate. \<open>storeMappingToIPFS\<close> acts on
  any text: it fails before its request only when the metadata is missing or the Pinata
  credentials are, and otherwise sends the pinning request named after the text, and
  returns the text as the share code when the service answers; \<open>getMappingFromIPFS\<close>,
  given credentials, queries the index for any text. Validation is left to the caller:
  the one call of \<open>storeMappingToIPFS\<close>, in the upload hook, hands it a code fresh
  from \<open>generateRandomShareCode\<close>, which is well formed.
\<close>

theorem validation_left_to_callers:
  "(\<not> validateShareCode c \<longrightarrow>
      storeMappingTo0G env stringify hasLocalStorage c mrec signer =
        ([], Inl (Error ''Invalid share code format'')) \<and>
      getMappingFrom0G benv c = ([], Inl (Error ''Invalid share code format'')) \<and>
      useFileDownload_mutationFn henv \<lparr>opt_shareCode = c, opt_encryptionKey = k\<rparr> =
        ([], None, Inl (Error ''Invalid share code format'')) \<and>
      useFilePreview_mutationFn henv c = ([], Inl (Error ''Invalid share code format''))) \<and>
   storeMappingToIPFS penv c rootHash (None :: 'm option) = ([], Inl TypeError) \<and>
   (getPinataHeaders penv = Inl e \<longrightarrow>
      storeMappingToIPFS penv c rootHash (Some (md :: 'm)) = ([], Inl e)) \<and>
   (getPinataHeaders penv = Inr () \<longrightarrow>
      fst (storeMappingToIPFS penv c rootHash (Some md)) =
        [PinataPinJSON (''privshare-0g-'' @ replace_first ''privshare://0g-'' [] c)]) \<and>
   (getPinataHeaders penv = Inr () \<and>
    pinJSONToIPFS penv (''privshare-0g-'' @ replace_first ''privshare://0g-'' [] c) = Inr resp \<and>
    ok resp \<and> body resp = Inr hash \<longrightarrow>
      snd (storeMappingToIPFS penv c rootHash (Some md)) =
        Inr \<lparr>ipfsHash = hash, st_shareCode = c, st_rootHash = rootHash\<rparr>) \<and>
   (getPinataHeaders penv = Inr () \<longrightarrow>
      fst (getMappingFromIPFS penv c) = [PinataPinList (extractCodeFromShareCode_ipfs c)] \<or>
      (\<exists>h. fst (getMappingFromIPFS penv c) =
         [PinataPinList (extractCodeFromShareCode_ipfs c), GatewayGet h])) \<and>
   fst (useFileUpload_publish penv rnd rootHash md) =
     fst (storeMappingToIPFS penv (generateRandomShareCode rnd) rootHash (Some md)) \<and>
   ((\<forall>i<16. 0 \<le> rnd i \<and> rnd i < 1) \<longrightarrow>
      validateShareCode_ipfs (generateRandomShareCode rnd) \<and>
      validateShareCode (generateRandomShareCode rnd))"
proof -
  have a: "\<not> validateShareCode c \<longrightarrow>
      storeMappingTo0G env stringify hasLocalStorage c mrec signer =
        ([], Inl (Error ''Invalid share code format'')) \<and>
      getMappingFrom0G benv c = ([], Inl (Error ''Invalid share code format'')) \<and>
      useFileDownload_mutationFn henv \<lparr>opt_shareCode = c, opt_encryptionKey = k\<rparr> =
        ([], None, Inl (Error ''Invalid share code format'')) \<and>
      useFilePreview_mutationFn henv c = ([], Inl (Error ''Invalid share code format''))"
    using storeMappingTo0G_invalid [of c env stringify hasLocalStorage mrec signer]
      getMappingFrom0G_invalid [of c benv]
      useFileDownload_invalid [of "\<lparr>opt_shareCode = c, opt_encryptionKey = k\<rparr>" henv]
      useFilePreview_invalid [of c henv]
    by simp
  have b: "getPinataHeaders penv = Inl e \<longrightarrow>
      storeMappingToIPFS penv c rootHash (Some md) = ([], Inl e)"
    using storeMappingToIPFS_unconfigured [of penv e c rootHash md] by blast
  have c: "getPinataHeaders penv = Inr () \<longrightarrow>
      fst (storeMappingToIPFS penv c rootHash (Some md)) =
        [PinataPinJSON (''privshare-0g-'' @ replace_first ''privshare://0g-'' [] c)]"
    using storeMappingToIPFS_request [of penv c rootHash md] by blast
  have d: "getPinataHeaders penv = Inr () \<and>
    pinJSONToIPFS penv (''privshare-0g-'' @ replace_first ''privshare://0g-'' [] c) = Inr resp \<and>
    ok resp \<and> body resp = Inr hash \<longrightarrow>
      snd (storeMappingToIPFS penv c rootHash (Some md)) =
        Inr \<lparr>ipfsHash = hash, st_shareCode = c, st_rootHash = rootHash\<rparr>"
    using storeMappingToIPFS_stored [of penv c resp hash rootHash md] by blast
  have e: "getPinataHeaders penv = Inr () \<longrightarrow>
      fst (getMappingFromIPFS penv c) = [PinataPinList (extractCodeFromShareCode_ipfs c)] \<or>
      (\<exists>h. fst (getMappingFromIPFS penv c) =
         [PinataPinList (extractCodeFromShareCode_ipfs c), GatewayGet h])"
    using getMappingFromIPFS_events [of penv c] by blast
  have f: "(\<forall>i<16. 0 \<le> rnd i \<and> rnd i < 1) \<longrightarrow>
      validateShareCode_ipfs (generateRandomShareCode rnd) \<and>
      validateShareCode (generateRandomShareCode rnd)"
    using generateRandomShareCode_grammar [of rnd]
    by (simp add: validateShareCode_grammar validateShareCode_ipfs_grammar)
  show ?thesis
    using a storeMappingToIPFS_no_metadata [of penv c rootHash] b c d e
      useFileUpload_publish_call [of penv rnd rootHash md] f
    by (intro conjI)
qed

lemma half_random_code:
  "generateRandomShareCode (\<lambda>k. 1 / 2) = ''privshare://0g-ssss-ssss-ssss-ssss''"
  by (simp add: generateRandomShareCode_def Let_def charAt_def random_index_def
      js_match_groups_def is_line_terminator_def upt_rec [of _ "numeral _"])

theorem validation_left_to_callers_witness:
  "\<not> validateShareCode ''not-a-share-code'' \<and>
   getMappingFrom0G browser_empty ''not-a-share-code'' = ([], Inl (Error ''Invalid share code format'')) \<and>
   storeMappingTo0G env_upload_refused (\<lambda>code r. ''{}'') True ''not-a-share-code'' record_encrypted (Some signer_ok)
     = ([], Inl (Error ''Invalid share code format'')) \<and>
   useFileDownload_mutationFn (hook_with record_encrypted env_partial)
       \<lparr>opt_shareCode = ''not-a-share-code'', opt_encryptionKey = None\<rparr>
     = ([], None, Inl (Error ''Invalid share code format'')) \<and>
   getPinataHeaders pinata_ok = Inr () \<and>
   fst (storeMappingToIPFS pinata_ok ''not-a-share-code'' ''0xroot'' (Some record_encrypted)) =
     [PinataPinJSON ''privshare-0g-not-a-share-code''] \<and>
   getPinataHeaders pinata_unconfigured = Inl (Error ''Pinata configuration missing'') \<and>
   (0::real) \<le> 1 / 2 \<and> (1 / 2 :: real) < 1 \<and>
   validateShareCode_ipfs (generateRandomShareCode (\<lambda>k. 1 / 2)) \<and>
   fst (useFileUpload_publish pinata_ok (\<lambda>k. 1 / 2) ''0xroot'' record_encrypted) =
     [PinataPinJSON ''privshare-0g-ssss-ssss-ssss-ssss'']"
proof -
  note t = validation_left_to_callers [where c = "''not-a-share-code''" and benv = browser_empty
      and env = env_upload_refused and stringify = "\<lambda>code r. ''{}''" and hasLocalStorage = True
      and mrec = record_encrypted and signer = "Some signer_ok"
      and henv = "hook_with record_encrypted env_partial" and k = None
      and penv = pinata_ok and rootHash = "''0xroot''" and md = record_encrypted
      and rnd = "\<lambda>k. 1 / 2"]
  note u = validation_left_to_callers [where c = "generateRandomShareCode (\<lambda>k. 1 / 2)"
      and penv = pinata_ok and rootHash = "''0xroot''" and md = record_encrypted
      and rnd = "\<lambda>k. 1 / 2"]
  have a: "fst (storeMappingToIPFS pinata_ok ''not-a-share-code'' ''0xroot'' (Some record_encrypted)) =
     [PinataPinJSON ''privshare-0g-not-a-share-code'']"
    using t pinata_ok_headers by simp
  have b1: "fst (useFileUpload_publish pinata_ok (\<lambda>k. 1 / 2) ''0xroot'' record_encrypted) =
     fst (storeMappingToIPFS pinata_ok (generateRandomShareCode (\<lambda>k. 1 / 2)) ''0xroot''
            (Some record_encrypted))"
    using u by blast
  have b2: "fst (storeMappingToIPFS pinata_ok (generateRandomShareCode (\<lambda>k. 1 / 2)) ''0xroot''
            (Some record_encrypted)) =
     [PinataPinJSON (''privshare-0g-'' @
        replace_first ''privshare://0g-'' [] (generateRandomShareCode (\<lambda>k. 1 / 2)))]"
    using u pinata_ok_headers by blast
  have b: "fst (useFileUpload_publish pinata_ok (\<lambda>k. 1 / 2) ''0xroot'' record_encrypted) =
     [PinataPinJSON ''privshare-0g-ssss-ssss-ssss-ssss'']"
    unfolding b1 b2 by (simp add: half_random_code)
  have c: "validateShareCode_ipfs (generateRandomShareCode (\<lambda>k. 1 / 2))"
    using t by simp
  show ?thesis
    using t invalid_example(1) pinata_ok_headers a b c example_pinata(1)
    by simp
qed

subsection \<open>The download hook, step by step\<close>

lemma truthy_iff: "truthy v \<longleftrightarrow> (\<exists>s. v = Some s \<and> s \<noteq> [])"
  by (cases v) (simp_all add: truthy_def)

lemma resolved_valid:
  "getMappingFrom0G env c = (evs, Inr mapping) \<Longrightarrow> validateShareCode c"
  by (auto simp: getMappingFrom0G_def split: if_splits)

lemma getMappingFrom0G_events:
  "ev \<in> set (fst (getMappingFrom0G env c)) \<Longrightarrow> ev = LocalGet (mapping_key c)"
  by (auto simp: getMappingFrom0G_def loadMappingLocally_def split: if_splits sum.splits option.splits)

lemma decrypt_download_cases:
  assumes "decrypt_download env md key d = (evs, r)"
  shows "(evs = [] \<and> (\<exists>m. r = Inl (Error (''Decryption failed: '' @ m)))) \<or>
         (\<exists>k i. evs = [DecryptBlob d k i] \<and> i \<noteq> [] \<and> k \<noteq> [] \<and> fm_iv md = Some i \<and>
            (key = Some k \<or> (\<not> truthy key \<and> fm_encryptionKey md = Some k)) \<and>
            r = (case decryptFileFromBlob env d k i of
                   Inl e \<Rightarrow> Inl (Error (''Decryption failed: '' @ error_message e))
                 | Inr plain \<Rightarrow> Inr plain))"
  using assms unfolding decrypt_download_def
  by (auto simp: truthy_def split: option.splits if_splits)

lemma decrypt_download_result:
  assumes "decrypt_download env md key d = (evs, r)"
  shows "(\<exists>m. r = Inl (Error (''Decryption failed: '' @ m))) \<or> (\<exists>plain. r = Inr plain)"
proof -
  from decrypt_download_cases [OF assms]
  consider "\<exists>m. r = Inl (Error (''Decryption failed: '' @ m))"
    | k i where "r = (case decryptFileFromBlob env d k i of
                   Inl e \<Rightarrow> Inl (Error (''Decryption failed: '' @ error_message e))
                 | Inr plain \<Rightarrow> Inr plain)"
    by blast
  then show ?thesis
  proof cases
    case 1
    then show ?thesis by blast
  next
    case 2
    then show ?thesis by (cases "decryptFileFromBlob env d k i") auto
  qed
qed

lemma after_download_cases:
  assumes "after_download env md key res = (evs, r)"
  shows "(evs = [] \<and> \<not> dr_success res \<and>
           r = Inl (Error (''Download failed: '' @ str_or (dr_error res) ''Unknown error''))) \<or>
         (evs = [] \<and> dr_success res \<and> dr_data res = None \<and>
           r = Inl (Error ''No data received from 0G Storage'')) \<or>
         (evs = [] \<and> dr_success res \<and> \<not> (fm_isEncrypted md \<and> truthy key) \<and>
           (\<exists>d. dr_data res = Some d \<and>
              r = Inr \<lparr>out_fileName = fm_fileName md, out_fileSize = fm_fileSize md,
                       out_mimeType = fm_mimeType md, out_data = d\<rparr>)) \<or>
         (dr_success res \<and> fm_isEncrypted md \<and> truthy key \<and>
           (\<exists>d r'. dr_data res = Some d \<and> decrypt_download env md key d = (evs, r') \<and>
              r = (case r' of Inl e \<Rightarrow> Inl e
                   | Inr plain \<Rightarrow> Inr \<lparr>out_fileName = fm_fileName md, out_fileSize = fm_fileSize md,
                                       out_mimeType = fm_mimeType md, out_data = plain\<rparr>)))"
  using assms unfolding after_download_def
  by (auto split: option.splits if_splits prod.splits sum.splits)


lemma downloadFile_resolves: "\<exists>res. downloadFile zg rootHash withProof = Inr res"
  by (cases "downloadFile_body zg rootHash withProof") (simp_all add: downloadFile_def)

lemma mutation_cases:
  assumes "useFileDownload_mutationFn env opts = (evs, info, r)"
  shows "(\<forall>ev \<in> set evs. ev = LocalGet (mapping_key (opt_shareCode opts))) \<or>
         (\<exists>pre mapping zg md res evs'.
            getMappingFrom0G env (opt_shareCode opts) = (pre, Inr mapping) \<and>
            md = metadata_of (opt_shareCode opts) mapping (opt_encryptionKey opts) (now env) \<and>
            info = Some md \<and> zgStorage env = Some zg \<and>
            downloadFile zg (fm_pieceCid md) True = Inr res \<and>
            after_download env md (opt_encryptionKey opts) res = (evs', r) \<and>
            evs = pre @ [ZgDownloadFile (fm_pieceCid md) True] @ evs')"
proof (cases "validateShareCode (opt_shareCode opts)")
  case False
  then show ?thesis using assms by (simp add: useFileDownload_mutationFn_def)
next
  case True
  obtain pre m where g: "getMappingFrom0G env (opt_shareCode opts) = (pre, m)"
    by (cases "getMappingFrom0G env (opt_shareCode opts)")
  have pre: "\<forall>ev \<in> set pre. ev = LocalGet (mapping_key (opt_shareCode opts))"
    using getMappingFrom0G_events [of _ env "opt_shareCode opts"] g by simp
  show ?thesis
  proof (cases m)
    case (Inl e)
    then show ?thesis using assms True g pre by (simp add: useFileDownload_mutationFn_def)
  next
    case (Inr mapping)
    define md where "md = metadata_of (opt_shareCode opts) mapping (opt_encryptionKey opts) (now env)"
    show ?thesis
    proof (cases "(fm_isEncrypted md \<and> \<not> truthy (opt_encryptionKey opts)) \<or> zgStorage env = None \<or> \<not> isConnected env")
      case True
      then have "evs = pre" using assms \<open>validateShareCode (opt_shareCode opts)\<close> g Inr
        by (auto simp: useFileDownload_mutationFn_def Let_def md_def split: option.splits if_splits)
      then show ?thesis using pre by simp
    next
      case False
      then obtain zg where zg: "zgStorage env = Some zg" by auto
      obtain res where res: "downloadFile zg (fm_pieceCid md) True = Inr res"
        using downloadFile_resolves by blast
      obtain evs' r' where a: "after_download env md (opt_encryptionKey opts) res = (evs', r')"
        by (cases "after_download env md (opt_encryptionKey opts) res")
      have "useFileDownload_mutationFn env opts = (pre @ [ZgDownloadFile (fm_pieceCid md) True] @ evs', Some md, r')"
        using False \<open>validateShareCode (opt_shareCode opts)\<close> g Inr zg res a
        by (simp add: useFileDownload_mutationFn_def Let_def md_def [symmetric] enableProofVerification_def)
      then show ?thesis using assms g Inr zg res a md_def by auto
    qed
  qed
qed


lemma after_download_failed:
  "\<not> dr_success res \<Longrightarrow>
   after_download env md key res =
     ([], Inl (Error (''Download failed: '' @ str_or (dr_error res) ''Unknown error'')))"
  by (simp add: after_download_def)

lemma after_download_plain:
  "dr_success res \<Longrightarrow> dr_data res = Some d \<Longrightarrow> \<not> fm_isEncrypted md \<Longrightarrow>
   after_download env md key res =
     ([], Inr \<lparr>out_fileName = fm_fileName md, out_fileSize = fm_fileSize md,
               out_mimeType = fm_mimeType md, out_data = d\<rparr>)"
  by (simp add: after_download_def)

lemma after_download_decrypts:
  "dr_success res \<Longrightarrow> dr_data res = Some d \<Longrightarrow> fm_isEncrypted md \<Longrightarrow> fm_iv md = Some i \<Longrightarrow>
   i \<noteq> [] \<Longrightarrow> k \<noteq> [] \<Longrightarrow>
   after_download env md (Some k) res =
     ([DecryptBlob d k i],
      (case decryptFileFromBlob env d k i of
         Inl e \<Rightarrow> Inl (Error (''Decryption failed: '' @ error_message e))
       | Inr plain \<Rightarrow>
           Inr \<lparr>out_fileName = fm_fileName md, out_fileSize = fm_fileSize md,
                 out_mimeType = fm_mimeType md, out_data = plain\<rparr>))"
  by (cases "decryptFileFromBlob env d k i")
     (simp_all add: after_download_def decrypt_download_def truthy_def)

lemma download_hook_fetches:
  assumes "getMappingFrom0G env (opt_shareCode opts) = (pre, Inr mapping)"
    and "\<not> (truthy (mr_iv mapping) \<and> \<not> truthy (opt_encryptionKey opts))"
    and "zgStorage env = Some zg" and "isConnected env"
    and "downloadFile zg (mr_rootHash mapping) True = Inr res"
  shows "useFileDownload_mutationFn env opts =
     (pre @ [ZgDownloadFile (mr_rootHash mapping) True] @
        fst (after_download env
               (metadata_of (opt_shareCode opts) mapping (opt_encryptionKey opts) (now env))
               (opt_encryptionKey opts) res),
      Some (metadata_of (opt_shareCode opts) mapping (opt_encryptionKey opts) (now env)),
      snd (after_download env
             (metadata_of (opt_shareCode opts) mapping (opt_encryptionKey opts) (now env))
             (opt_encryptionKey opts) res))"
proof -
  define md where "md = metadata_of (opt_shareCode opts) mapping (opt_encryptionKey opts) (now env)"
  have f: "fm_isEncrypted md = truthy (mr_iv mapping)" "fm_pieceCid md = mr_rootHash mapping"
    by (simp_all add: md_def metadata_of_def)
  obtain evs' r where a: "after_download env md (opt_encryptionKey opts) res = (evs', r)"
    by (cases "after_download env md (opt_encryptionKey opts) res")
  show ?thesis
    using assms resolved_valid [OF assms(1)] f a
    by (simp add: useFileDownload_mutationFn_def Let_def md_def [symmetric] enableProofVerification_def)
qed

lemma download_hook_unavailable:
  assumes "getMappingFrom0G env (opt_shareCode opts) = (pre, Inr mapping)"
    and "\<not> (truthy (mr_iv mapping) \<and> \<not> truthy (opt_encryptionKey opts))"
    and "zgStorage env = None \<or> \<not> isConnected env"
  shows "snd (snd (useFileDownload_mutationFn env opts)) =
           Inl (Error ''0G Storage not available. Please check your connection and try again.'') \<or>
         snd (snd (useFileDownload_mutationFn env opts)) =
           Inl (Error (''0G Storage connection failed: '' @ str_or (zgError env) ''Unknown error''))"
proof -
  define md where "md = metadata_of (opt_shareCode opts) mapping (opt_encryptionKey opts) (now env)"
  have f: "fm_isEncrypted md = truthy (mr_iv mapping)"
    by (simp add: md_def metadata_of_def)
  show ?thesis
    using assms resolved_valid [OF assms(1)] f
    by (cases "zgStorage env")
       (auto simp: useFileDownload_mutationFn_def Let_def md_def [symmetric])
qed

lemma cached_lookup:
  "getMappingFrom0G (hook_with cached net) ''privshare://0g-ab12-cd34-ef56-gh78'' =
     ([LocalGet ''privshare:mapping:privshare://0g-ab12-cd34-ef56-gh78''], Inr cached)"
proof -
  have "loadMappingLocally (hook_with cached net) ''privshare://0g-ab12-cd34-ef56-gh78'' =
      ([LocalGet ''privshare:mapping:privshare://0g-ab12-cd34-ef56-gh78''], Some cached)"
    by (simp add: loadMappingLocally_def hook_with_def mapping_key_def)
  then show ?thesis using valid_example by (simp add: getMappingFrom0G_valid)
qed

lemma env_partial_download:
  "downloadFile env_partial ''0xroot'' True =
     Inr \<lparr>dr_success = True, dr_data = Some [1, 2, 3], dr_error = None\<rparr>"
proof -
  have "env_partial\<lparr>indexer_set := True\<rparr> = env_partial"
    by (simp add: env_partial_def)
  moreover have "downloadFileData env_partial ''0xroot'' True = Inr [1, 2, 3]"
    by (simp add: downloadFileData_def env_partial_primary)
  moreover have "initializeSDK env_partial = Inr ()"
    by (simp add: initializeSDK_def env_partial_def)
  moreover have "getFileLocations env_partial 0 ''0xroot'' = Inr (Some [''https://node-a''])"
    by (simp add: env_partial_def)
  moreover have "fst (find_file_info (getFileInfo env_partial 0 ''0xroot'') [''https://node-a''])
      = Some two_segment_file"
    by (simp add: env_partial_def two_segment_file_def)
  ultimately show ?thesis by (simp add: downloadFile_def downloadFile_body_def)
qed

subsection \<open>When a file is treated as encrypted\<close>

lemma preview_resolved:
  assumes "getMappingFrom0G env c = (evs, Inr mapping)"
  shows "useFilePreview_mutationFn env c = (evs, Inr (metadata_of c mapping None (now env)))"
  using assms resolved_valid [OF assms] by (simp add: useFilePreview_mutationFn_def)

lemma download_key_demanded:
  assumes "getMappingFrom0G env (opt_shareCode opts) = (evs, Inr mapping)"
    and "truthy (mr_iv mapping)" and "\<not> truthy (opt_encryptionKey opts)"
  shows "useFileDownload_mutationFn env opts =
     (evs, Some (metadata_of (opt_shareCode opts) mapping (opt_encryptionKey opts) (now env)),
      Inl (Error ''This file is encrypted. Please provide the decryption key.''))"
  using assms resolved_valid [OF assms(1)]
  by (simp add: useFileDownload_mutationFn_def metadata_of_def Let_def)

lemma download_info_set:
  assumes "getMappingFrom0G env (opt_shareCode opts) = (evs, Inr mapping)"
  shows "fst (snd (useFileDownload_mutationFn env opts)) =
     Some (metadata_of (opt_shareCode opts) mapping (opt_encryptionKey opts) (now env))"
  using assms resolved_valid [OF assms(1)]
  by (auto simp: useFileDownload_mutationFn_def Let_def split: option.splits sum.splits prod.splits)

lemma isEncrypted_metadata:
  "fm_isEncrypted (metadata_of c mapping k t) = (\<exists>s. mr_iv mapping = Some s \<and> s \<noteq> [])"
  by (simp add: metadata_of_def truthy_iff)

lemma isEncrypted_more:
  "fm_isEncrypted (metadata_of c (mapping\<lparr>MappingRecord.more := x\<rparr>) k t) =
   fm_isEncrypted (metadata_of c mapping k t)"
  by (simp add: metadata_of_def)

lemma key_from_caller: "fm_encryptionKey (metadata_of c mapping k t) = k"
  by (simp add: metadata_of_def)


lemma key_demanded_only_then:
  assumes g: "getMappingFrom0G env (opt_shareCode opts) = (evs, Inr mapping)"
    and n: "\<not> (truthy (mr_iv mapping) \<and> \<not> truthy (opt_encryptionKey opts))"
  shows "snd (snd (useFileDownload_mutationFn env opts)) \<noteq>
           Inl (Error ''This file is encrypted. Please provide the decryption key.'')"
proof (cases "zgStorage env = None \<or> \<not> isConnected env")
  case True
  then show ?thesis using download_hook_unavailable [OF g n] by auto
next
  case False
  then obtain zg where zg: "zgStorage env = Some zg" and c: "isConnected env" by auto
  obtain res where res: "downloadFile zg (mr_rootHash mapping) True = Inr res"
    using downloadFile_resolves by blast
  define md where "md = metadata_of (opt_shareCode opts) mapping (opt_encryptionKey opts) (now env)"
  obtain evs' r where a: "after_download env md (opt_encryptionKey opts) res = (evs', r)"
    by (cases "after_download env md (opt_encryptionKey opts) res")
  have s: "snd (snd (useFileDownload_mutationFn env opts)) = r"
    using download_hook_fetches [OF g n zg c res] a by (simp add: md_def)
  have "r \<noteq> Inl (Error ''This file is encrypted. Please provide the decryption key.'')"
  proof -
    consider (failed) "r = Inl (Error (''Download failed: '' @ str_or (dr_error res) ''Unknown error''))"
      | (nodata) "r = Inl (Error ''No data received from 0G Storage'')"
      | (plain) d where "r = Inr \<lparr>out_fileName = fm_fileName md, out_fileSize = fm_fileSize md,
                       out_mimeType = fm_mimeType md, out_data = d\<rparr>"
      | (decrypt) d r' where "decrypt_download env md (opt_encryptionKey opts) d = (evs', r')"
          "r = (case r' of Inl e \<Rightarrow> Inl e
                | Inr plain \<Rightarrow> Inr \<lparr>out_fileName = fm_fileName md, out_fileSize = fm_fileSize md,
                                    out_mimeType = fm_mimeType md, out_data = plain\<rparr>)"
      using after_download_cases [OF a] by blast
    then show ?thesis
    proof cases
      case failed
      then show ?thesis by simp
    next
      case nodata
      then show ?thesis by simp
    next
      case plain
      then show ?thesis by simp
    next
      case decrypt
      from decrypt_download_result [OF decrypt(1)]
      show ?thesis using decrypt(2) by auto
    qed
  qed
  then show ?thesis using s by simp
qed

lemma key_demand_iff:
  assumes g: "getMappingFrom0G env (opt_shareCode opts) = (evs, Inr mapping)"
  shows "snd (snd (useFileDownload_mutationFn env opts)) =
           Inl (Error ''This file is encrypted. Please provide the decryption key.'') \<longleftrightarrow>
         truthy (mr_iv mapping) \<and> \<not> truthy (opt_encryptionKey opts)"
  using key_demanded_only_then [OF g] download_key_demanded [OF g] by auto

lemma fetch_without_key:
  assumes g: "getMappingFrom0G env (opt_shareCode opts) = (evs, Inr mapping)"
    and n: "\<not> truthy (mr_iv mapping)" and zg: "zgStorage env = Some zg" and c: "isConnected env"
  shows "\<exists>evs'. fst (useFileDownload_mutationFn env opts) =
           evs @ ZgDownloadFile (mr_rootHash mapping) True # evs'"
proof -
  obtain res where res: "downloadFile zg (mr_rootHash mapping) True = Inr res"
    using downloadFile_resolves by blast
  have "\<not> (truthy (mr_iv mapping) \<and> \<not> truthy (opt_encryptionKey opts))" using n by simp
  from download_hook_fetches [OF g this zg c res] show ?thesis by simp
qed

text \<open>
  The statement of claim C10 fails on the code for a record whose IV field is present
  and empty: \<open>!!mapping.iv\<close> is false for the empty string, so the preview flags the
  file as not encrypted, and the download hook asks for no key and fetches the file.
\<close>

theorem empty_iv_counterexample:
  "mr_iv record_empty_iv = Some [] \<and>
   useFilePreview_mutationFn (hook_with record_empty_iv env_partial) ''privshare://0g-ab12-cd34-ef56-gh78'' =
     ([LocalGet ''privshare:mapping:privshare://0g-ab12-cd34-ef56-gh78''],
      Inr \<lparr>fm_shareCode = ''privshare://0g-ab12-cd34-ef56-gh78'', fm_pieceCid = ''0xroot'',
           fm_fileName = ''report.pdf'', fm_fileSize = 262145, fm_mimeType = ''application/pdf'',
           fm_isEncrypted = False, fm_encryptionKey = None, fm_iv = Some [],
           fm_uploader = ''0xA11CE'', fm_uploadTime = 1700000000000\<rparr>) \<and>
   useFileDownload_mutationFn (hook_with record_empty_iv env_partial)
       \<lparr>opt_shareCode = ''privshare://0g-ab12-cd34-ef56-gh78'', opt_encryptionKey = None\<rparr> =
     ([LocalGet ''privshare:mapping:privshare://0g-ab12-cd34-ef56-gh78'', ZgDownloadFile ''0xroot'' True],
      Some \<lparr>fm_shareCode = ''privshare://0g-ab12-cd34-ef56-gh78'', fm_pieceCid = ''0xroot'',
           fm_fileName = ''report.pdf'', fm_fileSize = 262145, fm_mimeType = ''application/pdf'',
           fm_isEncrypted = False, fm_encryptionKey = None, fm_iv = Some [],
           fm_uploader = ''0xA11CE'', fm_uploadTime = 1700000000000\<rparr>,
      Inr \<lparr>out_fileName = ''report.pdf'', out_fileSize = 262145, out_mimeType = ''application/pdf'',
           out_data = [1, 2, 3]\<rparr>)"
proof -
  have m: "metadata_of ''privshare://0g-ab12-cd34-ef56-gh78'' record_empty_iv None 1700000000000 =
      \<lparr>fm_shareCode = ''privshare://0g-ab12-cd34-ef56-gh78'', fm_pieceCid = ''0xroot'',
           fm_fileName = ''report.pdf'', fm_fileSize = 262145, fm_mimeType = ''application/pdf'',
           fm_isEncrypted = False, fm_encryptionKey = None, fm_iv = Some [],
           fm_uploader = ''0xA11CE'', fm_uploadTime = 1700000000000\<rparr>"
    by (simp add: metadata_of_def record_empty_iv_def record_encrypted_def str_or_def num_or_def truthy_def)
  have n: "now (hook_with record_empty_iv env_partial) = 1700000000000"
    "zgStorage (hook_with record_empty_iv env_partial) = Some env_partial"
    "isConnected (hook_with record_empty_iv env_partial)"
    by (simp_all add: hook_with_def)
  have p: "useFilePreview_mutationFn (hook_with record_empty_iv env_partial) ''privshare://0g-ab12-cd34-ef56-gh78'' =
     ([LocalGet ''privshare:mapping:privshare://0g-ab12-cd34-ef56-gh78''],
      Inr (metadata_of ''privshare://0g-ab12-cd34-ef56-gh78'' record_empty_iv None 1700000000000))"
    using preview_resolved [OF cached_lookup [of record_empty_iv env_partial]] n(1) by simp
  have d: "useFileDownload_mutationFn (hook_with record_empty_iv env_partial)
       \<lparr>opt_shareCode = ''privshare://0g-ab12-cd34-ef56-gh78'', opt_encryptionKey = None\<rparr> =
     ([LocalGet ''privshare:mapping:privshare://0g-ab12-cd34-ef56-gh78'', ZgDownloadFile ''0xroot'' True],
      Some (metadata_of ''privshare://0g-ab12-cd34-ef56-gh78'' record_empty_iv None 1700000000000),
      Inr \<lparr>out_fileName = ''report.pdf'', out_fileSize = 262145, out_mimeType = ''application/pdf'',
           out_data = [1, 2, 3]\<rparr>)"
    using valid_example
    by (simp add: useFileDownload_mutationFn_def cached_lookup n m Let_def enableProofVerification_def
        env_partial_download after_download_def truthy_def)
  have iv: "mr_iv record_empty_iv = Some []" by (simp add: record_empty_iv_def)
  show ?thesis using p d iv by (simp add: m)
qed

text \<open>
  Claim C10, as the code has it. When a share code is resolved through
  \<open>getMappingFrom0G\<close>, both hooks flag the file as encrypted exactly when the \<open>iv\<close> of the
  mapping record is truthy, that is present and not the empty string. Nothing else of
  the record enters the decision: neither the properties beyond those of
  \<open>MappingRecord\<close> (a stored \<open>encryptionKey\<close>), nor a key of the record, the key of the
  metadata being the one the caller passed. In the download hook the metadata passed to
  \<open>setDownloadInfo\<close> carries this flag, and the hook fails with \<open>This file is encrypted.
  Please provide the decryption key.\<close> exactly when the \<open>iv\<close> is truthy and the caller
  gave no key, having made no network call then. With an \<open>iv\<close> that is not truthy no key
  is demanded: if the storage service is there and connected, the file is fetched.
\<close>

theorem encryption_decided_by_iv:
  "fm_isEncrypted (metadata_of c mapping k t) = (\<exists>s. mr_iv mapping = Some s \<and> s \<noteq> []) \<and>
   fm_isEncrypted (metadata_of c (mapping\<lparr>MappingRecord.more := x\<rparr>) k t) =
     fm_isEncrypted (metadata_of c mapping k t) \<and>
   fm_encryptionKey (metadata_of c mapping k t) = k \<and>
   (getMappingFrom0G env c = (evs, Inr mapping) \<longrightarrow>
      useFilePreview_mutationFn env c = (evs, Inr (metadata_of c mapping None (now env)))) \<and>
   (getMappingFrom0G env (opt_shareCode opts) = (evs, Inr mapping) \<longrightarrow>
      fst (snd (useFileDownload_mutationFn env opts)) =
        Some (metadata_of (opt_shareCode opts) mapping (opt_encryptionKey opts) (now env))) \<and>
   (getMappingFrom0G env (opt_shareCode opts) = (evs, Inr mapping) \<and>
    truthy (mr_iv mapping) \<and> \<not> truthy (opt_encryptionKey opts) \<longrightarrow>
      useFileDownload_mutationFn env opts =
        (evs, Some (metadata_of (opt_shareCode opts) mapping (opt_encryptionKey opts) (now env)),
         Inl (Error ''This file is encrypted. Please provide the decryption key.'')) \<and>
      (\<forall>ev \<in> set evs. \<not> is_network ev)) \<and>
   (getMappingFrom0G env (opt_shareCode opts) = (evs, Inr mapping) \<longrightarrow>
      (snd (snd (useFileDownload_mutationFn env opts)) =
         Inl (Error ''This file is encrypted. Please provide the decryption key.'') \<longleftrightarrow>
       truthy (mr_iv mapping) \<and> \<not> truthy (opt_encryptionKey opts))) \<and>
   (getMappingFrom0G env (opt_shareCode opts) = (evs, Inr mapping) \<and> \<not> truthy (mr_iv mapping) \<and>
    zgStorage env = Some zg \<and> isConnected env \<longrightarrow>
      (\<exists>evs'. fst (useFileDownload_mutationFn env opts) =
         evs @ ZgDownloadFile (mr_rootHash mapping) True # evs'))"
proof -
  have loc: "getMappingFrom0G env (opt_shareCode opts) = (evs, Inr mapping) \<longrightarrow>
      (\<forall>ev \<in> set evs. \<not> is_network ev)"
    using getMappingFrom0G_local [of env "opt_shareCode opts"] by auto
  have a: "getMappingFrom0G env c = (evs, Inr mapping) \<longrightarrow>
      useFilePreview_mutationFn env c = (evs, Inr (metadata_of c mapping None (now env)))"
    using preview_resolved [of env c evs mapping] by blast
  have b: "getMappingFrom0G env (opt_shareCode opts) = (evs, Inr mapping) \<longrightarrow>
      fst (snd (useFileDownload_mutationFn env opts)) =
        Some (metadata_of (opt_shareCode opts) mapping (opt_encryptionKey opts) (now env))"
    using download_info_set [of env opts evs mapping] by blast
  have c: "getMappingFrom0G env (opt_shareCode opts) = (evs, Inr mapping) \<and>
    truthy (mr_iv mapping) \<and> \<not> truthy (opt_encryptionKey opts) \<longrightarrow>
      useFileDownload_mutationFn env opts =
        (evs, Some (metadata_of (opt_shareCode opts) mapping (opt_encryptionKey opts) (now env)),
         Inl (Error ''This file is encrypted. Please provide the decryption key.'')) \<and>
      (\<forall>ev \<in> set evs. \<not> is_network ev)"
    using download_key_demanded [of env opts evs mapping] loc by blast
  have d: "getMappingFrom0G env (opt_shareCode opts) = (evs, Inr mapping) \<longrightarrow>
      (snd (snd (useFileDownload_mutationFn env opts)) =
         Inl (Error ''This file is encrypted. Please provide the decryption key.'') \<longleftrightarrow>
       truthy (mr_iv mapping) \<and> \<not> truthy (opt_encryptionKey opts))"
    using key_demand_iff [of env opts evs mapping] by blast
  have e: "getMappingFrom0G env (opt_shareCode opts) = (evs, Inr mapping) \<and> \<not> truthy (mr_iv mapping) \<and>
    zgStorage env = Some zg \<and> isConnected env \<longrightarrow>
      (\<exists>evs'. fst (useFileDownload_mutationFn env opts) =
         evs @ ZgDownloadFile (mr_rootHash mapping) True # evs')"
    using fetch_without_key [of env opts evs mapping zg] by blast
  show ?thesis
    using isEncrypted_metadata [of c mapping k t]
      isEncrypted_more [where c = c and mapping = mapping and x = x and k = k and t = t]
      key_from_caller [of c mapping k t] a b c d e
    by (intro conjI)
qed

theorem encryption_decided_by_iv_witness:
  "getMappingFrom0G (hook_with record_encrypted env_partial) ''privshare://0g-ab12-cd34-ef56-gh78'' =
     ([LocalGet ''privshare:mapping:privshare://0g-ab12-cd34-ef56-gh78''], Inr record_encrypted) \<and>
   truthy (mr_iv record_encrypted) \<and>
   \<not> truthy (opt_encryptionKey \<lparr>opt_shareCode = ''privshare://0g-ab12-cd34-ef56-gh78'', opt_encryptionKey = None\<rparr>) \<and>
   useFileDownload_mutationFn (hook_with record_encrypted env_partial)
       \<lparr>opt_shareCode = ''privshare://0g-ab12-cd34-ef56-gh78'', opt_encryptionKey = None\<rparr> =
     ([LocalGet ''privshare:mapping:privshare://0g-ab12-cd34-ef56-gh78''],
      Some (metadata_of ''privshare://0g-ab12-cd34-ef56-gh78'' record_encrypted None 1700000000000),
      Inl (Error ''This file is encrypted. Please provide the decryption key.'')) \<and>
   fm_isEncrypted (metadata_of ''privshare://0g-ab12-cd34-ef56-gh78'' record_encrypted None 1700000000000) \<and>
   getMappingFrom0G (hook_with record_empty_iv env_partial) ''privshare://0g-ab12-cd34-ef56-gh78'' =
     ([LocalGet ''privshare:mapping:privshare://0g-ab12-cd34-ef56-gh78''], Inr record_empty_iv) \<and>
   \<not> truthy (mr_iv record_empty_iv) \<and>
   zgStorage (hook_with record_empty_iv env_partial) = Some env_partial \<and>
   isConnected (hook_with record_empty_iv env_partial) \<and>
   snd (snd (useFileDownload_mutationFn (hook_with record_empty_iv env_partial)
       \<lparr>opt_shareCode = ''privshare://0g-ab12-cd34-ef56-gh78'', opt_encryptionKey = None\<rparr>)) \<noteq>
     Inl (Error ''This file is encrypted. Please provide the decryption key.'') \<and>
   (\<exists>evs'. fst (useFileDownload_mutationFn (hook_with record_empty_iv env_partial)
       \<lparr>opt_shareCode = ''privshare://0g-ab12-cd34-ef56-gh78'', opt_encryptionKey = None\<rparr>) =
      [LocalGet ''privshare:mapping:privshare://0g-ab12-cd34-ef56-gh78'', ZgDownloadFile ''0xroot'' True] @ evs')"
proof -
  have t: "truthy (mr_iv record_encrypted)" "\<not> truthy (mr_iv record_empty_iv)"
    "mr_rootHash record_empty_iv = ''0xroot''"
    by (simp_all add: record_encrypted_def record_empty_iv_def truthy_def)
  have n: "now (hook_with record_encrypted env_partial) = 1700000000000"
    "zgStorage (hook_with record_empty_iv env_partial) = Some env_partial"
    "isConnected (hook_with record_empty_iv env_partial)"
    by (simp_all add: hook_with_def)
  have e: "fm_isEncrypted (metadata_of ''privshare://0g-ab12-cd34-ef56-gh78'' record_encrypted None 1700000000000)"
    by (simp add: metadata_of_def record_encrypted_def truthy_def)
  have one: "useFileDownload_mutationFn (hook_with record_encrypted env_partial)
       \<lparr>opt_shareCode = ''privshare://0g-ab12-cd34-ef56-gh78'', opt_encryptionKey = None\<rparr> =
     ([LocalGet ''privshare:mapping:privshare://0g-ab12-cd34-ef56-gh78''],
      Some (metadata_of ''privshare://0g-ab12-cd34-ef56-gh78'' record_encrypted None 1700000000000),
      Inl (Error ''This file is encrypted. Please provide the decryption key.''))"
    using encryption_decided_by_iv [where env = "hook_with record_encrypted env_partial"
        and opts = "\<lparr>opt_shareCode = ''privshare://0g-ab12-cd34-ef56-gh78'', opt_encryptionKey = None\<rparr>"
        and evs = "[LocalGet ''privshare:mapping:privshare://0g-ab12-cd34-ef56-gh78'']"
        and mapping = record_encrypted and c = "''privshare://0g-ab12-cd34-ef56-gh78''"
        and k = None and t = 1700000000000]
      cached_lookup [of record_encrypted env_partial] t(1) n(1)
    by (simp add: truthy_def)
  note two = encryption_decided_by_iv [where env = "hook_with record_empty_iv env_partial"
        and opts = "\<lparr>opt_shareCode = ''privshare://0g-ab12-cd34-ef56-gh78'', opt_encryptionKey = None\<rparr>"
        and evs = "[LocalGet ''privshare:mapping:privshare://0g-ab12-cd34-ef56-gh78'']"
        and mapping = record_empty_iv and c = "''privshare://0g-ab12-cd34-ef56-gh78''"
        and k = None and t = 1700000000000 and zg = env_partial]
  have three: "snd (snd (useFileDownload_mutationFn (hook_with record_empty_iv env_partial)
       \<lparr>opt_shareCode = ''privshare://0g-ab12-cd34-ef56-gh78'', opt_encryptionKey = None\<rparr>)) \<noteq>
     Inl (Error ''This file is encrypted. Please provide the decryption key.'')"
    using two cached_lookup [of record_empty_iv env_partial] t(2) by simp
  have four: "\<exists>evs'. fst (useFileDownload_mutationFn (hook_with record_empty_iv env_partial)
       \<lparr>opt_shareCode = ''privshare://0g-ab12-cd34-ef56-gh78'', opt_encryptionKey = None\<rparr>) =
      [LocalGet ''privshare:mapping:privshare://0g-ab12-cd34-ef56-gh78'', ZgDownloadFile ''0xroot'' True] @ evs'"
    using two cached_lookup [of record_empty_iv env_partial] t(2,3) n(2,3) by simp
  show ?thesis
    using cached_lookup [of record_encrypted env_partial] t(1) one e
      cached_lookup [of record_empty_iv env_partial] t(2) n(2,3) three four
    by (simp add: truthy_def)
qed

subsection \<open>Decryption and the downloaded bytes\<close>

lemma decrypt_after_download_aux:
  assumes m: "useFileDownload_mutationFn env opts = (evs, info, r)"
    and d: "DecryptBlob d k i \<in> set evs"
  shows "\<exists>pre md zg res.
           evs = pre @ [ZgDownloadFile (fm_pieceCid md) True, DecryptBlob d k i] \<and>
           (\<forall>ev \<in> set pre. \<not> is_network ev) \<and>
           info = Some md \<and> fm_isEncrypted md \<and> fm_iv md = Some i \<and>
           opt_encryptionKey opts = Some k \<and>
           zgStorage env = Some zg \<and>
           downloadFile zg (fm_pieceCid md) True = Inr res \<and>
           dr_success res \<and> dr_data res = Some d \<and>
           r = (case decryptFileFromBlob env d k i of
                  Inl e \<Rightarrow> Inl (Error (''Decryption failed: '' @ error_message e))
                | Inr plain \<Rightarrow>
                    Inr \<lparr>out_fileName = fm_fileName md, out_fileSize = fm_fileSize md,
                          out_mimeType = fm_mimeType md, out_data = plain\<rparr>)"
proof -
  from mutation_cases [OF m] d
  obtain pre mapping zg md res evs' where
    g: "getMappingFrom0G env (opt_shareCode opts) = (pre, Inr mapping)" and
    md: "md = metadata_of (opt_shareCode opts) mapping (opt_encryptionKey opts) (now env)" and
    info: "info = Some md" and zg: "zgStorage env = Some zg" and
    res: "downloadFile zg (fm_pieceCid md) True = Inr res" and
    a: "after_download env md (opt_encryptionKey opts) res = (evs', r)" and
    evs: "evs = pre @ [ZgDownloadFile (fm_pieceCid md) True] @ evs'"
    by auto
  have pre: "\<forall>ev \<in> set pre. ev = LocalGet (mapping_key (opt_shareCode opts))"
    using getMappingFrom0G_events [of _ env "opt_shareCode opts"] g by simp
  then have pre': "\<forall>ev \<in> set pre. \<not> is_network ev" by auto
  have "DecryptBlob d k i \<in> set evs'" using d evs pre by auto
  with after_download_cases [OF a]
  obtain d' r' where s: "dr_success res" "fm_isEncrypted md" "truthy (opt_encryptionKey opts)"
    "dr_data res = Some d'" and dd: "decrypt_download env md (opt_encryptionKey opts) d' = (evs', r')"
    and r: "r = (case r' of Inl e \<Rightarrow> Inl e
                   | Inr plain \<Rightarrow> Inr \<lparr>out_fileName = fm_fileName md, out_fileSize = fm_fileSize md,
                                       out_mimeType = fm_mimeType md, out_data = plain\<rparr>)"
    by auto
  from decrypt_download_cases [OF dd] \<open>DecryptBlob d k i \<in> set evs'\<close> s(3)
  have e: "evs' = [DecryptBlob d k i]" "d' = d" "fm_iv md = Some i" "opt_encryptionKey opts = Some k"
    and r': "r' = (case decryptFileFromBlob env d k i of
                   Inl e \<Rightarrow> Inl (Error (''Decryption failed: '' @ error_message e))
                 | Inr plain \<Rightarrow> Inr plain)"
    by auto
  have "r = (case decryptFileFromBlob env d k i of
                  Inl e \<Rightarrow> Inl (Error (''Decryption failed: '' @ error_message e))
                | Inr plain \<Rightarrow>
                    Inr \<lparr>out_fileName = fm_fileName md, out_fileSize = fm_fileSize md,
                          out_mimeType = fm_mimeType md, out_data = plain\<rparr>)"
    unfolding r r' by (cases "decryptFileFromBlob env d k i") simp_all
  then show ?thesis using evs e pre' info s zg res by auto
qed

lemma download_failure_surfaced:
  assumes m: "useFileDownload_mutationFn env opts = (evs, info, r)"
    and z: "ZgDownloadFile rootHash withProof \<in> set evs"
  shows "\<exists>zg res. zgStorage env = Some zg \<and> downloadFile zg rootHash withProof = Inr res \<and>
           (\<not> dr_success res \<longrightarrow>
              r = Inl (Error (''Download failed: '' @ str_or (dr_error res) ''Unknown error'')) \<and>
              (\<forall>d k i. DecryptBlob d k i \<notin> set evs))"
proof -
  from mutation_cases [OF m] z
  obtain pre mapping zg md res evs' where
    g: "getMappingFrom0G env (opt_shareCode opts) = (pre, Inr mapping)" and
    zg: "zgStorage env = Some zg" and
    res: "downloadFile zg (fm_pieceCid md) True = Inr res" and
    a: "after_download env md (opt_encryptionKey opts) res = (evs', r)" and
    evs: "evs = pre @ [ZgDownloadFile (fm_pieceCid md) True] @ evs'"
    by auto
  have pre: "\<forall>ev \<in> set pre. ev = LocalGet (mapping_key (opt_shareCode opts))"
    using getMappingFrom0G_events [of _ env "opt_shareCode opts"] g by simp
  have nz: "ZgDownloadFile rootHash withProof \<notin> set evs'"
    using after_download_cases [OF a] decrypt_download_cases by fastforce
  have eq: "rootHash = fm_pieceCid md" "withProof = True"
    using z evs pre nz by auto
  have "\<not> dr_success res \<longrightarrow>
        r = Inl (Error (''Download failed: '' @ str_or (dr_error res) ''Unknown error'')) \<and> evs' = []"
    using after_download_cases [OF a] by auto
  then show ?thesis using zg res eq evs pre by auto
qed


lemma env_other_download:
  "downloadFile env_other_bytes ''0xroot'' True =
     Inr \<lparr>dr_success = True, dr_data = Some [4, 5, 6, 4, 5, 6], dr_error = None\<rparr>"
proof -
  have "downloadFileData_primary (env_other_bytes\<lparr>indexer_set := True\<rparr>) ''0xroot'' True
      = Inr [4, 5, 6, 4, 5, 6]"
    by (simp add: downloadFileData_primary_def env_other_bytes_def env_partial_def initializeSDK_def
        two_segment_file_def getShardConfigs_def primary_tasks_def primary_run_def params_two
        task_indices_2 assemble_def)
  then have "downloadFileData (env_other_bytes\<lparr>indexer_set := True\<rparr>) ''0xroot'' True
      = Inr [4, 5, 6, 4, 5, 6]"
    by (simp add: downloadFileData_def)
  moreover have "initializeSDK env_other_bytes = Inr ()"
    by (simp add: initializeSDK_def env_other_bytes_def env_partial_def)
  moreover have "getFileLocations env_other_bytes 0 ''0xroot'' = Inr (Some [''https://node-a''])"
    by (simp add: env_other_bytes_def env_partial_def)
  moreover have "fst (find_file_info (getFileInfo env_other_bytes 0 ''0xroot'') [''https://node-a''])
      = Some two_segment_file"
    by (simp add: env_other_bytes_def env_partial_def two_segment_file_def)
  ultimately show ?thesis by (simp add: downloadFile_def downloadFile_body_def)
qed

lemma metadata_encrypted:
  "metadata_of ''privshare://0g-ab12-cd34-ef56-gh78'' record_encrypted (Some ''secret'') 1700000000000 =
      \<lparr>fm_shareCode = ''privshare://0g-ab12-cd34-ef56-gh78'', fm_pieceCid = ''0xroot'',
           fm_fileName = ''report.pdf'', fm_fileSize = 262145, fm_mimeType = ''application/pdf'',
           fm_isEncrypted = True, fm_encryptionKey = Some ''secret'', fm_iv = Some ''a1b2c3'',
           fm_uploader = ''0xA11CE'', fm_uploadTime = 1700000000000\<rparr>"
  by (simp add: metadata_of_def record_encrypted_def str_or_def num_or_def truthy_def)

lemma encrypted_download:
  assumes "downloadFile net ''0xroot'' True = Inr \<lparr>dr_success = True, dr_data = Some d, dr_error = None\<rparr>"
  shows "useFileDownload_mutationFn (hook_with record_encrypted net)
       \<lparr>opt_shareCode = ''privshare://0g-ab12-cd34-ef56-gh78'', opt_encryptionKey = Some ''secret''\<rparr> =
     ([LocalGet ''privshare:mapping:privshare://0g-ab12-cd34-ef56-gh78'', ZgDownloadFile ''0xroot'' True,
       DecryptBlob d ''secret'' ''a1b2c3''],
      Some (metadata_of ''privshare://0g-ab12-cd34-ef56-gh78'' record_encrypted (Some ''secret'') 1700000000000),
      Inr \<lparr>out_fileName = ''report.pdf'', out_fileSize = 262145, out_mimeType = ''application/pdf'',
           out_data = rev d\<rparr>)"
proof -
  have n: "now (hook_with record_encrypted net) = 1700000000000"
    "zgStorage (hook_with record_encrypted net) = Some net"
    "isConnected (hook_with record_encrypted net)"
    "decryptFileFromBlob (hook_with record_encrypted net) = (\<lambda>blob k i. Inr (rev blob))"
    by (simp_all add: hook_with_def)
  show ?thesis
    using valid_example assms
    by (simp add: useFileDownload_mutationFn_def cached_lookup n metadata_encrypted Let_def
        enableProofVerification_def after_download_def decrypt_download_def truthy_def)
qed

lemma decrypts_what_it_got:
  assumes g: "getMappingFrom0G env (opt_shareCode opts) = (pre, Inr mapping)"
    and iv: "mr_iv mapping = Some i" "i \<noteq> []" and k: "opt_encryptionKey opts = Some k" "k \<noteq> []"
    and zg: "zgStorage env = Some zg" and c: "isConnected env"
    and res: "downloadFile zg (mr_rootHash mapping) True = Inr res"
    and ok: "dr_success res" "dr_data res = Some d"
  shows "useFileDownload_mutationFn env opts =
     (pre @ [ZgDownloadFile (mr_rootHash mapping) True, DecryptBlob d k i],
      Some (metadata_of (opt_shareCode opts) mapping (opt_encryptionKey opts) (now env)),
      (case decryptFileFromBlob env d k i of
         Inl e \<Rightarrow> Inl (Error (''Decryption failed: '' @ error_message e))
       | Inr plain \<Rightarrow>
           Inr \<lparr>out_fileName = fm_fileName (metadata_of (opt_shareCode opts) mapping (opt_encryptionKey opts) (now env)),
                 out_fileSize = fm_fileSize (metadata_of (opt_shareCode opts) mapping (opt_encryptionKey opts) (now env)),
                 out_mimeType = fm_mimeType (metadata_of (opt_shareCode opts) mapping (opt_encryptionKey opts) (now env)),
                 out_data = plain\<rparr>))"
proof -
  define md where "md = metadata_of (opt_shareCode opts) mapping (opt_encryptionKey opts) (now env)"
  have f: "fm_isEncrypted md" "fm_iv md = Some i"
    using iv by (simp_all add: md_def metadata_of_def truthy_def)
  have n: "\<not> (truthy (mr_iv mapping) \<and> \<not> truthy (opt_encryptionKey opts))"
    using k by (simp add: truthy_def)
  have ad: "after_download env md (opt_encryptionKey opts) res =
     ([DecryptBlob d k i],
      (case decryptFileFromBlob env d k i of
         Inl e \<Rightarrow> Inl (Error (''Decryption failed: '' @ error_message e))
       | Inr plain \<Rightarrow>
           Inr \<lparr>out_fileName = fm_fileName md, out_fileSize = fm_fileSize md,
                 out_mimeType = fm_mimeType md, out_data = plain\<rparr>))"
    unfolding k(1) by (rule after_download_decrypts [OF ok f iv(2) k(2)])
  have h: "useFileDownload_mutationFn env opts =
     (pre @ [ZgDownloadFile (mr_rootHash mapping) True] @
        fst (after_download env md (opt_encryptionKey opts) res),
      Some md, snd (after_download env md (opt_encryptionKey opts) res))"
    using download_hook_fetches [OF g n zg c res] unfolding md_def .
  show ?thesis
    unfolding md_def [symmetric] h ad by simp
qed

lemma failure_is_thrown:
  assumes g: "getMappingFrom0G env (opt_shareCode opts) = (pre, Inr mapping)"
    and n: "\<not> (truthy (mr_iv mapping) \<and> \<not> truthy (opt_encryptionKey opts))"
    and zg: "zgStorage env = Some zg" and c: "isConnected env"
    and res: "downloadFile zg (mr_rootHash mapping) True = Inr res"
    and ko: "\<not> dr_success res"
  shows "useFileDownload_mutationFn env opts =
     (pre @ [ZgDownloadFile (mr_rootHash mapping) True],
      Some (metadata_of (opt_shareCode opts) mapping (opt_encryptionKey opts) (now env)),
      Inl (Error (''Download failed: '' @ str_or (dr_error res) ''Unknown error'')))"
  using download_hook_fetches [OF g n zg c res]
  by (simp add: after_download_failed [OF ko])

lemma downloadFile_data_iff:
  "(\<exists>res. downloadFile zg rootHash withProof = Inr res \<and> dr_success res \<and> dr_data res = Some d) \<longleftrightarrow>
   downloadFile_body zg rootHash withProof = Inr d"
  by (cases "downloadFile_body zg rootHash withProof") (auto simp: downloadFile_def)

lemma downloadFile_body_data:
  "downloadFile_body zg rootHash withProof = Inr d \<Longrightarrow>
   downloadFileData (zg\<lparr>indexer_set := True\<rparr>) rootHash withProof = Inr d"
  unfolding downloadFile_body_def
  by (auto split: sum.splits option.splits if_splits)

lemma fallback_ignores_proof:
  "downloadFileDataFallback env rootHash True = downloadFileDataFallback env rootHash False"
  by (simp add: downloadFileDataFallback_def)

lemma one_download_call:
  assumes m: "useFileDownload_mutationFn env opts = (evs, info, r)"
  shows "length (filter is_network evs) \<le> 1"
proof -
  from mutation_cases [OF m]
  consider (local) "\<forall>ev \<in> set evs. ev = LocalGet (mapping_key (opt_shareCode opts))"
    | (fetch) pre mapping md res evs' where
        "getMappingFrom0G env (opt_shareCode opts) = (pre, Inr mapping)"
        "after_download env md (opt_encryptionKey opts) res = (evs', r)"
        "evs = pre @ [ZgDownloadFile (fm_pieceCid md) True] @ evs'"
    by blast
  then show ?thesis
  proof cases
    case local
    then have "filter is_network evs = []" by (auto simp: filter_empty_conv)
    then show ?thesis by simp
  next
    case fetch
    have pre: "\<forall>ev \<in> set pre. ev = LocalGet (mapping_key (opt_shareCode opts))"
      using getMappingFrom0G_events [of _ env "opt_shareCode opts"] fetch(1) by simp
    then have p: "filter is_network pre = []" by (auto simp: filter_empty_conv)
    have "evs' = [] \<or> (\<exists>d k i. evs' = [DecryptBlob d k i])"
      using after_download_cases [OF fetch(2)] decrypt_download_cases by blast
    then have e: "filter is_network evs' = []" by auto
    show ?thesis unfolding fetch(3) using p e by simp
  qed
qed

lemma env_failover_download:
  "downloadFile env_failover ''0xroot'' True =
     Inr \<lparr>dr_success = False, dr_data = None,
          dr_error = Some ''No segments were successfully downloaded''\<rparr>"
  by (simp add: downloadFile_def env_failover_body error_message_def)

text \<open>
  The statement of claim C2 fails on the code: no digest of the reassembled bytes is
  computed or compared anywhere between the download and the decryption. Two networks
  deliver different bytes for the same share code and the same root hash, the first of
  them the second segment alone of a file of two; in both cases the hook decrypts what it
  got and returns it as the file, and no integrity failure is raised.
\<close>

theorem decrypt_unverified_counterexample:
  "useFileDownload_mutationFn (hook_with record_encrypted env_partial)
       \<lparr>opt_shareCode = ''privshare://0g-ab12-cd34-ef56-gh78'', opt_encryptionKey = Some ''secret''\<rparr> =
     ([LocalGet ''privshare:mapping:privshare://0g-ab12-cd34-ef56-gh78'', ZgDownloadFile ''0xroot'' True,
       DecryptBlob [1, 2, 3] ''secret'' ''a1b2c3''],
      Some (metadata_of ''privshare://0g-ab12-cd34-ef56-gh78'' record_encrypted (Some ''secret'') 1700000000000),
      Inr \<lparr>out_fileName = ''report.pdf'', out_fileSize = 262145, out_mimeType = ''application/pdf'',
           out_data = [3, 2, 1]\<rparr>) \<and>
   useFileDownload_mutationFn (hook_with record_encrypted env_other_bytes)
       \<lparr>opt_shareCode = ''privshare://0g-ab12-cd34-ef56-gh78'', opt_encryptionKey = Some ''secret''\<rparr> =
     ([LocalGet ''privshare:mapping:privshare://0g-ab12-cd34-ef56-gh78'', ZgDownloadFile ''0xroot'' True,
       DecryptBlob [4, 5, 6, 4, 5, 6] ''secret'' ''a1b2c3''],
      Some (metadata_of ''privshare://0g-ab12-cd34-ef56-gh78'' record_encrypted (Some ''secret'') 1700000000000),
      Inr \<lparr>out_fileName = ''report.pdf'', out_fileSize = 262145, out_mimeType = ''application/pdf'',
           out_data = [6, 5, 4, 6, 5, 4]\<rparr>)"
  using encrypted_download [OF env_partial_download] encrypted_download [OF env_other_download]
  by simp

text \<open>
  Claim C2, as the code has it. On a download of an encrypted file, that is with a truthy
  \<open>iv\<close> in the mapping record and a key from the caller, the storage service being there
  and connected, the hook calls \<open>zgStorage.downloadFile\<close> once, with the proof flag set,
  and, when the call resolves with success and data, calls the decryption capability
  once, after the download, on exactly the bytes \<open>downloadFile\<close> returned, whatever they
  are, with the caller's key and the \<open>iv\<close> of the record: no digest of the bytes is
  computed or compared with the root hash, by the hook or by \<open>downloadFile\<close>, which hands
  on the bytes its retrieval path assembled. Decryption is attempted in no other case,
  and before the download only the local cache is read. A download that the service
  reports as failed is thrown as \<open>Download failed: ...\<close>, whatever its cause, with nothing
  decrypted; a failing decryption is thrown as \<open>Decryption failed: ...\<close>; the hook makes no
  second call of the network. \<open>downloadFile\<close>, once it has found the file, returns what
  \<open>downloadFileData\<close> returns, which is the reassembly of the fetched segments and nothing
  else; a failure of the primary path is followed by the fallback path, whose result
  does not depend on the proof flag.
\<close>

theorem decrypt_after_download:
  "(useFileDownload_mutationFn env opts = (evs, info, r) \<and> DecryptBlob d k i \<in> set evs \<longrightarrow>
      (\<exists>pre md zg res.
           evs = pre @ [ZgDownloadFile (fm_pieceCid md) True, DecryptBlob d k i] \<and>
           (\<forall>ev \<in> set pre. \<not> is_network ev) \<and>
           info = Some md \<and> fm_isEncrypted md \<and> fm_iv md = Some i \<and>
           opt_encryptionKey opts = Some k \<and>
           zgStorage env = Some zg \<and>
           downloadFile zg (fm_pieceCid md) True = Inr res \<and>
           dr_success res \<and> dr_data res = Some d \<and>
           r = (case decryptFileFromBlob env d k i of
                  Inl e \<Rightarrow> Inl (Error (''Decryption failed: '' @ error_message e))
                | Inr plain \<Rightarrow>
                    Inr \<lparr>out_fileName = fm_fileName md, out_fileSize = fm_fileSize md,
                          out_mimeType = fm_mimeType md, out_data = plain\<rparr>))) \<and>
   (useFileDownload_mutationFn env opts = (evs, info, r) \<and>
    ZgDownloadFile rootHash withProof \<in> set evs \<longrightarrow>
      (\<exists>zg res. zgStorage env = Some zg \<and> downloadFile zg rootHash withProof = Inr res \<and>
           (\<not> dr_success res \<longrightarrow>
              r = Inl (Error (''Download failed: '' @ str_or (dr_error res) ''Unknown error'')) \<and>
              (\<forall>d k i. DecryptBlob d k i \<notin> set evs)))) \<and>
   (useFileDownload_mutationFn env opts = (evs, info, r) \<longrightarrow> length (filter is_network evs) \<le> 1) \<and>
   (getMappingFrom0G env (opt_shareCode opts) = (cached, Inr mapping) \<and>
    mr_iv mapping = Some i \<and> i \<noteq> [] \<and> opt_encryptionKey opts = Some k \<and> k \<noteq> [] \<and>
    zgStorage env = Some zg \<and> isConnected env \<and>
    downloadFile zg (mr_rootHash mapping) True = Inr res \<and> dr_success res \<and> dr_data res = Some d \<longrightarrow>
      useFileDownload_mutationFn env opts =
        (cached @ [ZgDownloadFile (mr_rootHash mapping) True, DecryptBlob d k i],
         Some (metadata_of (opt_shareCode opts) mapping (opt_encryptionKey opts) (now env)),
         (case decryptFileFromBlob env d k i of
            Inl e \<Rightarrow> Inl (Error (''Decryption failed: '' @ error_message e))
          | Inr plain \<Rightarrow>
              Inr \<lparr>out_fileName = fm_fileName (metadata_of (opt_shareCode opts) mapping (opt_encryptionKey opts) (now env)),
                    out_fileSize = fm_fileSize (metadata_of (opt_shareCode opts) mapping (opt_encryptionKey opts) (now env)),
                    out_mimeType = fm_mimeType (metadata_of (opt_shareCode opts) mapping (opt_encryptionKey opts) (now env)),
                    out_data = plain\<rparr>))) \<and>
   (getMappingFrom0G env (opt_shareCode opts) = (cached, Inr mapping) \<and>
    \<not> (truthy (mr_iv mapping) \<and> \<not> truthy (opt_encryptionKey opts)) \<and>
    zgStorage env = Some zg \<and> isConnected env \<and>
    downloadFile zg (mr_rootHash mapping) True = Inr res \<and> \<not> dr_success res \<longrightarrow>
      useFileDownload_mutationFn env opts =
        (cached @ [ZgDownloadFile (mr_rootHash mapping) True],
         Some (metadata_of (opt_shareCode opts) mapping (opt_encryptionKey opts) (now env)),
         Inl (Error (''Download failed: '' @ str_or (dr_error res) ''Unknown error'')))) \<and>
   ((\<exists>res. downloadFile net rootHash withProof = Inr res \<and> dr_success res \<and> dr_data res = Some d) \<longleftrightarrow>
      downloadFile_body net rootHash withProof = Inr d) \<and>
   (downloadFile_body net rootHash withProof = Inr d \<longrightarrow>
      downloadFileData (net\<lparr>indexer_set := True\<rparr>) rootHash withProof = Inr d) \<and>
   (initializeSDK net = Inr () \<and> getFileLocations net 0 rootHash = Inr (Some nodes) \<and> nodes \<noteq> [] \<and>
    fst (find_file_info (getFileInfo net 0 rootHash) nodes) = Some found \<longrightarrow>
      downloadFile_body net rootHash withProof =
        downloadFileData (net\<lparr>indexer_set := True\<rparr>) rootHash withProof) \<and>
   downloadFileData net rootHash withProof =
     (case downloadFileData_primary net rootHash withProof of
        Inr fileData \<Rightarrow> Inr fileData
      | Inl primaryError \<Rightarrow> downloadFileDataFallback net rootHash withProof) \<and>
   (initializeSDK net = Inr () \<and>
    getFileLocations net 1 rootHash = Inr (Some nodes) \<and> nodes \<noteq> [] \<and>
    queryFile net nodes rootHash = Inr (Some fileInfo, None) \<and> finalized fileInfo \<and>
    tx fileInfo = Some t \<and> getShardConfigs net nodes = Some configs \<longrightarrow>
      downloadFileData_primary net rootHash withProof =
        assemble (primary_tasks net nodes configs fileInfo t withProof)) \<and>
   (getFileLocations net 2 rootHash = Inr (Some nodes) \<and> nodes \<noteq> [] \<and>
    fst (find_file_info (getFileInfo net 1 rootHash) nodes) = Some fileInfo \<and> tx fileInfo = Some t \<longrightarrow>
      downloadFileDataFallback net rootHash withProof =
        assemble (fst (fallback_fetch net nodes fileInfo t))) \<and>
   (assemble segments = Inr d \<longleftrightarrow> segments \<noteq> [] \<and> d = concat segments) \<and>
   downloadFileDataFallback net rootHash True = downloadFileDataFallback net rootHash False"
proof -
  have j: "initializeSDK net = Inr () \<and> getFileLocations net 0 rootHash = Inr (Some nodes) \<and> nodes \<noteq> [] \<and>
    fst (find_file_info (getFileInfo net 0 rootHash) nodes) = Some found \<longrightarrow>
      downloadFile_body net rootHash withProof =
        downloadFileData (net\<lparr>indexer_set := True\<rparr>) rootHash withProof"
    by (simp add: downloadFile_body_def)
  have k: "downloadFileData net rootHash withProof =
     (case downloadFileData_primary net rootHash withProof of
        Inr fileData \<Rightarrow> Inr fileData
      | Inl primaryError \<Rightarrow> downloadFileDataFallback net rootHash withProof)"
    by (simp add: downloadFileData_def split: sum.splits)
  have l: "initializeSDK net = Inr () \<and>
    getFileLocations net 1 rootHash = Inr (Some nodes) \<and> nodes \<noteq> [] \<and>
    queryFile net nodes rootHash = Inr (Some fileInfo, None) \<and> finalized fileInfo \<and>
    tx fileInfo = Some t \<and> getShardConfigs net nodes = Some configs \<longrightarrow>
      downloadFileData_primary net rootHash withProof =
        assemble (primary_tasks net nodes configs fileInfo t withProof)"
    using primary_eq [of net rootHash nodes fileInfo t configs withProof] by blast
  have m: "getFileLocations net 2 rootHash = Inr (Some nodes) \<and> nodes \<noteq> [] \<and>
    fst (find_file_info (getFileInfo net 1 rootHash) nodes) = Some fileInfo \<and> tx fileInfo = Some t \<longrightarrow>
      downloadFileDataFallback net rootHash withProof =
        assemble (fst (fallback_fetch net nodes fileInfo t))"
    using fallback_eq [of net rootHash nodes fileInfo t withProof] by blast
  have a: "useFileDownload_mutationFn env opts = (evs, info, r) \<and> DecryptBlob d k i \<in> set evs \<longrightarrow>
      (\<exists>pre md zg res.
           evs = pre @ [ZgDownloadFile (fm_pieceCid md) True, DecryptBlob d k i] \<and>
           (\<forall>ev \<in> set pre. \<not> is_network ev) \<and>
           info = Some md \<and> fm_isEncrypted md \<and> fm_iv md = Some i \<and>
           opt_encryptionKey opts = Some k \<and>
           zgStorage env = Some zg \<and>
           downloadFile zg (fm_pieceCid md) True = Inr res \<and>
           dr_success res \<and> dr_data res = Some d \<and>
           r = (case decryptFileFromBlob env d k i of
                  Inl e \<Rightarrow> Inl (Error (''Decryption failed: '' @ error_message e))
                | Inr plain \<Rightarrow>
                    Inr \<lparr>out_fileName = fm_fileName md, out_fileSize = fm_fileSize md,
                          out_mimeType = fm_mimeType md, out_data = plain\<rparr>))"
    using decrypt_after_download_aux [of env opts evs info r d k i] by blast
  have b: "useFileDownload_mutationFn env opts = (evs, info, r) \<and>
    ZgDownloadFile rootHash withProof \<in> set evs \<longrightarrow>
      (\<exists>zg res. zgStorage env = Some zg \<and> downloadFile zg rootHash withProof = Inr res \<and>
           (\<not> dr_success res \<longrightarrow>
              r = Inl (Error (''Download failed: '' @ str_or (dr_error res) ''Unknown error'')) \<and>
              (\<forall>d k i. DecryptBlob d k i \<notin> set evs)))"
    using download_failure_surfaced [of env opts evs info r rootHash withProof] by blast
  have c: "useFileDownload_mutationFn env opts = (evs, info, r) \<longrightarrow> length (filter is_network evs) \<le> 1"
    using one_download_call [of env opts evs info r] by blast
  have d: "getMappingFrom0G env (opt_shareCode opts) = (cached, Inr mapping) \<and>
    mr_iv mapping = Some i \<and> i \<noteq> [] \<and> opt_encryptionKey opts = Some k \<and> k \<noteq> [] \<and>
    zgStorage env = Some zg \<and> isConnected env \<and>
    downloadFile zg (mr_rootHash mapping) True = Inr res \<and> dr_success res \<and> dr_data res = Some d \<longrightarrow>
      useFileDownload_mutationFn env opts =
        (cached @ [ZgDownloadFile (mr_rootHash mapping) True, DecryptBlob d k i],
         Some (metadata_of (opt_shareCode opts) mapping (opt_encryptionKey opts) (now env)),
         (case decryptFileFromBlob env d k i of
            Inl e \<Rightarrow> Inl (Error (''Decryption failed: '' @ error_message e))
          | Inr plain \<Rightarrow>
              Inr \<lparr>out_fileName = fm_fileName (metadata_of (opt_shareCode opts) mapping (opt_encryptionKey opts) (now env)),
                    out_fileSize = fm_fileSize (metadata_of (opt_shareCode opts) mapping (opt_encryptionKey opts) (now env)),
                    out_mimeType = fm_mimeType (metadata_of (opt_shareCode opts) mapping (opt_encryptionKey opts) (now env)),
                    out_data = plain\<rparr>))"
    using decrypts_what_it_got [of env opts cached mapping i k zg res d] by blast
  have e: "getMappingFrom0G env (opt_shareCode opts) = (cached, Inr mapping) \<and>
    \<not> (truthy (mr_iv mapping) \<and> \<not> truthy (opt_encryptionKey opts)) \<and>
    zgStorage env = Some zg \<and> isConnected env \<and>
    downloadFile zg (mr_rootHash mapping) True = Inr res \<and> \<not> dr_success res \<longrightarrow>
      useFileDownload_mutationFn env opts =
        (cached @ [ZgDownloadFile (mr_rootHash mapping) True],
         Some (metadata_of (opt_shareCode opts) mapping (opt_encryptionKey opts) (now env)),
         Inl (Error (''Download failed: '' @ str_or (dr_error res) ''Unknown error'')))"
    using failure_is_thrown [of env opts cached mapping zg res] by blast
  have f: "downloadFile_body net rootHash withProof = Inr d \<longrightarrow>
      downloadFileData (net\<lparr>indexer_set := True\<rparr>) rootHash withProof = Inr d"
    using downloadFile_body_data [of net rootHash withProof d] by blast
  show ?thesis
    using a b c d e downloadFile_data_iff [of net rootHash withProof d] f j k l m
      assemble_iff [of segments d] fallback_ignores_proof [of net rootHash]
    by (intro conjI)
qed

lemma example_hook_facts:
  "mr_iv record_encrypted = Some ''a1b2c3''" "mr_rootHash record_encrypted = ''0xroot''"
  "zgStorage (hook_with record_encrypted net) = Some net"
  "isConnected (hook_with record_encrypted net)"
  "now (hook_with record_encrypted net) = 1700000000000"
  "decryptFileFromBlob (hook_with record_encrypted net) [4, 5, 6, 4, 5, 6] ''secret'' ''a1b2c3''
     = Inr [6, 5, 4, 6, 5, 4]"
  by (simp_all add: record_encrypted_def hook_with_def)

theorem decrypt_after_download_witness:
  "getMappingFrom0G (hook_with record_encrypted env_other_bytes) ''privshare://0g-ab12-cd34-ef56-gh78'' =
     ([LocalGet ''privshare:mapping:privshare://0g-ab12-cd34-ef56-gh78''], Inr record_encrypted) \<and>
   mr_iv record_encrypted = Some ''a1b2c3'' \<and>
   zgStorage (hook_with record_encrypted env_other_bytes) = Some env_other_bytes \<and>
   isConnected (hook_with record_encrypted env_other_bytes) \<and>
   downloadFile env_other_bytes ''0xroot'' True =
     Inr \<lparr>dr_success = True, dr_data = Some [4, 5, 6, 4, 5, 6], dr_error = None\<rparr> \<and>
   useFileDownload_mutationFn (hook_with record_encrypted env_other_bytes)
       \<lparr>opt_shareCode = ''privshare://0g-ab12-cd34-ef56-gh78'', opt_encryptionKey = Some ''secret''\<rparr> =
     ([LocalGet ''privshare:mapping:privshare://0g-ab12-cd34-ef56-gh78'', ZgDownloadFile ''0xroot'' True,
       DecryptBlob [4, 5, 6, 4, 5, 6] ''secret'' ''a1b2c3''],
      Some (metadata_of ''privshare://0g-ab12-cd34-ef56-gh78'' record_encrypted (Some ''secret'') 1700000000000),
      Inr \<lparr>out_fileName = ''report.pdf'', out_fileSize = 262145, out_mimeType = ''application/pdf'',
           out_data = [6, 5, 4, 6, 5, 4]\<rparr>) \<and>
   downloadFile env_failover ''0xroot'' True =
     Inr \<lparr>dr_success = False, dr_data = None,
          dr_error = Some ''No segments were successfully downloaded''\<rparr> \<and>
   useFileDownload_mutationFn (hook_with record_encrypted env_failover)
       \<lparr>opt_shareCode = ''privshare://0g-ab12-cd34-ef56-gh78'', opt_encryptionKey = Some ''secret''\<rparr> =
     ([LocalGet ''privshare:mapping:privshare://0g-ab12-cd34-ef56-gh78'', ZgDownloadFile ''0xroot'' True],
      Some (metadata_of ''privshare://0g-ab12-cd34-ef56-gh78'' record_encrypted (Some ''secret'') 1700000000000),
      Inl (Error ''Download failed: No segments were successfully downloaded''))"
proof -
  have one: "useFileDownload_mutationFn (hook_with record_encrypted env_other_bytes)
       \<lparr>opt_shareCode = ''privshare://0g-ab12-cd34-ef56-gh78'', opt_encryptionKey = Some ''secret''\<rparr> =
     ([LocalGet ''privshare:mapping:privshare://0g-ab12-cd34-ef56-gh78'', ZgDownloadFile ''0xroot'' True,
       DecryptBlob [4, 5, 6, 4, 5, 6] ''secret'' ''a1b2c3''],
      Some (metadata_of ''privshare://0g-ab12-cd34-ef56-gh78'' record_encrypted (Some ''secret'') 1700000000000),
      Inr \<lparr>out_fileName = ''report.pdf'', out_fileSize = 262145, out_mimeType = ''application/pdf'',
           out_data = [6, 5, 4, 6, 5, 4]\<rparr>)"
    using decrypt_after_download [where env = "hook_with record_encrypted env_other_bytes"
        and opts = "\<lparr>opt_shareCode = ''privshare://0g-ab12-cd34-ef56-gh78'', opt_encryptionKey = Some ''secret''\<rparr>"
        and cached = "[LocalGet ''privshare:mapping:privshare://0g-ab12-cd34-ef56-gh78'']"
        and mapping = record_encrypted and i = "''a1b2c3''" and k = "''secret''"
        and zg = env_other_bytes and d = "[4, 5, 6, 4, 5, 6]"
        and res = "\<lparr>dr_success = True, dr_data = Some [4, 5, 6, 4, 5, 6], dr_error = None\<rparr>"]
      cached_lookup [of record_encrypted env_other_bytes] env_other_download
      example_hook_facts(1,2) example_hook_facts(3-6) [of env_other_bytes]
    by (simp add: metadata_encrypted)
  have two: "useFileDownload_mutationFn (hook_with record_encrypted env_failover)
       \<lparr>opt_shareCode = ''privshare://0g-ab12-cd34-ef56-gh78'', opt_encryptionKey = Some ''secret''\<rparr> =
     ([LocalGet ''privshare:mapping:privshare://0g-ab12-cd34-ef56-gh78'', ZgDownloadFile ''0xroot'' True],
      Some (metadata_of ''privshare://0g-ab12-cd34-ef56-gh78'' record_encrypted (Some ''secret'') 1700000000000),
      Inl (Error ''Download failed: No segments were successfully downloaded''))"
    using decrypt_after_download [where env = "hook_with record_encrypted env_failover"
        and opts = "\<lparr>opt_shareCode = ''privshare://0g-ab12-cd34-ef56-gh78'', opt_encryptionKey = Some ''secret''\<rparr>"
        and cached = "[LocalGet ''privshare:mapping:privshare://0g-ab12-cd34-ef56-gh78'']"
        and mapping = record_encrypted and zg = env_failover
        and res = "\<lparr>dr_success = False, dr_data = None,
                     dr_error = Some ''No segments were successfully downloaded''\<rparr>"]
      cached_lookup [of record_encrypted env_failover] env_failover_download
      example_hook_facts(1,2) example_hook_facts(3-5) [of env_failover]
    by (simp add: truthy_def str_or_def)
  show ?thesis
    using cached_lookup [of record_encrypted env_other_bytes] example_hook_facts(1)
      example_hook_facts(3,4) [of env_other_bytes] env_other_download one env_failover_download two
    by (intro conjI)
qed

end
